theory Spec2Isabelle
  imports Main "HOL-Library.Word"
begin

unbundle bit_operations_syntax

section \<open>Data model of \<open>TexColumnsApp.cpp\<close>\<close>

text \<open>
  Machine types. \<open>UINT\<close> is 32 bits, \<open>UINT64\<close> (fence values, GPU virtual addresses)
  is 64 bits; both wrap. A \<open>float\<close> is kept as its 32-bit IEEE-754 pattern: the code
  under study copies and permutes floats, and wherever it computes with them the
  operation is an explicit parameter of the model.
\<close>

type_synonym UINT = "32 word"
type_synonym UINT64 = "64 word"
type_synonym float = "32 word"

text \<open>\<open>const int gNumFrameResources = 3;\<close>\<close>

definition gNumFrameResources :: nat where
  "gNumFrameResources = 3"

record XMFLOAT4X4 =
  m11 :: float  m12 :: float  m13 :: float  m14 :: float
  m21 :: float  m22 :: float  m23 :: float  m24 :: float
  m31 :: float  m32 :: float  m33 :: float  m34 :: float
  m41 :: float  m42 :: float  m43 :: float  m44 :: float

type_synonym XMFLOAT2 = "float \<times> float"
type_synonym XMFLOAT3 = "float \<times> float \<times> float"
type_synonym XMFLOAT4 = "float \<times> float \<times> float \<times> float"

text \<open>The float literals that appear below, as bit patterns.\<close>

definition f_0 :: float where "f_0 = 0x00000000"
definition f_1 :: float where "f_1 = 0x3F800000"
definition f_5 :: float where "f_5 = 0x40A00000"
definition f_0_5 :: float where "f_0_5 = 0x3F000000"
definition f_0_1 :: float where "f_0_1 = 0x3DCCCCCD"
definition f_0_02 :: float where "f_0_02 = 0x3CA3D70A"
definition f_0_05 :: float where "f_0_05 = 0x3D4CCCCD"
definition f_0_3 :: float where "f_0_3 = 0x3E99999A"
definition f_0_01 :: float where "f_0_01 = 0x3C23D70A"
definition f_0_125 :: float where "f_0_125 = 0x3E000000"

text \<open>\<open>MathHelper::Identity4x4()\<close> and \<open>XMMatrixScaling(sx, sy, sz)\<close> place their
  arguments on the diagonal; \<open>XMMatrixTranspose\<close> mirrors the entries.\<close>

definition XMMatrixScaling :: "float \<Rightarrow> float \<Rightarrow> float \<Rightarrow> XMFLOAT4X4" where
  "XMMatrixScaling sx sy sz =
     \<lparr>m11 = sx, m12 = f_0, m13 = f_0, m14 = f_0,
      m21 = f_0, m22 = sy, m23 = f_0, m24 = f_0,
      m31 = f_0, m32 = f_0, m33 = sz, m34 = f_0,
      m41 = f_0, m42 = f_0, m43 = f_0, m44 = f_1\<rparr>"

definition Identity4x4 :: XMFLOAT4X4 where
  "Identity4x4 = XMMatrixScaling f_1 f_1 f_1"

definition XMMatrixTranspose :: "XMFLOAT4X4 \<Rightarrow> XMFLOAT4X4" where
  "XMMatrixTranspose M =
     \<lparr>m11 = m11 M, m12 = m21 M, m13 = m31 M, m14 = m41 M,
      m21 = m12 M, m22 = m22 M, m23 = m32 M, m24 = m42 M,
      m31 = m13 M, m32 = m23 M, m33 = m33 M, m34 = m43 M,
      m41 = m14 M, m42 = m24 M, m43 = m34 M, m44 = m44 M\<rparr>"

datatype D3D_PRIMITIVE_TOPOLOGY = TRIANGLELIST | POINTLIST

text \<open>\<open>enum class RenderLayer\<close>; its last enumerator \<open>Count\<close> only sizes the array
  \<open>mRitemLayer\<close>.\<close>

datatype RenderLayer = Opaque | Transparent | AlphaTested | AlphaTestedTreeSprites

text \<open>
  \<open>struct RenderItem\<close>. The two raw pointers \<open>Mat\<close> and \<open>Geo\<close> point into the maps
  \<open>mMaterials\<close> and \<open>mGeometries\<close>; the model keeps the key under which the pointee is
  stored. \<open>NumFramesDirty\<close> is a C++ \<open>int\<close> that only ever holds 0..3.
\<close>

record RenderItem =
  World :: XMFLOAT4X4
  TexTransform :: XMFLOAT4X4
  NumFramesDirty :: int
  ObjCBIndex :: UINT
  Mat :: string
  Geo :: string
  PrimitiveType :: D3D_PRIMITIVE_TOPOLOGY
  IndexCount :: UINT
  StartIndexLocation :: UINT
  BaseVertexLocation :: "32 word"

text \<open>\<open>SubmeshGeometry\<close> (an entry of \<open>MeshGeometry::DrawArgs\<close>).\<close>

record SubmeshGeometry =
  SubIndexCount :: UINT
  SubStartIndexLocation :: UINT
  SubBaseVertexLocation :: "32 word"

text \<open>
  \<open>struct Material\<close> as the source uses it. The struct itself is declared in
  \<open>Common/d3dUtil.h\<close>; its field \<open>NumFramesDirty\<close> starts at \<open>gNumFrameResources\<close>
  and \<open>MatTransform\<close> at the identity.
\<close>

record Material =
  MatCBIndex :: int
  DiffuseSrvHeapIndex :: int
  MatNumFramesDirty :: int
  DiffuseAlbedo :: XMFLOAT4
  FresnelR0 :: XMFLOAT3
  Roughness :: float
  MatTransform :: XMFLOAT4X4

record ObjectConstants =
  ocWorld :: XMFLOAT4X4
  ocTexTransform :: XMFLOAT4X4

record MaterialConstants =
  mcDiffuseAlbedo :: XMFLOAT4
  mcFresnelR0 :: XMFLOAT3
  mcRoughness :: float
  mcMatTransform :: XMFLOAT4X4

record Vertex =
  Pos :: XMFLOAT3
  Normal :: XMFLOAT3
  TexC :: XMFLOAT2

text \<open>\<open>PassConstants\<close> is a plain struct of floats; the model keeps its memory image.\<close>

type_synonym PassConstants = "float list"

text \<open>
  \<open>struct FrameResource\<close>: the stamped fence value and the four upload buffers. An
  \<open>UploadBuffer<T>\<close> of \<open>n\<close> elements is a list of length \<open>n\<close>.
\<close>

record FrameResource =
  Fence :: UINT64
  PassCB :: "PassConstants list"
  ObjectCB :: "ObjectConstants list"
  MaterialCB :: "MaterialConstants list"
  WavesVB :: "Vertex list"

text \<open>
  The fence object together with the command queue feeding it: the value the GPU has
  reached, and the values of the \<open>Signal\<close> commands still queued, oldest first.
\<close>

record GpuFence =
  completed :: UINT64
  pending :: "UINT64 list"

text \<open>
  The members of \<open>TexColumnsApp\<close> (and of its base \<open>D3DApp\<close>) that the modelled functions
  touch. A \<open>RenderItem*\<close> is the position of the item in \<open>mAllRitems\<close>, which owns the
  items and only ever grows. \<open>mCurrFrameResource\<close> always equals
  \<open>mFrameResources[mCurrFrameResourceIndex]\<close> once \<open>Update\<close> has run, so the model
  derives it. \<open>VertexBufferGPU g\<close> is the field of that name of \<open>mGeometries[g]\<close> where
  it is a frame resource's \<open>WavesVB\<close>: the number of that frame resource.
\<close>

record App =
  mFrameResources :: "FrameResource list"
  mCurrFrameResourceIndex :: nat
  mMaterials :: "(string \<times> Material) list"
  mAllRitems :: "RenderItem list"
  mRitemLayer :: "RenderLayer \<Rightarrow> nat list"
  mWavesRitem :: "nat option"
  VertexBufferGPU :: "string \<Rightarrow> nat option"
  mCurrentFence :: UINT64
  mFence :: GpuFence

definition mCurrFrameResource :: "App \<Rightarrow> FrameResource" where
  "mCurrFrameResource s = mFrameResources s ! mCurrFrameResourceIndex s"

section \<open>Scene set-up\<close>

subsection \<open>\<open>BuildMaterials\<close>\<close>

text \<open>\<open>Colors\<close> stands for the constants of \<open>DirectXColors.h\<close>.\<close>

definition new_Material :: "int \<Rightarrow> int \<Rightarrow> XMFLOAT4 \<Rightarrow> XMFLOAT3 \<Rightarrow> float \<Rightarrow> Material" where
  "new_Material cb srv albedo fresnel rough =
     \<lparr>MatCBIndex = cb, DiffuseSrvHeapIndex = srv,
      MatNumFramesDirty = int gNumFrameResources,
      DiffuseAlbedo = albedo, FresnelR0 = fresnel, Roughness = rough,
      MatTransform = Identity4x4\<rparr>"

text \<open>The seven assignments \<open>mMaterials[name] = std::move(m)\<close> add seven entries: the
  names differ and the map is empty when \<open>Initialize\<close> calls \<open>BuildMaterials\<close>.\<close>

definition BuildMaterials :: "(string \<Rightarrow> XMFLOAT4) \<Rightarrow> App \<Rightarrow> App" where
  "BuildMaterials Colors s =
     (let bricks0 = new_Material 0 0 (Colors ''ForestGreen'') (f_0_02, f_0_02, f_0_02) f_0_1;
          stone0 = new_Material 1 1 (Colors ''LightSteelBlue'') (f_0_05, f_0_05, f_0_05) f_0_3;
          tile0 = new_Material 2 2 (Colors ''LightGray'') (f_0_02, f_0_02, f_0_02) f_0_3;
          grass = new_Material 3 3 (f_1, f_1, f_1, f_1) (f_0_01, f_0_01, f_0_01) f_0_125;
          water = new_Material 4 4 (f_1, f_1, f_1, f_0_5) (f_0_1, f_0_1, f_0_1) f_0;
          bricks3 = new_Material 5 5 (Colors ''RosyBrown'') (f_0_02, f_0_02, f_0_02) f_0_1;
          treeSprites = new_Material 6 6 (f_1, f_1, f_1, f_1) (f_0_01, f_0_01, f_0_01) f_0_125
      in s\<lparr>mMaterials := mMaterials s @
            [(''bricks0'', bricks0), (''bricks3'', bricks3), (''stone0'', stone0),
             (''tile0'', tile0), (''grass'', grass), (''water'', water),
             (''treeSprites'', treeSprites)]\<rparr>)"

subsection \<open>\<open>BuildRenderItems\<close>\<close>

text \<open>
  What \<open>BuildRenderItems\<close> reads from elsewhere: the submesh table
  \<open>mGeometries[geo]->DrawArgs[name]\<close>, filled by the geometry builders, and the world
  matrices, which DirectXMath computes from float literals. \<open>WorldOf v i\<close> is the matrix
  the source stores into the \<open>World\<close> of the item held by the local variable \<open>v\<close>, in
  iteration \<open>i\<close> of the enclosing loop (0 outside a loop).
\<close>

record SceneInputs =
  DrawArgs :: "string \<Rightarrow> string \<Rightarrow> SubmeshGeometry"
  WorldOf :: "string \<Rightarrow> nat \<Rightarrow> XMFLOAT4X4"

text \<open>One block of the source: \<open>make_unique<RenderItem>()\<close>, then the assignments to
  its fields, \<open>ObjCBIndex = objCBIndex++\<close> among them.\<close>

definition new_RenderItem ::
  "SceneInputs \<Rightarrow> XMFLOAT4X4 \<Rightarrow> XMFLOAT4X4 \<Rightarrow> string \<Rightarrow> string \<Rightarrow> string \<Rightarrow>
   D3D_PRIMITIVE_TOPOLOGY \<Rightarrow> UINT \<Rightarrow> RenderItem" where
  "new_RenderItem inp world tex mat geo sub topo objCBIndex =
     \<lparr>World = world, TexTransform = tex,
      NumFramesDirty = int gNumFrameResources,
      ObjCBIndex = objCBIndex, Mat = mat, Geo = geo, PrimitiveType = topo,
      IndexCount = SubIndexCount (DrawArgs inp geo sub),
      StartIndexLocation = SubStartIndexLocation (DrawArgs inp geo sub),
      BaseVertexLocation = SubBaseVertexLocation (DrawArgs inp geo sub)\<rparr>"

text \<open>
  \<open>add_ritem\<close> is the tail of a block: the optional
  \<open>mRitemLayer[layer].push_back(item.get())\<close> followed by
  \<open>mAllRitems.push_back(std::move(item))\<close>. The pointer pushed into the layer is the
  position the item is about to take in \<open>mAllRitems\<close>. The first component of the pair
  is the local counter \<open>objCBIndex\<close>.
\<close>

definition add_ritem ::
  "RenderLayer option \<times> (UINT \<Rightarrow> RenderItem) \<Rightarrow> UINT \<times> App \<Rightarrow> UINT \<times> App" where
  "add_ritem blk st =
     (let objCBIndex = fst st; s = snd st;
          e = snd blk objCBIndex;
          p = length (mAllRitems s);
          s1 = (case fst blk of
                  None \<Rightarrow> s
                | Some L \<Rightarrow> s\<lparr>mRitemLayer := (mRitemLayer s)(L := mRitemLayer s L @ [p])\<rparr>)
      in (objCBIndex + 1, s1\<lparr>mAllRitems := mAllRitems s1 @ [e]\<rparr>))"

definition shape_item ::
  "SceneInputs \<Rightarrow> string \<Rightarrow> nat \<Rightarrow> string \<Rightarrow> string \<Rightarrow> UINT \<Rightarrow> RenderItem" where
  "shape_item inp v i mat sub =
     new_RenderItem inp (WorldOf inp v i) Identity4x4 mat ''shapeGeo'' sub TRIANGLELIST"

text \<open>The blocks of \<open>BuildRenderItems\<close> in source order, the five \<open>for (i = 0; i < 2; ++i)\<close>
  loops unrolled by \<open>concat (map \<dots> [0..<2])\<close>.\<close>

definition ritem_blocks ::
  "SceneInputs \<Rightarrow> (RenderLayer option \<times> (UINT \<Rightarrow> RenderItem)) list" where
  "ritem_blocks inp =
     [(Some Transparent,
        new_RenderItem inp Identity4x4 (XMMatrixScaling f_5 f_5 f_1)
          ''water'' ''waterGeo'' ''grid'' TRIANGLELIST),
      (Some Opaque,
        new_RenderItem inp (WorldOf inp ''wallRitem'' 0) Identity4x4
          ''tile0'' ''wallGeo'' ''wall'' TRIANGLELIST),
      (Some AlphaTested, shape_item inp ''boxRitem'' 0 ''bricks3'' ''box''),
      (Some AlphaTested, shape_item inp ''boxRitem1'' 0 ''bricks3'' ''box''),
      (Some AlphaTested, shape_item inp ''boxRitem2'' 0 ''bricks3'' ''box''),
      (Some AlphaTested, shape_item inp ''boxRitem3'' 0 ''bricks3'' ''box''),
      (Some AlphaTested, shape_item inp ''boxRitem4'' 0 ''bricks3'' ''box''),
      (Some AlphaTested, shape_item inp ''boxRitem6'' 0 ''bricks3'' ''box''),
      (Some AlphaTested, shape_item inp ''boxRitem5'' 0 ''bricks3'' ''box''),
      (Some AlphaTested, shape_item inp ''boxRitem7'' 0 ''bricks3'' ''box''),
      (Some AlphaTested, shape_item inp ''boxRitem8'' 0 ''bricks3'' ''box''),
      (Some AlphaTested, shape_item inp ''boxRitem9'' 0 ''bricks3'' ''box''),
      (Some AlphaTested, shape_item inp ''boxRitem10'' 0 ''bricks3'' ''box''),
      (Some AlphaTested, shape_item inp ''boxRitem11'' 0 ''bricks3'' ''box''),
      (None, shape_item inp ''CylRitem'' 0 ''bricks0'' ''cylinder''),
      (None, shape_item inp ''torusRitem'' 0 ''stone0'' ''torus''),
      (None, shape_item inp ''coneRitem'' 0 ''stone0'' ''cone''),
      (None, shape_item inp ''diamondRitem'' 0 ''stone0'' ''diamond'')]
     @ concat (map (\<lambda>i.
        [(None, shape_item inp ''leftwedgeRitem'' i ''stone0'' ''wedge''),
         (None, shape_item inp ''rightwedgeRitem'' i ''stone0'' ''wedge''),
         (None, shape_item inp ''leftboxRitem'' i ''stone0'' ''box''),
         (None, shape_item inp ''rightboxRitem'' i ''stone0'' ''box'')]) [0..<2])
     @ concat (map (\<lambda>i.
        [(None, shape_item inp ''leftwedgeRitem1'' i ''stone0'' ''wedge''),
         (None, shape_item inp ''rightwedgeRitem1'' i ''stone0'' ''wedge''),
         (None, shape_item inp ''leftboxRitem1'' i ''stone0'' ''box''),
         (None, shape_item inp ''rightboxRitem1'' i ''stone0'' ''box'')]) [0..<2])
     @ concat (map (\<lambda>i.
        [(None, shape_item inp ''leftwedgeRitem2'' i ''stone0'' ''wedge''),
         (None, shape_item inp ''rightwedgeRitem2'' i ''stone0'' ''wedge''),
         (None, shape_item inp ''leftboxRitem2'' i ''stone0'' ''box''),
         (None, shape_item inp ''rightboxRitem2'' i ''stone0'' ''box'')]) [0..<2])
     @ concat (map (\<lambda>i.
        [(None, shape_item inp ''leftwedgeRitem3'' i ''stone0'' ''wedge''),
         (None, shape_item inp ''rightwedgeRitem3'' i ''stone0'' ''wedge''),
         (None, shape_item inp ''leftboxRitem3'' i ''stone0'' ''box''),
         (None, shape_item inp ''rightboxRitem3'' i ''stone0'' ''box'')]) [0..<2])
     @ [(Some Opaque,
          new_RenderItem inp Identity4x4 Identity4x4
            ''grass'' ''landGeo'' ''grid'' TRIANGLELIST),
        (Some AlphaTestedTreeSprites,
          new_RenderItem inp Identity4x4 Identity4x4
            ''treeSprites'' ''treeSpritesGeo'' ''points'' POINTLIST)]
     @ concat (map (\<lambda>i.
        [(None, shape_item inp ''leftCylRitem'' i ''bricks0'' ''cylinder''),
         (None, shape_item inp ''rightCylRitem'' i ''bricks0'' ''cylinder'')]) [0..<2])"

text \<open>
  The closing loop of \<open>BuildRenderItems\<close>:
  \<^verbatim>\<open>int count = 0;
  for (auto& e : mAllRitems) { if (count++ < 4) continue;
                               mRitemLayer[Opaque].push_back(e.get()); }\<close>
\<close>

definition push_rest_opaque :: "App \<Rightarrow> App" where
  "push_rest_opaque s =
     s\<lparr>mRitemLayer := (mRitemLayer s)
          (Opaque := mRitemLayer s Opaque
             @ filter (\<lambda>count. \<not> int count < 4) [0..<length (mAllRitems s)])\<rparr>"

definition BuildRenderItems :: "SceneInputs \<Rightarrow> App \<Rightarrow> App" where
  "BuildRenderItems inp s =
     (let s0 = s\<lparr>mWavesRitem := Some (length (mAllRitems s))\<rparr>;
          built = fold add_ritem (ritem_blocks inp) (0, s0)
      in push_rest_opaque (snd built))"

subsection \<open>\<open>BuildFrameResources\<close>\<close>

text \<open>
  Modelled from the spec: the constructor \<open>FrameResource(device, passCount,
  objectCount, materialCount, waveVertCount)\<close>, which lives in \<open>FrameResource.cpp\<close>. A
  frame resource owns one object slot per render item, one material slot per material,
  one pass slot and a vertex buffer of the wave grid's vertex count, and its fence
  value starts at the sentinel zero. The upload heaps start with unspecified contents,
  the parameters \<open>junk\<close>.
\<close>

record Junk =
  junkPass :: PassConstants
  junkObject :: ObjectConstants
  junkMaterial :: MaterialConstants
  junkVertex :: Vertex

definition new_FrameResource :: "Junk \<Rightarrow> nat \<Rightarrow> nat \<Rightarrow> nat \<Rightarrow> nat \<Rightarrow> FrameResource" where
  "new_FrameResource junk passCount objectCount materialCount waveVertCount =
     \<lparr>Fence = 0,
      PassCB = replicate passCount (junkPass junk),
      ObjectCB = replicate objectCount (junkObject junk),
      MaterialCB = replicate materialCount (junkMaterial junk),
      WavesVB = replicate waveVertCount (junkVertex junk)\<rparr>"

definition BuildFrameResources :: "Junk \<Rightarrow> nat \<Rightarrow> App \<Rightarrow> App" where
  "BuildFrameResources junk waveVertexCount s =
     s\<lparr>mFrameResources := mFrameResources s @
          replicate gNumFrameResources
            (new_FrameResource junk 1 (length (mAllRitems s)) (length (mMaterials s))
               waveVertexCount)\<rparr>"

text \<open>The application object before \<open>Initialize\<close>: empty containers, fence at zero.\<close>

definition App0 :: App where
  "App0 = \<lparr>mFrameResources = [], mCurrFrameResourceIndex = 0, mMaterials = [],
           mAllRitems = [], mRitemLayer = (\<lambda>_. []), mWavesRitem = None,
           VertexBufferGPU = (\<lambda>_. None), mCurrentFence = 0, mFence = \<lparr>completed = 0, pending = []\<rparr>\<rparr>"

text \<open>
  The part of \<open>Initialize\<close> that builds the modelled state, in the source's order. It
  ends with \<open>FlushCommandQueue\<close> (\<open>Common/d3dApp.cpp\<close>), which advances the fence and
  blocks until the GPU has reached it; \<open>flushed\<close> is the fence value it leaves.
\<close>

definition Initialize ::
  "(string \<Rightarrow> XMFLOAT4) \<Rightarrow> SceneInputs \<Rightarrow> Junk \<Rightarrow> nat \<Rightarrow> UINT64 \<Rightarrow> App" where
  "Initialize Colors inp junk waveVertexCount flushed =
     (BuildFrameResources junk waveVertexCount
        (BuildRenderItems inp (BuildMaterials Colors App0)))
     \<lparr>mCurrentFence := flushed, mFence := \<lparr>completed = flushed, pending = []\<rparr>\<rparr>"

section \<open>Failure\<close>

text \<open>
  What the C++ leaves undefined, or never returns from, is a value of the model: a
  write past the end of an upload buffer, a dereference of a pointer that points to
  nothing, and a wait on a fence value that no queued \<open>Signal\<close> will ever produce.
\<close>

datatype error = BufferOverrun | BadPointer | WaitsForever

definition bind_err :: "error + 'a \<Rightarrow> ('a \<Rightarrow> error + 'b) \<Rightarrow> error + 'b" where
  "bind_err m f = (case m of Inl e \<Rightarrow> Inl e | Inr x \<Rightarrow> f x)"

text \<open>
  \<open>UploadBuffer<T>::CopyData(int elementIndex, const T& data)\<close> copies \<open>data\<close> over
  the element at \<open>elementIndex\<close> of the mapped buffer (\<open>Common/UploadBuffer.h\<close>). It
  checks nothing: an index outside the buffer overwrites foreign memory.
\<close>

definition CopyData :: "int \<Rightarrow> 'a \<Rightarrow> 'a list \<Rightarrow> error + 'a list" where
  "CopyData elementIndex data buf =
     (if 0 \<le> elementIndex \<and> elementIndex < int (length buf)
      then Inr (buf[nat elementIndex := data])
      else Inl BufferOverrun)"

text \<open>Run \<open>f\<close> on the current frame resource and store what it returns.\<close>

definition on_curr ::
  "(FrameResource \<Rightarrow> error + FrameResource) \<Rightarrow> App \<Rightarrow> error + App" where
  "on_curr f s =
     (if mCurrFrameResourceIndex s < length (mFrameResources s)
      then bind_err (f (mCurrFrameResource s))
             (\<lambda>fr. Inr (s\<lparr>mFrameResources :=
                            (mFrameResources s)[mCurrFrameResourceIndex s := fr]\<rparr>))
      else Inl BadPointer)"

section \<open>The fence\<close>

text \<open>
  Modelled from the spec (section 5 and 6, the device interface): the queue executes in
  submission order, and a queued \<open>Signal(fence, v)\<close> sets the fence to \<open>v\<close> once
  everything before it has completed. \<open>gpu_progress k\<close> lets the GPU retire \<open>k\<close> queued
  signals. \<open>WaitForFence v\<close> is \<open>SetEventOnCompletion(v, event)\<close> followed by
  \<open>WaitForSingleObject(event, INFINITE)\<close>: the GPU runs on until the fence has reached
  \<open>v\<close>, and the call never returns when the queue runs dry first.
\<close>

definition GetCompletedValue :: "GpuFence \<Rightarrow> UINT64" where
  "GetCompletedValue g = completed g"

definition Signal :: "UINT64 \<Rightarrow> GpuFence \<Rightarrow> GpuFence" where
  "Signal v g = g\<lparr>pending := pending g @ [v]\<rparr>"

fun gpu_progress :: "nat \<Rightarrow> GpuFence \<Rightarrow> GpuFence" where
  "gpu_progress 0 g = g"
| "gpu_progress (Suc k) g =
     (case pending g of
        [] \<Rightarrow> g
      | v # q \<Rightarrow> gpu_progress k \<lparr>completed = v, pending = q\<rparr>)"

fun wait_signal :: "UINT64 \<Rightarrow> UINT64 \<Rightarrow> UINT64 list \<Rightarrow> error + GpuFence" where
  "wait_signal v c [] =
     (if v \<le> c then Inr \<lparr>completed = c, pending = []\<rparr> else Inl WaitsForever)"
| "wait_signal v c (x # q) =
     (if v \<le> c then Inr \<lparr>completed = c, pending = x # q\<rparr> else wait_signal v x q)"

definition WaitForFence :: "UINT64 \<Rightarrow> GpuFence \<Rightarrow> error + GpuFence" where
  "WaitForFence v g = wait_signal v (completed g) (pending g)"

section \<open>\<open>Update\<close>\<close>

text \<open>The float arithmetic of the target machine.\<close>

record FloatOps =
  fadd :: "float \<Rightarrow> float \<Rightarrow> float"
  fsub :: "float \<Rightarrow> float \<Rightarrow> float"
  fmul :: "float \<Rightarrow> float \<Rightarrow> float"
  fdiv :: "float \<Rightarrow> float \<Rightarrow> float"
  fge :: "float \<Rightarrow> float \<Rightarrow> bool"

text \<open>
  The head of \<open>Update\<close>: advance the cursor round the ring, then wait for the GPU
  unless the slot was never submitted or its fence has been reached. The Boolean
  returned says whether the blocking wait was entered.
\<close>

definition acquire_frame_resource :: "App \<Rightarrow> error + (bool \<times> App)" where
  "acquire_frame_resource s =
     (let s1 = s\<lparr>mCurrFrameResourceIndex :=
                   (mCurrFrameResourceIndex s + 1) mod gNumFrameResources\<rparr>
      in if \<not> mCurrFrameResourceIndex s1 < length (mFrameResources s1) then Inl BadPointer
         else if Fence (mCurrFrameResource s1) \<noteq> 0
               \<and> GetCompletedValue (mFence s1) < Fence (mCurrFrameResource s1)
         then bind_err (WaitForFence (Fence (mCurrFrameResource s1)) (mFence s1))
                (\<lambda>g. Inr (True, s1\<lparr>mFence := g\<rparr>))
         else Inr (False, s1))"

text \<open>\<open>AnimateMaterials\<close>; \<open>dt\<close> is \<open>gt.DeltaTime()\<close>. \<open>MatTransform(3, 0)\<close> is the
  entry in row 4, column 1. \<open>scroll_water\<close> is what the function does to the material
  it finds under \<open>water\<close>, \<open>set_material\<close> the store through the pointer.\<close>

fun set_material :: "string \<Rightarrow> Material \<Rightarrow> (string \<times> Material) list \<Rightarrow> (string \<times> Material) list" where
  "set_material k m [] = []"
| "set_material k m (e # es) =
     (if fst e = k then (k, m) # es else e # set_material k m es)"

definition scroll_water :: "FloatOps \<Rightarrow> float \<Rightarrow> Material \<Rightarrow> Material" where
  "scroll_water fp dt waterMat =
     (let tu0 = fadd fp (m41 (MatTransform waterMat)) (fmul fp f_0_1 dt);
          tv0 = fadd fp (m42 (MatTransform waterMat)) (fmul fp f_0_02 dt);
          tu = (if fge fp tu0 f_1 then fsub fp tu0 f_1 else tu0);
          tv = (if fge fp tv0 f_1 then fsub fp tv0 f_1 else tv0)
      in waterMat
           \<lparr>MatTransform := (MatTransform waterMat)\<lparr>m41 := tu, m42 := tv\<rparr>,
            MatNumFramesDirty := int gNumFrameResources\<rparr>)"

definition AnimateMaterials :: "FloatOps \<Rightarrow> float \<Rightarrow> App \<Rightarrow> error + App" where
  "AnimateMaterials fp dt s =
     (case map_of (mMaterials s) ''water'' of
        None \<Rightarrow> Inl BadPointer
      | Some waterMat \<Rightarrow>
          Inr (s\<lparr>mMaterials :=
                   set_material ''water'' (scroll_water fp dt waterMat) (mMaterials s)\<rparr>))"

text \<open>\<open>UpdateObjectCBs\<close>: the loop over \<open>mAllRitems\<close>, threading the items still to
  visit and the current object buffer.\<close>

definition objConstants :: "RenderItem \<Rightarrow> ObjectConstants" where
  "objConstants e =
     \<lparr>ocWorld = XMMatrixTranspose (World e),
      ocTexTransform = XMMatrixTranspose (TexTransform e)\<rparr>"

fun UpdateObjectCBs_loop ::
  "RenderItem list \<Rightarrow> ObjectConstants list \<Rightarrow> error + (RenderItem list \<times> ObjectConstants list)" where
  "UpdateObjectCBs_loop [] cb = Inr ([], cb)"
| "UpdateObjectCBs_loop (e # es) cb =
     (if NumFramesDirty e > 0
      then bind_err (CopyData (sint (ObjCBIndex e)) (objConstants e) cb)
             (\<lambda>cb1. bind_err (UpdateObjectCBs_loop es cb1)
                (\<lambda>r. Inr (e\<lparr>NumFramesDirty := NumFramesDirty e - 1\<rparr> # fst r, snd r)))
      else bind_err (UpdateObjectCBs_loop es cb) (\<lambda>r. Inr (e # fst r, snd r)))"

definition UpdateObjectCBs :: "App \<Rightarrow> error + App" where
  "UpdateObjectCBs s =
     (if mCurrFrameResourceIndex s < length (mFrameResources s)
      then bind_err (UpdateObjectCBs_loop (mAllRitems s) (ObjectCB (mCurrFrameResource s)))
             (\<lambda>r. Inr (s\<lparr>mAllRitems := fst r,
                         mFrameResources := (mFrameResources s)
                           [mCurrFrameResourceIndex s :=
                              (mCurrFrameResource s)\<lparr>ObjectCB := snd r\<rparr>]\<rparr>))
      else Inl BadPointer)"

text \<open>\<open>UpdateMaterialCBs\<close>: the same loop over the entries of \<open>mMaterials\<close>. The map is
  an \<open>unordered_map\<close>; the list gives its entries in iteration order.\<close>

definition matConstants :: "Material \<Rightarrow> MaterialConstants" where
  "matConstants mat =
     \<lparr>mcDiffuseAlbedo = DiffuseAlbedo mat, mcFresnelR0 = FresnelR0 mat,
      mcRoughness = Roughness mat,
      mcMatTransform = XMMatrixTranspose (MatTransform mat)\<rparr>"

fun UpdateMaterialCBs_loop ::
  "(string \<times> Material) list \<Rightarrow> MaterialConstants list \<Rightarrow>
   error + ((string \<times> Material) list \<times> MaterialConstants list)" where
  "UpdateMaterialCBs_loop [] cb = Inr ([], cb)"
| "UpdateMaterialCBs_loop (e # es) cb =
     (let mat = snd e in
      if MatNumFramesDirty mat > 0
      then bind_err (CopyData (MatCBIndex mat) (matConstants mat) cb)
             (\<lambda>cb1. bind_err (UpdateMaterialCBs_loop es cb1)
                (\<lambda>r. Inr ((fst e, mat\<lparr>MatNumFramesDirty := MatNumFramesDirty mat - 1\<rparr>) # fst r,
                          snd r)))
      else bind_err (UpdateMaterialCBs_loop es cb) (\<lambda>r. Inr (e # fst r, snd r)))"

definition UpdateMaterialCBs :: "App \<Rightarrow> error + App" where
  "UpdateMaterialCBs s =
     (if mCurrFrameResourceIndex s < length (mFrameResources s)
      then bind_err (UpdateMaterialCBs_loop (mMaterials s) (MaterialCB (mCurrFrameResource s)))
             (\<lambda>r. Inr (s\<lparr>mMaterials := fst r,
                         mFrameResources := (mFrameResources s)
                           [mCurrFrameResourceIndex s :=
                              (mCurrFrameResource s)\<lparr>MaterialCB := snd r\<rparr>]\<rparr>))
      else Inl BadPointer)"

text \<open>\<open>UpdateMainPassCB\<close>: \<open>mMainPassCB\<close> is filled from the camera and the timer by
  DirectXMath, then copied into slot 0. The filled struct is the parameter.\<close>

definition UpdateMainPassCB :: "PassConstants \<Rightarrow> App \<Rightarrow> error + App" where
  "UpdateMainPassCB mMainPassCB s =
     on_curr (\<lambda>fr. bind_err (CopyData 0 mMainPassCB (PassCB fr))
                      (\<lambda>cb. Inr (fr\<lparr>PassCB := cb\<rparr>))) s"

text \<open>
  The accessors of class \<open>Waves\<close> that \<open>UpdateWaves\<close> reads after it has stepped the
  simulation (\<open>Disturb\<close> and \<open>Update\<close> are in \<open>Waves.cpp\<close>).
\<close>

record Waves =
  VertexCount :: int
  Position :: "int \<Rightarrow> XMFLOAT3"
  WNormal :: "int \<Rightarrow> XMFLOAT3"
  Width :: float
  Depth :: float

definition wave_vertex :: "FloatOps \<Rightarrow> Waves \<Rightarrow> int \<Rightarrow> Vertex" where
  "wave_vertex fp w i =
     (let p = Position w i in
      \<lparr>Pos = p, Normal = WNormal w i,
       TexC = (fadd fp f_0_5 (fdiv fp (fst p) (Width w)),
               fsub fp f_0_5 (fdiv fp (snd (snd p)) (Depth w)))\<rparr>)"

text \<open>The loop \<open>for (int i = 0; i < mWaves->VertexCount(); ++i)\<close>, started at \<open>i\<close>.\<close>

function UpdateWaves_loop ::
  "FloatOps \<Rightarrow> Waves \<Rightarrow> int \<Rightarrow> Vertex list \<Rightarrow> error + Vertex list" where
  "UpdateWaves_loop fp w i vb =
     (if i < VertexCount w
      then bind_err (CopyData i (wave_vertex fp w i) vb) (UpdateWaves_loop fp w (i + 1))
      else Inr vb)"
  by pat_completeness auto
termination
  by (relation "measure (\<lambda>(fp, w, i, vb). nat (VertexCount w - i))") auto

declare UpdateWaves_loop.simps [simp del]

text \<open>\<open>UpdateWaves\<close>, from the copy loop on; \<open>w\<close> is \<open>*mWaves\<close> after the simulation
  step. The last line rebinds the wave geometry's vertex buffer to the current frame
  resource's \<open>WavesVB\<close> through \<open>mWavesRitem\<close>.\<close>

definition UpdateWaves :: "FloatOps \<Rightarrow> Waves \<Rightarrow> App \<Rightarrow> error + App" where
  "UpdateWaves fp w s =
     bind_err (on_curr (\<lambda>fr. bind_err (UpdateWaves_loop fp w 0 (WavesVB fr))
                                (\<lambda>vb. Inr (fr\<lparr>WavesVB := vb\<rparr>))) s)
       (\<lambda>s1. case mWavesRitem s1 of
                None \<Rightarrow> Inl BadPointer
              | Some p \<Rightarrow>
                  if p < length (mAllRitems s1)
                  then Inr (s1\<lparr>VertexBufferGPU := (VertexBufferGPU s1)
                                (Geo (mAllRitems s1 ! p) := Some (mCurrFrameResourceIndex s1))\<rparr>)
                  else Inl BadPointer)"

text \<open>What one call of \<open>Update\<close> takes from outside the modelled state.\<close>

record FrameInputs =
  DeltaTime :: float
  MainPassCB :: PassConstants
  WavesNow :: Waves

text \<open>
  \<open>Update\<close>, statement by statement. \<open>Update_trace\<close> returns the state each statement
  leaves behind, in the order of the source: after the cursor has advanced and the wait,
  if any, has returned, then after \<open>AnimateMaterials\<close>, \<open>UpdateObjectCBs\<close>,
  \<open>UpdateMaterialCBs\<close>, \<open>UpdateMainPassCB\<close> and \<open>UpdateWaves\<close>. Each statement runs in
  the state before it in the list, so the list shows what the fence had reached when a
  buffer was written. \<open>Update\<close> returns the last of these states.
\<close>

definition Update_trace :: "FloatOps \<Rightarrow> FrameInputs \<Rightarrow> App \<Rightarrow> error + App list" where
  "Update_trace fp inp s =
     bind_err (acquire_frame_resource s) (\<lambda>r.
     bind_err (AnimateMaterials fp (DeltaTime inp) (snd r)) (\<lambda>s1.
     bind_err (UpdateObjectCBs s1) (\<lambda>s2.
     bind_err (UpdateMaterialCBs s2) (\<lambda>s3.
     bind_err (UpdateMainPassCB (MainPassCB inp) s3) (\<lambda>s4.
     bind_err (UpdateWaves fp (WavesNow inp) s4) (\<lambda>s5.
     Inr [snd r, s1, s2, s3, s4, s5]))))))"

definition Update :: "FloatOps \<Rightarrow> FrameInputs \<Rightarrow> App \<Rightarrow> error + App" where
  "Update fp inp s = bind_err (Update_trace fp inp s) (\<lambda>h. Inr (last h))"

section \<open>\<open>Draw\<close>\<close>

text \<open>
  What the device reports: the GPU virtual addresses of the three constant buffers of
  each frame resource, the start of the shader-visible descriptor heap, the descriptor
  increment, and the sizes of the two constant structs (\<open>FrameResource.h\<close>).
\<close>

record Device =
  ObjectCB_VA :: "nat \<Rightarrow> UINT64"
  MaterialCB_VA :: "nat \<Rightarrow> UINT64"
  PassCB_VA :: "nat \<Rightarrow> UINT64"
  SrvHeapStart :: UINT64
  mCbvSrvDescriptorSize :: UINT
  sizeof_ObjectConstants :: UINT
  sizeof_MaterialConstants :: UINT

text \<open>
  Modelled from the spec: \<open>d3dUtil::CalcConstantBufferByteSize\<close> (\<open>Common/d3dUtil.h\<close>).
  The per-element stride is the struct size rounded up to the minimum constant-buffer
  alignment, 256 bytes.
\<close>

definition CalcConstantBufferByteSize :: "UINT \<Rightarrow> UINT" where
  "CalcConstantBufferByteSize byteSize = (byteSize + 255) AND NOT 255"

text \<open>
  Modelled from the spec: \<open>CD3DX12_GPU_DESCRIPTOR_HANDLE::Offset(INT
  offsetInDescriptors, UINT descriptorIncrementSize)\<close> (\<open>d3dx12.h\<close>). The handle moves
  by the descriptor index times the increment, computed in 64 bits.
\<close>

definition Offset :: "int \<Rightarrow> UINT \<Rightarrow> UINT64 \<Rightarrow> UINT64" where
  "Offset offsetInDescriptors descriptorIncrementSize ptr =
     ptr + word_of_int offsetInDescriptors * ucast descriptorIncrementSize"

text \<open>The calls \<open>Draw\<close> makes on the command allocator, the command list, the queue and
  the swap chain, with the arguments that depend on the modelled state.\<close>

datatype Call =
    AllocatorReset nat
  | CommandListReset nat string
  | RSSetViewports
  | RSSetScissorRects
  | ResourceBarrier string string
  | ClearRenderTargetView
  | ClearDepthStencilView
  | OMSetRenderTargets
  | SetDescriptorHeaps
  | SetGraphicsRootSignature
  | SetPipelineState string
  | IASetVertexBuffers string "nat option"
  | IASetIndexBuffer string
  | IASetPrimitiveTopology D3D_PRIMITIVE_TOPOLOGY
  | SetGraphicsRootDescriptorTable UINT UINT64
  | SetGraphicsRootConstantBufferView UINT UINT64
  | DrawIndexedInstanced UINT UINT UINT "32 word" UINT
  | Close
  | ExecuteCommandLists
  | Present
  | QueueSignal UINT64

text \<open>The body of the loop of \<open>DrawRenderItems\<close> for the item \<open>ri\<close> whose material is
  \<open>mat\<close>, in frame resource \<open>k\<close>.\<close>

definition draw_item :: "Device \<Rightarrow> App \<Rightarrow> nat \<Rightarrow> RenderItem \<Rightarrow> Material \<Rightarrow> Call list" where
  "draw_item dev s k ri mat =
     (let objCBByteSize = CalcConstantBufferByteSize (sizeof_ObjectConstants dev);
          matCBByteSize = CalcConstantBufferByteSize (sizeof_MaterialConstants dev);
          tex = Offset (DiffuseSrvHeapIndex mat) (mCbvSrvDescriptorSize dev) (SrvHeapStart dev);
          objCBAddress = ObjectCB_VA dev k + ucast (ObjCBIndex ri * objCBByteSize);
          matCBAddress = MaterialCB_VA dev k
                           + ucast ((word_of_int (MatCBIndex mat) :: UINT) * matCBByteSize)
      in [IASetVertexBuffers (Geo ri) (VertexBufferGPU s (Geo ri)),
          IASetIndexBuffer (Geo ri),
          IASetPrimitiveTopology (PrimitiveType ri),
          SetGraphicsRootDescriptorTable 0 tex,
          SetGraphicsRootConstantBufferView 1 objCBAddress,
          SetGraphicsRootConstantBufferView 3 matCBAddress,
          DrawIndexedInstanced (IndexCount ri) 1 (StartIndexLocation ri)
            (BaseVertexLocation ri) 0])"

fun DrawRenderItems :: "Device \<Rightarrow> App \<Rightarrow> nat list \<Rightarrow> error + Call list" where
  "DrawRenderItems dev s [] = Inr []"
| "DrawRenderItems dev s (p # ritems) =
     (if p < length (mAllRitems s) then
        (case map_of (mMaterials s) (Mat (mAllRitems s ! p)) of
           None \<Rightarrow> Inl BadPointer
         | Some mat \<Rightarrow>
             bind_err (DrawRenderItems dev s ritems)
               (\<lambda>rest. Inr (draw_item dev s (mCurrFrameResourceIndex s)
                               (mAllRitems s ! p) mat @ rest)))
      else Inl BadPointer)"

text \<open>\<open>Draw\<close>: the recorded calls, and the state after the fence has been advanced and
  its signal queued.\<close>

definition Draw :: "Device \<Rightarrow> App \<Rightarrow> error + (Call list \<times> App)" where
  "Draw dev s =
     (if \<not> mCurrFrameResourceIndex s < length (mFrameResources s) then Inl BadPointer else
      bind_err (DrawRenderItems dev s (mRitemLayer s Opaque)) (\<lambda>opaque.
      bind_err (DrawRenderItems dev s (mRitemLayer s AlphaTested)) (\<lambda>alphaTested.
      bind_err (DrawRenderItems dev s (mRitemLayer s AlphaTestedTreeSprites)) (\<lambda>treeSprites.
      bind_err (DrawRenderItems dev s (mRitemLayer s Transparent)) (\<lambda>transparent.
        (let k = mCurrFrameResourceIndex s;
             fence = mCurrentFence s + 1
         in Inr
           ([AllocatorReset k,
             CommandListReset k ''opaque'',
             RSSetViewports, RSSetScissorRects,
             ResourceBarrier ''PRESENT'' ''RENDER_TARGET'',
             ClearRenderTargetView, ClearDepthStencilView,
             OMSetRenderTargets,
             SetDescriptorHeaps,
             SetGraphicsRootSignature,
             SetGraphicsRootConstantBufferView 2 (PassCB_VA dev k)]
            @ opaque
            @ [SetPipelineState ''alphaTested''] @ alphaTested
            @ [SetPipelineState ''treeSprites''] @ treeSprites
            @ [SetPipelineState ''transparent''] @ transparent
            @ [ResourceBarrier ''RENDER_TARGET'' ''PRESENT'',
               Close, ExecuteCommandLists, Present,
               QueueSignal fence],
            s\<lparr>mCurrentFence := fence,
              mFrameResources := (mFrameResources s)
                [k := (mCurrFrameResource s)\<lparr>Fence := fence\<rparr>],
              mFence := Signal fence (mFence s)\<rparr>)))))))"

section \<open>Frames\<close>

text \<open>
  One turn of the message loop: the GPU retires \<open>k\<close> queued signals while the CPU was
  elsewhere, then \<open>Update\<close>, then \<open>Draw\<close>. \<open>run\<close> plays a list of frames and collects
  the calls of each.
\<close>

definition frame ::
  "Device \<Rightarrow> FloatOps \<Rightarrow> nat \<times> FrameInputs \<Rightarrow> App \<Rightarrow> error + (Call list \<times> App)" where
  "frame dev fp kin s =
     bind_err (Update fp (snd kin) (s\<lparr>mFence := gpu_progress (fst kin) (mFence s)\<rparr>))
       (Draw dev)"

fun run ::
  "Device \<Rightarrow> FloatOps \<Rightarrow> (nat \<times> FrameInputs) list \<Rightarrow> App \<Rightarrow> error + (Call list list \<times> App)" where
  "run dev fp [] s = Inr ([], s)"
| "run dev fp (kin # rest) s =
     bind_err (frame dev fp kin s) (\<lambda>r.
     bind_err (run dev fp rest (snd r)) (\<lambda>r'. Inr (fst r # fst r', snd r')))"

section \<open>The wave height field\<close>

text \<open>
  Modelled from the spec: \<open>Waves::Disturb\<close> and the height field it works on
  (\<open>Waves.cpp\<close> is not among the sources). Section 4.3 of the spec: the field is a
  fixed grid of \<open>R\<close> rows and \<open>C\<close> columns stored in row-major order; \<open>disturb(row, col,
  magnitude)\<close> adds a perturbation at the given cell and at its four neighbours (a
  cross), and a row or column out of range is rejected rather than written through.
  A cell is in range when its cross lies inside the grid. The spec does not fix the
  share of the magnitude a neighbour receives: it is the parameter \<open>share\<close>.
\<close>

record HeightField =
  NumRows :: int
  NumCols :: int
  Height :: "float list"

text \<open>Modelled from the spec: the position of cell \<open>(i, j)\<close> in the row-major field, and
  the cross of a cell: the cell itself, then its four neighbours.\<close>

definition cell :: "HeightField \<Rightarrow> int \<Rightarrow> int \<Rightarrow> nat" where
  "cell w i j = nat (i * NumCols w + j)"

definition cross :: "HeightField \<Rightarrow> int \<Rightarrow> int \<Rightarrow> nat list" where
  "cross w i j = [cell w i j, cell w i (j + 1), cell w i (j - 1),
                  cell w (i + 1) j, cell w (i - 1) j]"

text \<open>Modelled from the spec: the cells whose whole cross lies inside the grid.\<close>

definition disturb_in_range :: "HeightField \<Rightarrow> int \<Rightarrow> int \<Rightarrow> bool" where
  "disturb_in_range w i j \<longleftrightarrow>
     1 \<le> i \<and> i < NumRows w - 1 \<and> 1 \<le> j \<and> j < NumCols w - 1"

text \<open>Modelled from the spec: adding a perturbation \<open>d\<close> to the height at position \<open>k\<close>.\<close>

definition add_at :: "FloatOps \<Rightarrow> float \<Rightarrow> nat \<Rightarrow> float list \<Rightarrow> float list" where
  "add_at fp d k h = h[k := fadd fp (h ! k) d]"

text \<open>Modelled from the spec: \<open>disturb(row, col, magnitude)\<close>. A cell out of range, or a
  field that is not \<open>NumRows\<close> by \<open>NumCols\<close>, is rejected: nothing is written.\<close>

definition Disturb ::
  "FloatOps \<Rightarrow> (float \<Rightarrow> float) \<Rightarrow> int \<Rightarrow> int \<Rightarrow> float \<Rightarrow> HeightField \<Rightarrow> HeightField" where
  "Disturb fp share i j magnitude w =
     (if disturb_in_range w i j \<and> int (length (Height w)) = NumRows w * NumCols w
      then w\<lparr>Height :=
               add_at fp (share magnitude) (cell w (i - 1) j)
                (add_at fp (share magnitude) (cell w (i + 1) j)
                  (add_at fp (share magnitude) (cell w i (j - 1))
                    (add_at fp (share magnitude) (cell w i (j + 1))
                      (add_at fp magnitude (cell w i j) (Height w)))))\<rparr>
      else w)"

section \<open>Notions used in the statements\<close>

text \<open>
  The fence discipline. The values still queued lie strictly above the value the GPU
  has reached and ascend; none exceeds the counter \<open>mCurrentFence\<close>; and the fence value
  stored in a frame resource is the sentinel zero, or has been reached, or is queued.
\<close>

definition fence_inv :: "App \<Rightarrow> bool" where
  "fence_inv s \<longleftrightarrow>
     sorted_wrt (<) (completed (mFence s) # pending (mFence s))
     \<and> list_all (\<lambda>v. v \<le> mCurrentFence s) (completed (mFence s) # pending (mFence s))
     \<and> list_all (\<lambda>fr. Fence fr = 0 \<or> Fence fr \<le> completed (mFence s)
                         \<or> Fence fr \<in> set (pending (mFence s)))
          (mFrameResources s)"

text \<open>What an observer of the command stream sees: each draw call together with the
  pipeline state in force when it is issued.\<close>

fun layer_trace :: "string \<Rightarrow> Call list \<Rightarrow> (string \<times> Call) list" where
  "layer_trace pso [] = []"
| "layer_trace pso (CommandListReset k p # cs) = layer_trace p cs"
| "layer_trace pso (SetPipelineState p # cs) = layer_trace p cs"
| "layer_trace pso (DrawIndexedInstanced a b c d e # cs) =
     (pso, DrawIndexedInstanced a b c d e) # layer_trace pso cs"
| "layer_trace pso (x # cs) = layer_trace pso cs"

text \<open>The draw call of the item at position \<open>p\<close>.\<close>

definition draw_call :: "App \<Rightarrow> nat \<Rightarrow> Call" where
  "draw_call s p =
     DrawIndexedInstanced (IndexCount (mAllRitems s ! p)) 1
       (StartIndexLocation (mAllRitems s ! p)) (BaseVertexLocation (mAllRitems s ! p)) 0"

text \<open>The fence values signalled, and the frame resources whose allocator was reset,
  in a list of recorded calls.\<close>

fun signalled :: "Call list \<Rightarrow> UINT64 list" where
  "signalled [] = []"
| "signalled (QueueSignal v # cs) = v # signalled cs"
| "signalled (x # cs) = signalled cs"

fun submitted :: "Call list \<Rightarrow> nat list" where
  "submitted [] = []"
| "submitted (AllocatorReset k # cs) = k # submitted cs"
| "submitted (x # cs) = submitted cs"

text \<open>A small application state and inputs on which the theorems are exercised: two
  render items, the materials \<open>water\<close> and \<open>tile0\<close>, three frame resources.\<close>

definition example_ops :: FloatOps where
  "example_ops = \<lparr>fadd = (+), fsub = (-), fmul = (*), fdiv = (div), fge = (\<lambda>a b. b \<le> a)\<rparr>"

definition example_scene :: SceneInputs where
  "example_scene =
     \<lparr>DrawArgs = (\<lambda>g n. \<lparr>SubIndexCount = 6, SubStartIndexLocation = 0,
                          SubBaseVertexLocation = 0\<rparr>),
      WorldOf = (\<lambda>v i. XMMatrixScaling f_5 f_1 f_1)\<rparr>"

definition example_junk :: Junk where
  "example_junk =
     \<lparr>junkPass = [],
      junkObject = \<lparr>ocWorld = Identity4x4, ocTexTransform = Identity4x4\<rparr>,
      junkMaterial = \<lparr>mcDiffuseAlbedo = (f_0, f_0, f_0, f_0), mcFresnelR0 = (f_0, f_0, f_0),
                      mcRoughness = f_0, mcMatTransform = Identity4x4\<rparr>,
      junkVertex = \<lparr>Pos = (f_0, f_0, f_0), Normal = (f_0, f_0, f_0), TexC = (f_0, f_0)\<rparr>\<rparr>"

definition example_app :: App where
  "example_app =
     \<lparr>mFrameResources = replicate 3 (new_FrameResource example_junk 1 2 2 2),
      mCurrFrameResourceIndex = 0,
      mMaterials =
        [(''water'', new_Material 0 0 (f_1, f_1, f_1, f_0_5) (f_0_1, f_0_1, f_0_1) f_0),
         (''tile0'', new_Material 1 1 (f_1, f_1, f_1, f_1) (f_0_02, f_0_02, f_0_02) f_0_3)],
      mAllRitems =
        [new_RenderItem example_scene Identity4x4 (XMMatrixScaling f_5 f_5 f_1)
           ''water'' ''waterGeo'' ''grid'' TRIANGLELIST 0,
         new_RenderItem example_scene (XMMatrixScaling f_5 f_1 f_1) Identity4x4
           ''tile0'' ''wallGeo'' ''wall'' TRIANGLELIST 1],
      mRitemLayer = (\<lambda>L. if L = Transparent then [0] else if L = Opaque then [1] else []),
      mWavesRitem = Some 0,
      VertexBufferGPU = (\<lambda>_. None),
      mCurrentFence = 2,
      mFence = \<lparr>completed = 2, pending = []\<rparr>\<rparr>"

definition example_waves :: Waves where
  "example_waves =
     \<lparr>VertexCount = 2,
      Position = (\<lambda>i. (word_of_int i, f_0, f_1)),
      WNormal = (\<lambda>i. (f_0, f_1, f_0)),
      Width = f_5, Depth = f_5\<rparr>"

definition example_inputs :: FrameInputs where
  "example_inputs = \<lparr>DeltaTime = f_0_1, MainPassCB = [f_1], WavesNow = example_waves\<rparr>"

definition example_device :: Device where
  "example_device =
     \<lparr>ObjectCB_VA = (\<lambda>k. 0x10000 * of_nat k),
      MaterialCB_VA = (\<lambda>k. 0x100000 + 0x10000 * of_nat k),
      PassCB_VA = (\<lambda>k. 0x200000 + 0x10000 * of_nat k),
      SrvHeapStart = 0x400000,
      mCbvSrvDescriptorSize = 32,
      sizeof_ObjectConstants = 128,
      sizeof_MaterialConstants = 96\<rparr>"

text \<open>The effect of one visit of the dirty-tracking loops on an item or a material, and
  on the constant buffer it is copied to.\<close>

definition ritem_after_pass :: "RenderItem \<Rightarrow> RenderItem" where
  "ritem_after_pass e =
     (if NumFramesDirty e > 0 then e\<lparr>NumFramesDirty := NumFramesDirty e - 1\<rparr> else e)"

definition objcb_after :: "RenderItem \<Rightarrow> ObjectConstants list \<Rightarrow> ObjectConstants list" where
  "objcb_after e cb =
     (if NumFramesDirty e > 0 then cb[nat (sint (ObjCBIndex e)) := objConstants e] else cb)"

definition mat_after_pass :: "string \<times> Material \<Rightarrow> string \<times> Material" where
  "mat_after_pass e =
     (if MatNumFramesDirty (snd e) > 0
      then (fst e, (snd e)\<lparr>MatNumFramesDirty := MatNumFramesDirty (snd e) - 1\<rparr>) else e)"

definition matcb_after ::
  "string \<times> Material \<Rightarrow> MaterialConstants list \<Rightarrow> MaterialConstants list" where
  "matcb_after e cb =
     (if MatNumFramesDirty (snd e) > 0
      then cb[nat (MatCBIndex (snd e)) := matConstants (snd e)] else cb)"

text \<open>The wave vertex buffer after the copy loop of \<open>UpdateWaves\<close> has run from index
  \<open>i\<close> on.\<close>

definition wavesvb_after :: "FloatOps \<Rightarrow> Waves \<Rightarrow> int \<Rightarrow> Vertex list \<Rightarrow> Vertex list" where
  "wavesvb_after fp w i vb =
     map (\<lambda>j. if i \<le> int j \<and> int j < VertexCount w then wave_vertex fp w (int j) else vb ! j)
       [0..<length vb]"

text \<open>
  A state in which every pointer points somewhere and every slot index lies inside
  every frame resource's buffers; and an input whose wave grid fits the wave vertex
  buffers.
\<close>

definition app_ok :: "App \<Rightarrow> bool" where
  "app_ok s \<longleftrightarrow>
     length (mFrameResources s) = gNumFrameResources
     \<and> fence_inv s
     \<and> map_of (mMaterials s) ''water'' \<noteq> None
     \<and> list_all (\<lambda>fr. PassCB fr \<noteq> []
          \<and> list_all (\<lambda>e. 0 \<le> sint (ObjCBIndex e)
                            \<and> sint (ObjCBIndex e) < int (length (ObjectCB fr))) (mAllRitems s)
          \<and> list_all (\<lambda>e. 0 \<le> MatCBIndex (snd e)
                            \<and> MatCBIndex (snd e) < int (length (MaterialCB fr))) (mMaterials s))
         (mFrameResources s)
     \<and> (case mWavesRitem s of None \<Rightarrow> False | Some p \<Rightarrow> p < length (mAllRitems s))
     \<and> list_all (\<lambda>L. list_all (\<lambda>p. p < length (mAllRitems s)
                                   \<and> map_of (mMaterials s) (Mat (mAllRitems s ! p)) \<noteq> None)
                         (mRitemLayer s L))
         [Opaque, Transparent, AlphaTested, AlphaTestedTreeSprites]"

definition waves_fit :: "App \<Rightarrow> FrameInputs \<Rightarrow> bool" where
  "waves_fit s inp \<longleftrightarrow>
     list_all (\<lambda>fr. VertexCount (WavesNow inp) \<le> int (length (WavesVB fr))) (mFrameResources s)"

text \<open>The example state three frames later, the GPU having finished none of them.\<close>

definition example_busy :: App where
  "example_busy =
     example_app
       \<lparr>mFrameResources :=
          [(new_FrameResource example_junk 1 2 2 2)\<lparr>Fence := 5\<rparr>,
           (new_FrameResource example_junk 1 2 2 2)\<lparr>Fence := 3\<rparr>,
           (new_FrameResource example_junk 1 2 2 2)\<lparr>Fence := 4\<rparr>],
        mCurrentFence := 5,
        mFence := \<lparr>completed = 2, pending = [3, 4, 5]\<rparr>\<rparr>"

text \<open>
  The dirty-tracking update pass on its own, as \<open>Update\<close> runs it: the cursor moves on
  to the next frame resource, then \<open>UpdateObjectCBs\<close> and \<open>UpdateMaterialCBs\<close> copy
  what is dirty. Nothing is mutated in between.
\<close>

definition next_frame_resource :: "App \<Rightarrow> App" where
  "next_frame_resource s =
     s\<lparr>mCurrFrameResourceIndex := (mCurrFrameResourceIndex s + 1) mod gNumFrameResources\<rparr>"

definition dirty_pass :: "App \<Rightarrow> error + App" where
  "dirty_pass s = bind_err (UpdateObjectCBs (next_frame_resource s)) UpdateMaterialCBs"

text \<open>A flat nine by nine height field; its only cell with a margin of four is \<open>(4, 4)\<close>.\<close>

definition example_field :: HeightField where
  "example_field = \<lparr>NumRows = 9, NumCols = 9, Height = replicate 81 f_0\<rparr>"

section \<open>Scene set-up: facts\<close>

lemma unat_of_nat_eq: "k < 2 ^ 32 \<Longrightarrow> unat (of_nat k :: 32 word) = k"
  by (simp add: unat_of_nat)

lemma add_ritem_fst: "fst (add_ritem blk st) = fst st + 1"
  by (simp add: add_ritem_def Let_def)

lemma add_ritem_all:
  "mAllRitems (snd (add_ritem blk st)) = mAllRitems (snd st) @ [snd blk (fst st)]"
  by (simp add: add_ritem_def Let_def split: option.split)

lemma add_ritem_materials:
  "mMaterials (snd (add_ritem blk st)) = mMaterials (snd st)"
  by (simp add: add_ritem_def Let_def split: option.split)

lemma fold_add_ritem_fst:
  "fst (fold add_ritem bs st) = fst st + of_nat (length bs)"
  by (induction bs arbitrary: st) (simp_all add: add_ritem_fst)

lemma fold_add_ritem_length:
  "length (mAllRitems (snd (fold add_ritem bs st))) = length (mAllRitems (snd st)) + length bs"
  by (induction bs arbitrary: st) (simp_all add: add_ritem_all)

lemma fold_add_ritem_materials:
  "mMaterials (snd (fold add_ritem bs st)) = mMaterials (snd st)"
  by (induction bs arbitrary: st) (simp_all add: add_ritem_materials)

lemma fold_add_ritem_ObjCBIndex:
  assumes "\<forall>b\<in>set bs. \<forall>c. ObjCBIndex (snd b c) = c"
  shows "map ObjCBIndex (mAllRitems (snd (fold add_ritem bs st)))
         = map ObjCBIndex (mAllRitems (snd st)) @ map (\<lambda>k. fst st + of_nat k) [0..<length bs]"
  using assms
proof (induction bs arbitrary: st)
  case Nil
  then show ?case by simp
next
  case (Cons b bs)
  have shift: "map (\<lambda>k. fst st + of_nat k) [0..<Suc (length bs)]
        = fst st # map (\<lambda>k. (fst st + 1) + of_nat k) [0..<length bs]"
    by (simp add: upt_conv_Cons map_Suc_upt [symmetric] del: upt_Suc add: add.assoc add.commute)
  from Cons show ?case
    by (simp add: add_ritem_all add_ritem_fst shift del: upt_Suc)
qed

lemma ritem_blocks_length: "length (ritem_blocks inp) = 56"
  by (simp add: ritem_blocks_def upt_conv_Cons)

lemma ritem_blocks_index: "\<forall>b\<in>set (ritem_blocks inp). \<forall>c. ObjCBIndex (snd b c) = c"
  by (simp add: ritem_blocks_def upt_conv_Cons shape_item_def new_RenderItem_def)

lemma BuildRenderItems_indices:
  assumes "mAllRitems s = []"
  shows "map ObjCBIndex (mAllRitems (BuildRenderItems inp s)) = map of_nat [0..<56]"
    and "length (mAllRitems (BuildRenderItems inp s)) = 56"
    and "mMaterials (BuildRenderItems inp s) = mMaterials s"
    and "mFrameResources (BuildRenderItems inp s) = mFrameResources s"
proof -
  let ?st = "(0 :: UINT, s\<lparr>mWavesRitem := Some (length (mAllRitems s))\<rparr>)"
  have "map ObjCBIndex (mAllRitems (snd (fold add_ritem (ritem_blocks inp) ?st)))
        = map (\<lambda>k. of_nat k) [0..<56]"
    using fold_add_ritem_ObjCBIndex [OF ritem_blocks_index, of inp ?st] assms
    by (simp add: ritem_blocks_length)
  then show "map ObjCBIndex (mAllRitems (BuildRenderItems inp s)) = map of_nat [0..<56]"
    by (simp add: BuildRenderItems_def Let_def push_rest_opaque_def)
  show "length (mAllRitems (BuildRenderItems inp s)) = 56"
    using fold_add_ritem_length [of "ritem_blocks inp" ?st] assms
    by (simp add: BuildRenderItems_def Let_def push_rest_opaque_def ritem_blocks_length)
  show "mMaterials (BuildRenderItems inp s) = mMaterials s"
    using fold_add_ritem_materials [of "ritem_blocks inp" ?st]
    by (simp add: BuildRenderItems_def Let_def push_rest_opaque_def)
  have "mFrameResources (snd (fold add_ritem bs st)) = mFrameResources (snd st)" for bs st
    by (induction bs arbitrary: st) (simp_all add: add_ritem_def Let_def split: option.split)
  from this [of "ritem_blocks inp" ?st]
  show "mFrameResources (BuildRenderItems inp s) = mFrameResources s"
    by (simp add: BuildRenderItems_def Let_def push_rest_opaque_def)
qed

lemma Initialize_items:
  "mAllRitems (Initialize Colors inp junk n fl)
     = mAllRitems (BuildRenderItems inp (BuildMaterials Colors App0))"
  by (simp add: Initialize_def BuildFrameResources_def)

lemma Initialize_materials:
  "mMaterials (Initialize Colors inp junk n fl) = mMaterials (BuildMaterials Colors App0)"
  using BuildRenderItems_indices(3) [of "BuildMaterials Colors App0" inp]
  by (simp add: Initialize_def BuildFrameResources_def BuildMaterials_def App0_def Let_def)

lemma Initialize_frame_resources:
  "mFrameResources (Initialize Colors inp junk n fl)
     = replicate 3 (new_FrameResource junk 1 56 7 n)"
proof -
  let ?m = "BuildMaterials Colors App0"
  have e: "mAllRitems ?m = []" "mFrameResources ?m = []" "length (mMaterials ?m) = 7"
    by (simp_all add: BuildMaterials_def App0_def Let_def)
  show ?thesis
    using BuildRenderItems_indices [OF e(1), of inp] e(2,3)
    by (simp add: Initialize_def BuildFrameResources_def gNumFrameResources_def)
qed


lemma distinct_map_of_nat_upt:
  "n \<le> 2 ^ 32 \<Longrightarrow> distinct (map (of_nat :: nat \<Rightarrow> 32 word) [0..<n])"
  by (auto simp: distinct_map inj_on_def dest!: arg_cong [where f = unat] simp: unat_of_nat_eq)

lemma CalcCB_le:
  assumes "unat sz \<le> 65536"
  shows "unat (CalcConstantBufferByteSize sz) \<le> 65791"
proof -
  have "unat (sz + 255) = unat sz + 255"
    using assms by (simp add: unat_word_ariths)
  moreover have "(sz + 255) AND NOT 255 \<le> sz + 255"
    by (rule word_and_le2)
  ultimately show ?thesis
    using assms by (simp add: CalcConstantBufferByteSize_def word_le_nat_alt)
qed

lemma offset_in_bounds:
  assumes "unat sz \<le> 65536" "k < 56"
  shows "unat ((of_nat k :: UINT) * CalcConstantBufferByteSize sz)
           + unat (CalcConstantBufferByteSize sz)
         \<le> 56 * unat (CalcConstantBufferByteSize sz)"
proof -
  let ?st = "CalcConstantBufferByteSize sz"
  have st: "unat ?st \<le> 65791" using assms(1) by (rule CalcCB_le)
  have k: "unat (of_nat k :: UINT) = k" using assms(2) by (simp add: unat_of_nat_eq)
  have "k * unat ?st \<le> 55 * 65791"
    using st assms(2) by (intro mult_le_mono) auto
  then have "unat ((of_nat k :: UINT) * ?st) = k * unat ?st"
    using k by (simp add: unat_mult_lem [THEN iffD1])
  moreover have "k * unat ?st + unat ?st \<le> 56 * unat ?st"
    using assms(2) by (simp add: mult_le_mono1 flip: mult_Suc)
  ultimately show ?thesis by simp
qed

lemma Initialize_indices:
  "map ObjCBIndex (mAllRitems (Initialize Colors inp junk n fl)) = map of_nat [0..<56]"
  "length (mAllRitems (Initialize Colors inp junk n fl)) = 56"
  using BuildRenderItems_indices [of "BuildMaterials Colors App0" inp]
  by (simp_all add: Initialize_items BuildMaterials_def App0_def Let_def)

lemma Initialize_layers:
  "mRitemLayer (Initialize Colors inp junk n fl) Opaque = [1, 50] @ [4..<56]"
  "mRitemLayer (Initialize Colors inp junk n fl) Transparent = [0]"
  "mRitemLayer (Initialize Colors inp junk n fl) AlphaTested = [2..<14]"
  "mRitemLayer (Initialize Colors inp junk n fl) AlphaTestedTreeSprites = [51]"
proof -
  have L: "mRitemLayer (Initialize Colors inp junk n fl)
           = mRitemLayer (BuildRenderItems inp (BuildMaterials Colors App0))"
    by (simp add: Initialize_def BuildFrameResources_def)
  show "mRitemLayer (Initialize Colors inp junk n fl) Opaque = [1, 50] @ [4..<56]"
    "mRitemLayer (Initialize Colors inp junk n fl) Transparent = [0]"
    "mRitemLayer (Initialize Colors inp junk n fl) AlphaTested = [2..<14]"
    "mRitemLayer (Initialize Colors inp junk n fl) AlphaTestedTreeSprites = [51]"
    unfolding L
    by (simp_all add: BuildRenderItems_def BuildMaterials_def App0_def ritem_blocks_def
          add_ritem_def push_rest_opaque_def Let_def upt_conv_Cons)
qed

lemma fold_add_ritem_mWavesRitem:
  "mWavesRitem (snd (fold add_ritem bs st)) = mWavesRitem (snd st)"
  by (induction bs arbitrary: st) (simp_all add: add_ritem_def Let_def split: option.split)

lemma Initialize_mWavesRitem: "mWavesRitem (Initialize Colors inp junk n fl) = Some 0"
  by (simp add: Initialize_def BuildFrameResources_def BuildRenderItems_def Let_def
        push_rest_opaque_def fold_add_ritem_mWavesRitem)
     (simp add: BuildMaterials_def App0_def Let_def)

lemma fold_add_ritem_pred:
  assumes "\<forall>b\<in>set bs. \<forall>c. P (snd b c)" "list_all P (mAllRitems (snd st))"
  shows "list_all P (mAllRitems (snd (fold add_ritem bs st)))"
  using assms by (induction bs arbitrary: st) (simp_all add: add_ritem_all)

lemma ritem_blocks_Mat:
  "\<forall>b\<in>set (ritem_blocks inp). \<forall>c. Mat (snd b c) \<in>
     {''water'', ''tile0'', ''bricks3'', ''bricks0'', ''stone0'', ''grass'', ''treeSprites''}"
  by (simp add: ritem_blocks_def upt_conv_Cons shape_item_def new_RenderItem_def)

lemma Initialize_Mat:
  assumes "e \<in> set (mAllRitems (Initialize Colors inp junk n fl))"
  shows "map_of (mMaterials (Initialize Colors inp junk n fl)) (Mat e) \<noteq> None"
proof -
  let ?N = "{''water'', ''tile0'', ''bricks3'', ''bricks0'', ''stone0'', ''grass'', ''treeSprites''}"
  let ?m = "BuildMaterials Colors App0"
  let ?st = "(0 :: UINT, ?m\<lparr>mWavesRitem := Some (length (mAllRitems ?m))\<rparr>)"
  have "list_all (\<lambda>e. Mat e \<in> ?N) (mAllRitems (snd (fold add_ritem (ritem_blocks inp) ?st)))"
    by (rule fold_add_ritem_pred [OF ritem_blocks_Mat]) (simp add: BuildMaterials_def App0_def Let_def)
  then have "list_all (\<lambda>e. Mat e \<in> ?N) (mAllRitems (Initialize Colors inp junk n fl))"
    by (simp add: Initialize_items BuildRenderItems_def Let_def push_rest_opaque_def)
  with assms have "Mat e \<in> ?N" by (simp add: list_all_iff)
  moreover have "map_of (mMaterials (Initialize Colors inp junk n fl)) x \<noteq> None" if "x \<in> ?N" for x
    using that by (auto simp: Initialize_materials BuildMaterials_def App0_def Let_def)
  ultimately show ?thesis by blast
qed

section \<open>Drawing: facts\<close>

lemma and_not_255: "(y :: 32 word) AND NOT 255 = push_bit 8 (drop_bit 8 y)"
proof -
  have m: "(255 :: 32 word) = mask 8" by (simp add: mask_eq_exp_minus_1)
  show ?thesis unfolding m
    by (rule bit_eqI) (auto simp add: bit_simps)
qed

lemma unat_and_not_255: "unat ((y :: 32 word) AND NOT 255) = unat y div 256 * 256"
proof -
  have "unat (push_bit 8 (drop_bit 8 y)) = take_bit 32 (push_bit 8 (drop_bit 8 (unat y)))"
    by (simp add: unsigned_push_bit_eq unat_drop_bit_eq)
  also have "\<dots> = push_bit 8 (drop_bit 8 (unat y))"
  proof (rule take_bit_nat_eq_self)
    have "push_bit 8 (drop_bit 8 (unat y)) \<le> unat y"
      by (simp add: push_bit_eq_mult drop_bit_eq_div)
    also have "unat y < 2 ^ 32" using unsigned_less [of y] by simp
    finally show "push_bit 8 (drop_bit 8 (unat y)) < 2 ^ 32" .
  qed
  finally have "unat (push_bit 8 (drop_bit 8 y)) = push_bit 8 (drop_bit 8 (unat y))" .
  moreover have "push_bit 8 (drop_bit 8 (unat y)) = unat y div 256 * 256"
    by (simp add: push_bit_eq_mult drop_bit_eq_div)
  ultimately show ?thesis
    by (simp only: and_not_255)
qed

lemma CalcConstantBufferByteSize_rounds_up:
  assumes "unat sz + 255 < 2 ^ 32"
  shows "256 dvd unat (CalcConstantBufferByteSize sz)"
    and "unat sz \<le> unat (CalcConstantBufferByteSize sz)"
    and "unat (CalcConstantBufferByteSize sz) < unat sz + 256"
proof -
  have s: "unat (sz + 255) = unat sz + 255"
    using assms by (simp add: unat_word_ariths)
  have c: "unat (CalcConstantBufferByteSize sz) = (unat sz + 255) div 256 * 256"
    by (simp only: CalcConstantBufferByteSize_def unat_and_not_255 s)
  have d: "(unat sz + 255) div 256 * 256 + (unat sz + 255) mod 256 = unat sz + 255"
    by (rule div_mult_mod_eq)
  have m: "(unat sz + 255) mod 256 < 256" by simp
  show "256 dvd unat (CalcConstantBufferByteSize sz)" by (simp add: c)
  show "unat sz \<le> unat (CalcConstantBufferByteSize sz)" using d m unfolding c by linarith
  show "unat (CalcConstantBufferByteSize sz) < unat sz + 256" using d unfolding c by linarith
qed

lemma DrawRenderItems_concat:
  assumes "DrawRenderItems dev s ritems = Inr calls"
  shows "(\<forall>p\<in>set ritems. p < length (mAllRitems s)
            \<and> map_of (mMaterials s) (Mat (mAllRitems s ! p)) \<noteq> None)
       \<and> calls = concat (map (\<lambda>p. draw_item dev s (mCurrFrameResourceIndex s) (mAllRitems s ! p)
                                  (the (map_of (mMaterials s) (Mat (mAllRitems s ! p))))) ritems)"
  using assms
proof (induction ritems arbitrary: calls)
  case Nil
  then show ?case by simp
next
  case (Cons p ritems)
  from Cons.prems obtain mat rest where
    p: "p < length (mAllRitems s)"
    and m: "map_of (mMaterials s) (Mat (mAllRitems s ! p)) = Some mat"
    and r: "DrawRenderItems dev s ritems = Inr rest"
    and c: "calls = draw_item dev s (mCurrFrameResourceIndex s) (mAllRitems s ! p) mat @ rest"
    by (auto simp: bind_err_def split: if_splits option.splits sum.splits)
  from Cons.IH [OF r] p m c show ?case by simp
qed

lemma DrawRenderItems_total:
  assumes "\<forall>p\<in>set ritems. p < length (mAllRitems s)
            \<and> map_of (mMaterials s) (Mat (mAllRitems s ! p)) \<noteq> None"
  shows "\<exists>calls. DrawRenderItems dev s ritems = Inr calls"
  using assms by (induction ritems) (auto simp: bind_err_def)

lemma length_draw_item: "length (draw_item dev s k ri mat) = 7"
  by (simp add: draw_item_def Let_def)

lemma block_of_concat:
  assumes "\<forall>x\<in>set xs. length (f x) = n" "i < length xs"
  shows "take n (drop (n * i) (concat (map f xs))) = f (xs ! i)"
  using assms
proof (induction xs arbitrary: i)
  case Nil
  then show ?case by simp
next
  case (Cons x xs)
  show ?case
  proof (cases i)
    case 0
    with Cons.prems show ?thesis by simp
  next
    case (Suc j)
    with Cons.prems have "take n (drop (n * j) (concat (map f xs))) = f (xs ! j)"
      by (intro Cons.IH) auto
    with Suc Cons.prems show ?thesis by (simp add: add.commute)
  qed
qed

lemma length_concat_blocks:
  "\<forall>x\<in>set xs. length (f x) = n \<Longrightarrow> length (concat (map f xs)) = n * length xs"
  by (induction xs) auto

lemma layer_trace_draw_item:
  "layer_trace pso (draw_item dev s k ri mat @ cs)
     = (pso, DrawIndexedInstanced (IndexCount ri) 1 (StartIndexLocation ri)
               (BaseVertexLocation ri) 0) # layer_trace pso cs"
  by (simp add: draw_item_def Let_def)

lemma layer_trace_items:
  "layer_trace pso (concat (map (\<lambda>p. draw_item dev s k (mAllRitems s ! p) (g p)) ritems) @ cs)
     = map (\<lambda>p. (pso, draw_call s p)) ritems @ layer_trace pso cs"
  by (induction ritems) (simp_all add: layer_trace_draw_item draw_call_def)

section \<open>The loops of the update pass: closed forms\<close>

lemma bind_err_Inr_iff:
  "bind_err m f = Inr y \<longleftrightarrow> (\<exists>x. m = Inr x \<and> f x = Inr y)"
  by (cases m) (simp_all add: bind_err_def)

lemma CopyData_Inr_iff:
  "CopyData i d buf = Inr r \<longleftrightarrow> 0 \<le> i \<and> i < int (length buf) \<and> r = buf[nat i := d]"
  by (auto simp: CopyData_def)

lemma length_fold_objcb_after: "length (fold objcb_after es cb) = length cb"
  by (induction es arbitrary: cb) (simp_all add: objcb_after_def)

lemma UpdateObjectCBs_loop_Inr_iff:
  "UpdateObjectCBs_loop es cb = Inr r \<longleftrightarrow>
     (\<forall>e\<in>set es. NumFramesDirty e > 0 \<longrightarrow>
         0 \<le> sint (ObjCBIndex e) \<and> sint (ObjCBIndex e) < int (length cb))
     \<and> r = (map ritem_after_pass es, fold objcb_after es cb)"
proof (induction es arbitrary: cb r)
  case Nil
  then show ?case by auto
next
  case (Cons e es)
  show ?case
  proof (cases "NumFramesDirty e > 0")
    case True
    then show ?thesis
      by (auto simp: bind_err_Inr_iff CopyData_Inr_iff Cons.IH ritem_after_pass_def
            objcb_after_def)
  next
    case False
    then show ?thesis
      by (auto simp: bind_err_Inr_iff Cons.IH ritem_after_pass_def objcb_after_def)
  qed
qed

lemma length_fold_matcb_after: "length (fold matcb_after es cb) = length cb"
  by (induction es arbitrary: cb) (simp_all add: matcb_after_def)

lemma UpdateMaterialCBs_loop_Inr_iff:
  "UpdateMaterialCBs_loop es cb = Inr r \<longleftrightarrow>
     (\<forall>e\<in>set es. MatNumFramesDirty (snd e) > 0 \<longrightarrow>
         0 \<le> MatCBIndex (snd e) \<and> MatCBIndex (snd e) < int (length cb))
     \<and> r = (map mat_after_pass es, fold matcb_after es cb)"
proof (induction es arbitrary: cb r)
  case Nil
  then show ?case by auto
next
  case (Cons e es)
  show ?case
  proof (cases "MatNumFramesDirty (snd e) > 0")
    case True
    then show ?thesis
      by (auto simp: bind_err_Inr_iff CopyData_Inr_iff Cons.IH mat_after_pass_def
            matcb_after_def Let_def)
  next
    case False
    then show ?thesis
      by (auto simp: bind_err_Inr_iff Cons.IH mat_after_pass_def matcb_after_def Let_def)
  qed
qed

text \<open>Conditional writes at distinct slots.\<close>

lemma fold_cond_upd_other:
  "\<forall>y\<in>set xs. P y \<longrightarrow> g y \<noteq> j \<Longrightarrow>
   fold (\<lambda>x cb. if P x then cb[g x := h x] else cb) xs cb ! j = cb ! j"
  by (induction xs arbitrary: cb) auto

lemma length_fold_cond_upd:
  "length (fold (\<lambda>x cb. if P x then cb[g x := h x] else cb) xs cb) = length cb"
  by (induction xs arbitrary: cb) auto

lemma fold_cond_upd_nth:
  assumes "distinct (map g xs)" "x \<in> set xs" "P x" "g x < length cb"
  shows "fold (\<lambda>x cb. if P x then cb[g x := h x] else cb) xs cb ! g x = h x"
  using assms
proof (induction xs arbitrary: cb)
  case Nil
  then show ?case by simp
next
  case (Cons y ys)
  show ?case
  proof (cases "x = y")
    case True
    with Cons.prems(1) have "g x \<notin> g ` set ys" by simp
    then have "\<forall>z\<in>set ys. P z \<longrightarrow> g z \<noteq> g x" by (metis imageI)
    from fold_cond_upd_other [OF this, of h "cb[g x := h x]"] True Cons.prems
    show ?thesis by simp
  next
    case False
    with Cons.prems have "x \<in> set ys" "distinct (map g ys)" by auto
    with Cons.prems Cons.IH show ?thesis by simp
  qed
qed

lemma objcb_after_eq:
  "objcb_after = (\<lambda>e cb. if NumFramesDirty e > 0
                          then cb[nat (sint (ObjCBIndex e)) := objConstants e] else cb)"
  by (simp add: fun_eq_iff objcb_after_def)

lemma matcb_after_eq:
  "matcb_after = (\<lambda>e cb. if MatNumFramesDirty (snd e) > 0
                          then cb[nat (MatCBIndex (snd e)) := matConstants (snd e)] else cb)"
  by (simp add: fun_eq_iff matcb_after_def)

section \<open>The fence: facts\<close>

lemma wait_signal_Inr:
  assumes "wait_signal v c q = Inr g"
  shows "v \<le> completed g \<and> (\<exists>n. g = gpu_progress n \<lparr>completed = c, pending = q\<rparr>)"
  using assms
proof (induction q arbitrary: c)
  case Nil
  then have "v \<le> c" "g = \<lparr>completed = c, pending = []\<rparr>" by (auto split: if_splits)
  then have "v \<le> completed g" "g = gpu_progress 0 \<lparr>completed = c, pending = []\<rparr>" by simp_all
  then show ?case by blast
next
  case (Cons x q)
  show ?case
  proof (cases "v \<le> c")
    case True
    with Cons.prems have "g = \<lparr>completed = c, pending = x # q\<rparr>" by simp
    with True have "v \<le> completed g" "g = gpu_progress 0 \<lparr>completed = c, pending = x # q\<rparr>"
      by simp_all
    then show ?thesis by blast
  next
    case False
    with Cons.prems have "wait_signal v x q = Inr g" by simp
    from Cons.IH [OF this] obtain n where
      "v \<le> completed g" "g = gpu_progress n \<lparr>completed = x, pending = q\<rparr>" by blast
    then have "g = gpu_progress (Suc n) \<lparr>completed = c, pending = x # q\<rparr>" by simp
    with \<open>v \<le> completed g\<close> show ?thesis by blast
  qed
qed

lemma wait_signal_total:
  assumes "v \<le> c \<or> (\<exists>x\<in>set q. v \<le> x)"
  shows "\<exists>g. wait_signal v c q = Inr g"
  using assms by (induction q arbitrary: c) auto

lemma WaitForFence_Inr:
  "WaitForFence v g0 = Inr g \<Longrightarrow> v \<le> completed g \<and> (\<exists>n. g = gpu_progress n g0)"
  using wait_signal_Inr [of v "completed g0" "pending g0" g]
  by (cases g0) (simp add: WaitForFence_def)

section \<open>\<open>Update\<close> and \<open>Draw\<close>: what each step changes\<close>

lemma acquire_frame_resource_Inr:
  assumes "acquire_frame_resource s = Inr (waited, s1)"
  defines "k \<equiv> (mCurrFrameResourceIndex s + 1) mod gNumFrameResources"
  shows "k < length (mFrameResources s)"
    and "\<exists>g. s1 = s\<lparr>mCurrFrameResourceIndex := k, mFence := g\<rparr>
            \<and> Fence (mFrameResources s ! k) \<le> completed g
            \<and> (\<exists>n. g = gpu_progress n (mFence s))
            \<and> (\<not> waited \<longrightarrow> g = mFence s)"
    and "waited \<longleftrightarrow> Fence (mFrameResources s ! k) \<noteq> 0
                     \<and> GetCompletedValue (mFence s) < Fence (mFrameResources s ! k)"
proof -
  let ?s1 = "s\<lparr>mCurrFrameResourceIndex := k\<rparr>"
  from assms(1) show lt: "k < length (mFrameResources s)"
    by (auto simp: acquire_frame_resource_def Let_def k_def split: if_splits)
  show "waited \<longleftrightarrow> Fence (mFrameResources s ! k) \<noteq> 0
                     \<and> GetCompletedValue (mFence s) < Fence (mFrameResources s ! k)"
    using assms(1) lt
    by (auto simp: acquire_frame_resource_def Let_def k_def mCurrFrameResource_def
          bind_err_Inr_iff split: if_splits)
  show "\<exists>g. s1 = s\<lparr>mCurrFrameResourceIndex := k, mFence := g\<rparr>
            \<and> Fence (mFrameResources s ! k) \<le> completed g
            \<and> (\<exists>n. g = gpu_progress n (mFence s))
            \<and> (\<not> waited \<longrightarrow> g = mFence s)"
  proof (cases "Fence (mFrameResources s ! k) \<noteq> 0
                 \<and> GetCompletedValue (mFence s) < Fence (mFrameResources s ! k)")
    case True
    with assms(1) lt obtain g where
      w: "WaitForFence (Fence (mFrameResources s ! k)) (mFence s) = Inr g"
      and s1: "s1 = ?s1\<lparr>mFence := g\<rparr>" and "waited"
      by (auto simp: acquire_frame_resource_def Let_def k_def mCurrFrameResource_def
            bind_err_Inr_iff split: if_splits)
    from WaitForFence_Inr [OF w] s1 \<open>waited\<close> show ?thesis by auto
  next
    case False
    with assms(1) lt have s1: "s1 = ?s1" and nw: "\<not> waited"
      by (auto simp: acquire_frame_resource_def Let_def k_def mCurrFrameResource_def
            bind_err_Inr_iff split: if_splits)
    from False have le: "Fence (mFrameResources s ! k) \<le> completed (mFence s)"
      by (auto simp: GetCompletedValue_def)
    have "\<exists>n. mFence s = gpu_progress n (mFence s)"
      by (rule exI [of _ 0]) simp
    with s1 nw le show ?thesis by (intro exI [of _ "mFence s"]) simp
  qed
qed

lemma AnimateMaterials_Inr_iff:
  "AnimateMaterials fp dt s = Inr s' \<longleftrightarrow>
     (\<exists>waterMat. map_of (mMaterials s) ''water'' = Some waterMat
        \<and> s' = s\<lparr>mMaterials :=
                    set_material ''water'' (scroll_water fp dt waterMat) (mMaterials s)\<rparr>)"
  by (auto simp: AnimateMaterials_def split: option.splits)

lemma UpdateObjectCBs_Inr_iff:
  "UpdateObjectCBs s = Inr s' \<longleftrightarrow>
     mCurrFrameResourceIndex s < length (mFrameResources s)
     \<and> (\<forall>e\<in>set (mAllRitems s). NumFramesDirty e > 0 \<longrightarrow>
           0 \<le> sint (ObjCBIndex e)
           \<and> sint (ObjCBIndex e) < int (length (ObjectCB (mCurrFrameResource s))))
     \<and> s' = s\<lparr>mAllRitems := map ritem_after_pass (mAllRitems s),
               mFrameResources := (mFrameResources s)
                 [mCurrFrameResourceIndex s :=
                    (mCurrFrameResource s)
                      \<lparr>ObjectCB := fold objcb_after (mAllRitems s)
                                     (ObjectCB (mCurrFrameResource s))\<rparr>]\<rparr>"
  by (auto simp: UpdateObjectCBs_def bind_err_Inr_iff UpdateObjectCBs_loop_Inr_iff)

lemma UpdateMaterialCBs_Inr_iff:
  "UpdateMaterialCBs s = Inr s' \<longleftrightarrow>
     mCurrFrameResourceIndex s < length (mFrameResources s)
     \<and> (\<forall>e\<in>set (mMaterials s). MatNumFramesDirty (snd e) > 0 \<longrightarrow>
           0 \<le> MatCBIndex (snd e)
           \<and> MatCBIndex (snd e) < int (length (MaterialCB (mCurrFrameResource s))))
     \<and> s' = s\<lparr>mMaterials := map mat_after_pass (mMaterials s),
               mFrameResources := (mFrameResources s)
                 [mCurrFrameResourceIndex s :=
                    (mCurrFrameResource s)
                      \<lparr>MaterialCB := fold matcb_after (mMaterials s)
                                       (MaterialCB (mCurrFrameResource s))\<rparr>]\<rparr>"
  by (auto simp: UpdateMaterialCBs_def bind_err_Inr_iff UpdateMaterialCBs_loop_Inr_iff)

lemma UpdateMainPassCB_Inr_iff:
  "UpdateMainPassCB pc s = Inr s' \<longleftrightarrow>
     mCurrFrameResourceIndex s < length (mFrameResources s)
     \<and> PassCB (mCurrFrameResource s) \<noteq> []
     \<and> s' = s\<lparr>mFrameResources := (mFrameResources s)
                 [mCurrFrameResourceIndex s :=
                    (mCurrFrameResource s)\<lparr>PassCB := (PassCB (mCurrFrameResource s))[0 := pc]\<rparr>]\<rparr>"
  by (auto simp: UpdateMainPassCB_def on_curr_def bind_err_Inr_iff CopyData_Inr_iff)

lemma UpdateWaves_loop_Inr_iff:
  "0 \<le> i \<Longrightarrow>
   UpdateWaves_loop fp w i vb = Inr r \<longleftrightarrow>
     (i < VertexCount w \<longrightarrow> VertexCount w \<le> int (length vb)) \<and> r = wavesvb_after fp w i vb"
proof (induction fp w i vb arbitrary: r rule: UpdateWaves_loop.induct)
  case (1 fp w i vb)
  show ?case
  proof (cases "i < VertexCount w")
    case False
    have "wavesvb_after fp w i vb = vb"
      using False by (auto simp: wavesvb_after_def intro!: nth_equalityI)
    with False show ?thesis
      by (subst UpdateWaves_loop.simps) auto
  next
    case True
    let ?vb1 = "vb[nat i := wave_vertex fp w i]"
    have step: "wavesvb_after fp w (i + 1) ?vb1 = wavesvb_after fp w i vb"
      if "i < int (length vb)"
      using that "1.prems" True
      by (auto simp: wavesvb_after_def nth_list_update intro!: nth_equalityI)
    have IH: "UpdateWaves_loop fp w (i + 1) ?vb1 = Inr r \<longleftrightarrow>
               (i + 1 < VertexCount w \<longrightarrow> VertexCount w \<le> int (length ?vb1))
               \<and> r = wavesvb_after fp w (i + 1) ?vb1"
      using "1.prems" by (intro "1.IH" [OF True]) auto
    have unf: "UpdateWaves_loop fp w i vb =
                 bind_err (CopyData i (wave_vertex fp w i) vb) (UpdateWaves_loop fp w (i + 1))"
      using True by (subst UpdateWaves_loop.simps) simp
    show ?thesis
    proof (cases "i < int (length vb)")
      case False
      with True show ?thesis
        by (simp add: unf bind_err_Inr_iff CopyData_Inr_iff)
    next
      case inb: True
      have "UpdateWaves_loop fp w i vb = UpdateWaves_loop fp w (i + 1) ?vb1"
        using inb "1.prems" by (simp add: unf CopyData_def bind_err_def)
      with IH step [OF inb] True inb show ?thesis by auto
    qed
  qed
qed

lemma UpdateWaves_Inr_iff:
  "UpdateWaves fp w s = Inr s' \<longleftrightarrow>
     mCurrFrameResourceIndex s < length (mFrameResources s)
     \<and> (0 < VertexCount w \<longrightarrow> VertexCount w \<le> int (length (WavesVB (mCurrFrameResource s))))
     \<and> (\<exists>p. mWavesRitem s = Some p \<and> p < length (mAllRitems s)
          \<and> s' = s\<lparr>mFrameResources := (mFrameResources s)
                      [mCurrFrameResourceIndex s :=
                         (mCurrFrameResource s)
                           \<lparr>WavesVB := wavesvb_after fp w 0 (WavesVB (mCurrFrameResource s))\<rparr>],
                    VertexBufferGPU := (VertexBufferGPU s)
                      (Geo (mAllRitems s ! p) := Some (mCurrFrameResourceIndex s))\<rparr>)"
  by (auto simp: UpdateWaves_def on_curr_def bind_err_Inr_iff UpdateWaves_loop_Inr_iff
        split: option.splits)

lemma signalled_append: "signalled (xs @ ys) = signalled xs @ signalled ys"
  by (induction xs rule: signalled.induct) simp_all

lemma submitted_append: "submitted (xs @ ys) = submitted xs @ submitted ys"
  by (induction xs rule: submitted.induct) simp_all

lemma DrawRenderItems_no_queue_calls:
  assumes "DrawRenderItems dev s ritems = Inr calls"
  shows "signalled calls = []" and "submitted calls = []"
proof -
  have "signalled (concat (map (\<lambda>p. draw_item dev s k (f p) (g p)) ps)) = []
      \<and> submitted (concat (map (\<lambda>p. draw_item dev s k (f p) (g p)) ps)) = []" for k f g ps
    by (induction ps) (simp_all add: signalled_append submitted_append draw_item_def Let_def)
  with DrawRenderItems_concat [OF assms]
  show "signalled calls = []" and "submitted calls = []" by metis+
qed

lemma Draw_Inr:
  assumes "Draw dev s = Inr (calls, s')"
  shows "mCurrFrameResourceIndex s < length (mFrameResources s)"
    and "s' = s\<lparr>mCurrentFence := mCurrentFence s + 1,
                 mFrameResources := (mFrameResources s)
                   [mCurrFrameResourceIndex s :=
                      (mFrameResources s ! mCurrFrameResourceIndex s)
                        \<lparr>Fence := mCurrentFence s + 1\<rparr>],
                 mFence := Signal (mCurrentFence s + 1) (mFence s)\<rparr>"
    and "signalled calls = [mCurrentFence s + 1]"
    and "submitted calls = [mCurrFrameResourceIndex s]"
proof -
  from assms show lt: "mCurrFrameResourceIndex s < length (mFrameResources s)"
    by (auto simp: Draw_def split: if_splits)
  from assms lt obtain c1 c2 c3 c4 where
    d: "DrawRenderItems dev s (mRitemLayer s Opaque) = Inr c1"
       "DrawRenderItems dev s (mRitemLayer s AlphaTested) = Inr c2"
       "DrawRenderItems dev s (mRitemLayer s AlphaTestedTreeSprites) = Inr c3"
       "DrawRenderItems dev s (mRitemLayer s Transparent) = Inr c4"
    and calls: "calls =
       [AllocatorReset (mCurrFrameResourceIndex s),
        CommandListReset (mCurrFrameResourceIndex s) ''opaque'',
        RSSetViewports, RSSetScissorRects,
        ResourceBarrier ''PRESENT'' ''RENDER_TARGET'',
        ClearRenderTargetView, ClearDepthStencilView,
        OMSetRenderTargets, SetDescriptorHeaps, SetGraphicsRootSignature,
        SetGraphicsRootConstantBufferView 2 (PassCB_VA dev (mCurrFrameResourceIndex s))]
       @ c1 @ [SetPipelineState ''alphaTested''] @ c2
       @ [SetPipelineState ''treeSprites''] @ c3
       @ [SetPipelineState ''transparent''] @ c4
       @ [ResourceBarrier ''RENDER_TARGET'' ''PRESENT'', Close, ExecuteCommandLists, Present,
          QueueSignal (mCurrentFence s + 1)]"
    and s': "s' = s\<lparr>mCurrentFence := mCurrentFence s + 1,
                 mFrameResources := (mFrameResources s)
                   [mCurrFrameResourceIndex s :=
                      (mCurrFrameResource s)\<lparr>Fence := mCurrentFence s + 1\<rparr>],
                 mFence := Signal (mCurrentFence s + 1) (mFence s)\<rparr>"
    by (auto simp: Draw_def bind_err_Inr_iff Let_def)
  from s' show "s' = s\<lparr>mCurrentFence := mCurrentFence s + 1,
                 mFrameResources := (mFrameResources s)
                   [mCurrFrameResourceIndex s :=
                      (mFrameResources s ! mCurrFrameResourceIndex s)
                        \<lparr>Fence := mCurrentFence s + 1\<rparr>],
                 mFence := Signal (mCurrentFence s + 1) (mFence s)\<rparr>"
    by (simp add: mCurrFrameResource_def)
  note q = d [THEN DrawRenderItems_no_queue_calls(1)] d [THEN DrawRenderItems_no_queue_calls(2)]
  show "signalled calls = [mCurrentFence s + 1]"
    unfolding calls by (simp add: signalled_append q)
  show "submitted calls = [mCurrFrameResourceIndex s]"
    unfolding calls by (simp add: submitted_append q)
qed

lemma Draw_total:
  assumes "mCurrFrameResourceIndex s < length (mFrameResources s)"
    and "\<forall>L. \<forall>p\<in>set (mRitemLayer s L). p < length (mAllRitems s)
            \<and> map_of (mMaterials s) (Mat (mAllRitems s ! p)) \<noteq> None"
  shows "\<exists>r. Draw dev s = Inr r"
proof -
  from assms(2) have "\<exists>c. DrawRenderItems dev s (mRitemLayer s L) = Inr c" for L
    by (intro DrawRenderItems_total) blast
  then obtain c where c: "\<And>L. DrawRenderItems dev s (mRitemLayer s L) = Inr (c L)"
    by metis
  show ?thesis
    using assms(1) by (simp add: Draw_def c bind_err_def Let_def)
qed

lemma Update_unfold:
  "Update fp inp s =
     bind_err (acquire_frame_resource s) (\<lambda>r.
     bind_err (AnimateMaterials fp (DeltaTime inp) (snd r)) (\<lambda>s1.
     bind_err (UpdateObjectCBs s1) (\<lambda>s2.
     bind_err (UpdateMaterialCBs s2) (\<lambda>s3.
     bind_err (UpdateMainPassCB (MainPassCB inp) s3) (\<lambda>s4.
     UpdateWaves fp (WavesNow inp) s4)))))"
  by (simp add: Update_def Update_trace_def bind_err_def split: sum.splits)

lemma Update_Inr:
  assumes "Update fp inp s = Inr s'"
  defines "k \<equiv> (mCurrFrameResourceIndex s + 1) mod gNumFrameResources"
  defines "fr \<equiv> mFrameResources s ! k"
  obtains waited g waterMat p where
    "acquire_frame_resource s = Inr (waited, s\<lparr>mCurrFrameResourceIndex := k, mFence := g\<rparr>)"
    and "k < length (mFrameResources s)"
    and "map_of (mMaterials s) ''water'' = Some waterMat"
    and "mWavesRitem s = Some p" and "p < length (mAllRitems s)"
    and "\<forall>e\<in>set (mAllRitems s). NumFramesDirty e > 0 \<longrightarrow>
           0 \<le> sint (ObjCBIndex e) \<and> sint (ObjCBIndex e) < int (length (ObjectCB fr))"
    and "\<forall>e\<in>set (set_material ''water'' (scroll_water fp (DeltaTime inp) waterMat) (mMaterials s)).
           MatNumFramesDirty (snd e) > 0 \<longrightarrow>
           0 \<le> MatCBIndex (snd e) \<and> MatCBIndex (snd e) < int (length (MaterialCB fr))"
    and "s' = s\<lparr>mCurrFrameResourceIndex := k, mFence := g,
                 mMaterials := map mat_after_pass
                   (set_material ''water'' (scroll_water fp (DeltaTime inp) waterMat) (mMaterials s)),
                 mAllRitems := map ritem_after_pass (mAllRitems s),
                 mFrameResources := (mFrameResources s)
                   [k := fr\<lparr>ObjectCB := fold objcb_after (mAllRitems s) (ObjectCB fr),
                            MaterialCB := fold matcb_after
                              (set_material ''water'' (scroll_water fp (DeltaTime inp) waterMat)
                                 (mMaterials s)) (MaterialCB fr),
                            PassCB := (PassCB fr)[0 := MainPassCB inp],
                            WavesVB := wavesvb_after fp (WavesNow inp) 0 (WavesVB fr)\<rparr>],
                 VertexBufferGPU := (VertexBufferGPU s)(Geo (mAllRitems s ! p) := Some k)\<rparr>"
proof -
  from assms(1) obtain waited s1 s2 s3 s4 s5 where
    a: "acquire_frame_resource s = Inr (waited, s1)"
    and b: "AnimateMaterials fp (DeltaTime inp) s1 = Inr s2"
    and c: "UpdateObjectCBs s2 = Inr s3"
    and d: "UpdateMaterialCBs s3 = Inr s4"
    and e: "UpdateMainPassCB (MainPassCB inp) s4 = Inr s5"
    and f: "UpdateWaves fp (WavesNow inp) s5 = Inr s'"
    by (auto simp: Update_unfold bind_err_Inr_iff)
  from acquire_frame_resource_Inr(1,2) [OF a] obtain g where
    k: "k < length (mFrameResources s)"
    and s1: "s1 = s\<lparr>mCurrFrameResourceIndex := k, mFence := g\<rparr>"
    unfolding k_def by blast
  from b obtain waterMat where
    w: "map_of (mMaterials s) ''water'' = Some waterMat"
    and s2: "s2 = s1\<lparr>mMaterials :=
               set_material ''water'' (scroll_water fp (DeltaTime inp) waterMat) (mMaterials s)\<rparr>"
    unfolding AnimateMaterials_Inr_iff s1 by auto
  from c [unfolded UpdateObjectCBs_Inr_iff] have
    ob: "\<forall>e\<in>set (mAllRitems s). NumFramesDirty e > 0 \<longrightarrow>
           0 \<le> sint (ObjCBIndex e) \<and> sint (ObjCBIndex e) < int (length (ObjectCB fr))"
    and s3: "s3 = s2\<lparr>mAllRitems := map ritem_after_pass (mAllRitems s),
               mFrameResources := (mFrameResources s)
                 [k := fr\<lparr>ObjectCB := fold objcb_after (mAllRitems s) (ObjectCB fr)\<rparr>]\<rparr>"
    by (simp_all add: s2 s1 mCurrFrameResource_def fr_def)
  from d [unfolded UpdateMaterialCBs_Inr_iff] k have
    mb: "\<forall>e\<in>set (set_material ''water'' (scroll_water fp (DeltaTime inp) waterMat) (mMaterials s)).
           MatNumFramesDirty (snd e) > 0 \<longrightarrow>
           0 \<le> MatCBIndex (snd e) \<and> MatCBIndex (snd e) < int (length (MaterialCB fr))"
    and s4: "s4 = s3\<lparr>mMaterials := map mat_after_pass
                   (set_material ''water'' (scroll_water fp (DeltaTime inp) waterMat) (mMaterials s)),
               mFrameResources := (mFrameResources s)
                 [k := fr\<lparr>ObjectCB := fold objcb_after (mAllRitems s) (ObjectCB fr),
                          MaterialCB := fold matcb_after
                              (set_material ''water'' (scroll_water fp (DeltaTime inp) waterMat)
                                 (mMaterials s)) (MaterialCB fr)\<rparr>]\<rparr>"
    by (simp_all add: s3 s2 s1 mCurrFrameResource_def fr_def)
  from e [unfolded UpdateMainPassCB_Inr_iff] k have
    s5: "s5 = s4\<lparr>mFrameResources := (mFrameResources s)
                 [k := fr\<lparr>ObjectCB := fold objcb_after (mAllRitems s) (ObjectCB fr),
                          MaterialCB := fold matcb_after
                              (set_material ''water'' (scroll_water fp (DeltaTime inp) waterMat)
                                 (mMaterials s)) (MaterialCB fr),
                          PassCB := (PassCB fr)[0 := MainPassCB inp]\<rparr>]\<rparr>"
    by (simp_all add: s4 s3 s2 s1 mCurrFrameResource_def fr_def)
  from f [unfolded UpdateWaves_Inr_iff] k obtain p where
    p: "mWavesRitem s = Some p" "p < length (mAllRitems s)"
    and s': "s' = s5\<lparr>mFrameResources := (mFrameResources s)
                   [k := fr\<lparr>ObjectCB := fold objcb_after (mAllRitems s) (ObjectCB fr),
                            MaterialCB := fold matcb_after
                              (set_material ''water'' (scroll_water fp (DeltaTime inp) waterMat)
                                 (mMaterials s)) (MaterialCB fr),
                            PassCB := (PassCB fr)[0 := MainPassCB inp],
                            WavesVB := wavesvb_after fp (WavesNow inp) 0 (WavesVB fr)\<rparr>],
                 VertexBufferGPU := (VertexBufferGPU s)(Geo (mAllRitems s ! p) := Some k)\<rparr>"
    by (auto simp add: s5 s4 s3 s2 s1 mCurrFrameResource_def fr_def ritem_after_pass_def)
  show thesis
    by (rule that [OF a [unfolded s1] k w p ob mb]) (simp add: s' s5 s4 s3 s2 s1)
qed

section \<open>The fence discipline is kept\<close>

lemma fence_inv_cong:
  assumes "fence_inv s" "mFence s' = mFence s" "mCurrentFence s' = mCurrentFence s"
    "map Fence (mFrameResources s') = map Fence (mFrameResources s)"
  shows "fence_inv s'"
proof -
  have "list_all P (map Fence (mFrameResources s')) = list_all P (map Fence (mFrameResources s))" for P
    using assms(4) by simp
  then have "list_all (P \<circ> Fence) (mFrameResources s') = list_all (P \<circ> Fence) (mFrameResources s)" for P
    by (simp add: list_all_iff)
  from this [of "\<lambda>f. f = 0 \<or> f \<le> completed (mFence s) \<or> f \<in> set (pending (mFence s))"]
  show ?thesis using assms(1-3) by (simp add: fence_inv_def comp_def)
qed

lemma fence_inv_gpu_step:
  assumes "fence_inv s" "pending (mFence s) = v # q"
  shows "fence_inv (s\<lparr>mFence := \<lparr>completed = v, pending = q\<rparr>\<rparr>)"
proof -
  from assms have lt: "completed (mFence s) < v" by (simp add: fence_inv_def)
  have "Fence fr = 0 \<or> Fence fr \<le> v \<or> Fence fr \<in> set q"
    if "Fence fr = 0 \<or> Fence fr \<le> completed (mFence s) \<or> Fence fr \<in> set (v # q)" for fr
    using that lt by auto
  with assms show ?thesis
    by (auto simp: fence_inv_def list_all_iff)
qed

lemma fence_inv_gpu_progress:
  "fence_inv s \<Longrightarrow> fence_inv (s\<lparr>mFence := gpu_progress n (mFence s)\<rparr>)"
proof (induction n arbitrary: s)
  case 0
  then show ?case by simp
next
  case (Suc n)
  show ?case
  proof (cases "pending (mFence s)")
    case Nil
    with Suc.prems show ?thesis by simp
  next
    case (Cons v q)
    from Suc.IH [OF fence_inv_gpu_step [OF Suc.prems Cons]] Cons
    show ?thesis by simp
  qed
qed

lemma fence_inv_Signal:
  assumes "fence_inv s" "mCurrentFence s + 1 \<noteq> 0" "k < length (mFrameResources s)"
  shows "fence_inv (s\<lparr>mCurrentFence := mCurrentFence s + 1,
                      mFrameResources := (mFrameResources s)
                        [k := (mFrameResources s ! k)\<lparr>Fence := mCurrentFence s + 1\<rparr>],
                      mFence := Signal (mCurrentFence s + 1) (mFence s)\<rparr>)"
proof -
  let ?cf = "mCurrentFence s" and ?g = "mFence s"
  have lt: "?cf < ?cf + 1"
    using assms(2) by (simp add: word_less_nat_alt unatSuc add.commute)
  from assms(1) have le: "\<forall>v\<in>set (completed ?g # pending ?g). v \<le> ?cf"
    and so: "sorted_wrt (<) (completed ?g # pending ?g)"
    and fr: "\<forall>fr\<in>set (mFrameResources s).
               Fence fr = 0 \<or> Fence fr \<le> completed ?g \<or> Fence fr \<in> set (pending ?g)"
    by (simp_all add: fence_inv_def list_all_iff)
  have a: "sorted_wrt (<) (completed ?g # pending ?g @ [?cf + 1])"
    using so le lt by (auto simp: sorted_wrt_append)
  have b: "\<forall>v\<in>set (completed ?g # pending ?g @ [?cf + 1]). v \<le> ?cf + 1"
    using le lt by auto
  have c: "Fence x = 0 \<or> Fence x \<le> completed ?g \<or> Fence x \<in> set (pending ?g @ [?cf + 1])"
    if "x \<in> set ((mFrameResources s)[k := (mFrameResources s ! k)\<lparr>Fence := ?cf + 1\<rparr>])" for x
  proof -
    from that have "x = (mFrameResources s ! k)\<lparr>Fence := ?cf + 1\<rparr> \<or> x \<in> set (mFrameResources s)"
      by (auto dest: set_update_subset_insert [THEN subsetD])
    with fr show ?thesis by auto
  qed
  show ?thesis
    using a b c by (simp add: fence_inv_def list_all_iff Signal_def)
qed

lemma acquire_frame_resource_total:
  assumes "fence_inv s"
    and "(mCurrFrameResourceIndex s + 1) mod gNumFrameResources < length (mFrameResources s)"
  shows "\<exists>r. acquire_frame_resource s = Inr r"
proof -
  let ?k = "(mCurrFrameResourceIndex s + 1) mod gNumFrameResources"
  let ?f = "Fence (mFrameResources s ! ?k)"
  from assms have "?f = 0 \<or> ?f \<le> completed (mFence s) \<or> ?f \<in> set (pending (mFence s))"
    by (simp add: fence_inv_def list_all_iff)
  then have "?f \<le> completed (mFence s) \<or> (\<exists>x\<in>set (pending (mFence s)). ?f \<le> x)"
    by auto
  from wait_signal_total [OF this] obtain g where
    "WaitForFence ?f (mFence s) = Inr g" by (auto simp: WaitForFence_def)
  with assms(2) show ?thesis
    by (auto simp: acquire_frame_resource_def Let_def mCurrFrameResource_def bind_err_def)
qed

section \<open>One frame\<close>

lemma frame_Inr:
  assumes "frame dev fp kin s = Inr (calls, s'')"
  defines "k \<equiv> (mCurrFrameResourceIndex s + 1) mod gNumFrameResources"
  defines "fr \<equiv> mFrameResources s ! k"
  defines "mats \<equiv> \<lambda>waterMat.
             set_material ''water'' (scroll_water fp (DeltaTime (snd kin)) waterMat) (mMaterials s)"
  obtains waited g waterMat p where
    "acquire_frame_resource (s\<lparr>mFence := gpu_progress (fst kin) (mFence s)\<rparr>)
       = Inr (waited, s\<lparr>mCurrFrameResourceIndex := k, mFence := g\<rparr>)"
    and "k < length (mFrameResources s)"
    and "map_of (mMaterials s) ''water'' = Some waterMat"
    and "mWavesRitem s = Some p" and "p < length (mAllRitems s)"
    and "\<forall>e\<in>set (mAllRitems s). NumFramesDirty e > 0 \<longrightarrow>
           0 \<le> sint (ObjCBIndex e) \<and> sint (ObjCBIndex e) < int (length (ObjectCB fr))"
    and "\<forall>e\<in>set (mats waterMat). MatNumFramesDirty (snd e) > 0 \<longrightarrow>
           0 \<le> MatCBIndex (snd e) \<and> MatCBIndex (snd e) < int (length (MaterialCB fr))"
    and "s'' = s\<lparr>mCurrFrameResourceIndex := k,
                  mMaterials := map mat_after_pass (mats waterMat),
                  mAllRitems := map ritem_after_pass (mAllRitems s),
                  VertexBufferGPU := (VertexBufferGPU s)(Geo (mAllRitems s ! p) := Some k),
                  mCurrentFence := mCurrentFence s + 1,
                  mFrameResources := (mFrameResources s)
                    [k := fr\<lparr>ObjectCB := fold objcb_after (mAllRitems s) (ObjectCB fr),
                             MaterialCB := fold matcb_after (mats waterMat) (MaterialCB fr),
                             PassCB := (PassCB fr)[0 := MainPassCB (snd kin)],
                             WavesVB := wavesvb_after fp (WavesNow (snd kin)) 0 (WavesVB fr),
                             Fence := mCurrentFence s + 1\<rparr>],
                  mFence := Signal (mCurrentFence s + 1) g\<rparr>"
    and "signalled calls = [mCurrentFence s + 1]"
    and "submitted calls = [k]"
proof -
  let ?s0 = "s\<lparr>mFence := gpu_progress (fst kin) (mFence s)\<rparr>"
  from assms(1) obtain s' where
    u: "Update fp (snd kin) ?s0 = Inr s'" and d: "Draw dev s' = Inr (calls, s'')"
    by (auto simp: frame_def bind_err_Inr_iff)
  note D = Draw_Inr [OF d]
  from u show thesis
  proof (rule Update_Inr)
    fix waited g waterMat p
    let ?k0 = "(mCurrFrameResourceIndex ?s0 + 1) mod gNumFrameResources"
    let ?fr0 = "mFrameResources ?s0 ! ?k0"
    let ?m0 = "set_material ''water'' (scroll_water fp (DeltaTime (snd kin)) waterMat)
                 (mMaterials ?s0)"
    assume a: "acquire_frame_resource ?s0
                 = Inr (waited, ?s0\<lparr>mCurrFrameResourceIndex := ?k0, mFence := g\<rparr>)"
      and k: "?k0 < length (mFrameResources ?s0)"
      and w: "map_of (mMaterials ?s0) ''water'' = Some waterMat"
      and p: "mWavesRitem ?s0 = Some p" "p < length (mAllRitems ?s0)"
      and ob: "\<forall>e\<in>set (mAllRitems ?s0). NumFramesDirty e > 0 \<longrightarrow>
           0 \<le> sint (ObjCBIndex e) \<and> sint (ObjCBIndex e) < int (length (ObjectCB ?fr0))"
      and mb: "\<forall>e\<in>set ?m0. MatNumFramesDirty (snd e) > 0 \<longrightarrow>
           0 \<le> MatCBIndex (snd e) \<and> MatCBIndex (snd e) < int (length (MaterialCB ?fr0))"
      and s': "s' = ?s0\<lparr>mCurrFrameResourceIndex := ?k0, mFence := g,
                 mMaterials := map mat_after_pass ?m0,
                 mAllRitems := map ritem_after_pass (mAllRitems ?s0),
                 mFrameResources := (mFrameResources ?s0)
                   [?k0 := ?fr0\<lparr>ObjectCB := fold objcb_after (mAllRitems ?s0) (ObjectCB ?fr0),
                            MaterialCB := fold matcb_after ?m0 (MaterialCB ?fr0),
                            PassCB := (PassCB ?fr0)[0 := MainPassCB (snd kin)],
                            WavesVB := wavesvb_after fp (WavesNow (snd kin)) 0 (WavesVB ?fr0)\<rparr>],
                 VertexBufferGPU := (VertexBufferGPU ?s0)(Geo (mAllRitems ?s0 ! p) := Some ?k0)\<rparr>"
    have K0: "(mCurrFrameResourceIndex ?s0 + 1) mod gNumFrameResources = k"
      by (simp add: k_def)
    note a = a [unfolded K0] and k = k [unfolded K0] and ob = ob [unfolded K0]
      and mb = mb [unfolded K0] and s' = s' [unfolded K0]
    have 1: "acquire_frame_resource ?s0
              = Inr (waited, s\<lparr>mCurrFrameResourceIndex := k, mFence := g\<rparr>)"
      using a by simp
    have 2: "k < length (mFrameResources s)" using k by simp
    have 3: "map_of (mMaterials s) ''water'' = Some waterMat" using w by simp
    have 4: "mWavesRitem s = Some p" "p < length (mAllRitems s)" using p by simp_all
    have 5: "\<forall>e\<in>set (mAllRitems s). NumFramesDirty e > 0 \<longrightarrow>
           0 \<le> sint (ObjCBIndex e) \<and> sint (ObjCBIndex e) < int (length (ObjectCB fr))"
      using ob by (simp add: fr_def)
    have 6: "\<forall>e\<in>set (mats waterMat). MatNumFramesDirty (snd e) > 0 \<longrightarrow>
           0 \<le> MatCBIndex (snd e) \<and> MatCBIndex (snd e) < int (length (MaterialCB fr))"
      using mb by (simp add: fr_def mats_def)
    have s'2: "s' = s\<lparr>mCurrFrameResourceIndex := k, mFence := g,
                 mMaterials := map mat_after_pass (mats waterMat),
                 mAllRitems := map ritem_after_pass (mAllRitems s),
                 mFrameResources := (mFrameResources s)
                   [k := fr\<lparr>ObjectCB := fold objcb_after (mAllRitems s) (ObjectCB fr),
                            MaterialCB := fold matcb_after (mats waterMat) (MaterialCB fr),
                            PassCB := (PassCB fr)[0 := MainPassCB (snd kin)],
                            WavesVB := wavesvb_after fp (WavesNow (snd kin)) 0 (WavesVB fr)\<rparr>],
                 VertexBufferGPU := (VertexBufferGPU s)(Geo (mAllRitems s ! p) := Some k)\<rparr>"
      using s' by (simp add: fr_def mats_def)
    have s'_k: "mCurrFrameResourceIndex s' = k" "mCurrentFence s' = mCurrentFence s"
      "mFence s' = g"
      by (simp_all add: s'2)
    have 7: "s'' = s\<lparr>mCurrFrameResourceIndex := k,
                  mMaterials := map mat_after_pass (mats waterMat),
                  mAllRitems := map ritem_after_pass (mAllRitems s),
                  VertexBufferGPU := (VertexBufferGPU s)(Geo (mAllRitems s ! p) := Some k),
                  mCurrentFence := mCurrentFence s + 1,
                  mFrameResources := (mFrameResources s)
                    [k := fr\<lparr>ObjectCB := fold objcb_after (mAllRitems s) (ObjectCB fr),
                             MaterialCB := fold matcb_after (mats waterMat) (MaterialCB fr),
                             PassCB := (PassCB fr)[0 := MainPassCB (snd kin)],
                             WavesVB := wavesvb_after fp (WavesNow (snd kin)) 0 (WavesVB fr),
                             Fence := mCurrentFence s + 1\<rparr>],
                  mFence := Signal (mCurrentFence s + 1) g\<rparr>"
      unfolding D(2) using 2 by (simp add: s'2)
    have 8: "signalled calls = [mCurrentFence s + 1]" "submitted calls = [k]"
      using D(3,4) unfolding s'_k by simp_all
    show thesis by (rule that [OF 1 2 3 4 5 6 7 8])
  qed
qed

text \<open>The projections of the state after a frame that the claims use.\<close>

lemma frame_facts:
  assumes "frame dev fp kin s = Inr (calls, s'')"
  defines "k \<equiv> (mCurrFrameResourceIndex s + 1) mod gNumFrameResources"
  shows "mCurrFrameResourceIndex s'' = k"
    and "k < length (mFrameResources s)"
    and "length (mFrameResources s'') = length (mFrameResources s)"
    and "mCurrentFence s'' = mCurrentFence s + 1"
    and "Fence (mFrameResources s'' ! k) = mCurrentFence s + 1"
    and "\<And>j. j \<noteq> k \<Longrightarrow> mFrameResources s'' ! j = mFrameResources s ! j"
    and "mAllRitems s'' = map ritem_after_pass (mAllRitems s)"
    and "ObjectCB (mFrameResources s'' ! k)
           = fold objcb_after (mAllRitems s) (ObjectCB (mFrameResources s ! k))"
    and "\<forall>e\<in>set (mAllRitems s). NumFramesDirty e > 0 \<longrightarrow>
           0 \<le> sint (ObjCBIndex e)
           \<and> sint (ObjCBIndex e) < int (length (ObjectCB (mFrameResources s ! k)))"
    and "signalled calls = [mCurrentFence s + 1]"
    and "submitted calls = [k]"
    and "mRitemLayer s'' = mRitemLayer s"
    and "mWavesRitem s'' = mWavesRitem s"
    and "WavesVB (mFrameResources s'' ! k)
           = wavesvb_after fp (WavesNow (snd kin)) 0 (WavesVB (mFrameResources s ! k))"
    and "PassCB (mFrameResources s'' ! k)
           = (PassCB (mFrameResources s ! k))[0 := MainPassCB (snd kin)]"
  using assms(1) unfolding k_def
  by (rule frame_Inr; simp)+

lemma frame_materials:
  assumes "frame dev fp kin s = Inr (calls, s'')"
  defines "k \<equiv> (mCurrFrameResourceIndex s + 1) mod gNumFrameResources"
  obtains waterMat where
    "map_of (mMaterials s) ''water'' = Some waterMat"
    and "mMaterials s'' = map mat_after_pass
           (set_material ''water'' (scroll_water fp (DeltaTime (snd kin)) waterMat) (mMaterials s))"
    and "MaterialCB (mFrameResources s'' ! k)
           = fold matcb_after
               (set_material ''water'' (scroll_water fp (DeltaTime (snd kin)) waterMat) (mMaterials s))
               (MaterialCB (mFrameResources s ! k))"
    and "\<forall>e\<in>set (set_material ''water'' (scroll_water fp (DeltaTime (snd kin)) waterMat)
                      (mMaterials s)).
           MatNumFramesDirty (snd e) > 0 \<longrightarrow>
           0 \<le> MatCBIndex (snd e)
           \<and> MatCBIndex (snd e) < int (length (MaterialCB (mFrameResources s ! k)))"
  using assms(1) unfolding k_def
  by (rule frame_Inr) simp

lemma run_Cons_Inr:
  assumes "run dev fp (kin # rest) s = Inr (css, s')"
  obtains calls s1 css' where
    "frame dev fp kin s = Inr (calls, s1)" "run dev fp rest s1 = Inr (css', s')"
    "css = calls # css'"
  using assms by (auto simp: bind_err_Inr_iff)

lemma unat_plus_of_nat64:
  "unat (c :: 64 word) + m < 2 ^ 64 \<Longrightarrow> unat (c + of_nat m) = unat c + m"
  by (simp add: unat_word_ariths unat_of_nat)

lemma run_stamps:
  assumes "run dev fp frames s = Inr (css, s')"
    and "unat (mCurrentFence s) + length frames < 2 ^ 64"
  shows "map signalled css = map (\<lambda>i. [mCurrentFence s + 1 + of_nat i]) [0..<length frames]
       \<and> mCurrentFence s' = mCurrentFence s + of_nat (length frames)
       \<and> length (mFrameResources s') = length (mFrameResources s)
       \<and> (\<forall>k. (k \<notin> set (concat (map submitted css)) \<longrightarrow>
                  mFrameResources s' ! k = mFrameResources s ! k)
              \<and> (k \<in> set (concat (map submitted css)) \<longrightarrow>
                  Fence (mFrameResources s' ! k)
                    \<in> (\<lambda>i. mCurrentFence s + 1 + of_nat i) ` {..<length frames}))"
  using assms
proof (induction frames arbitrary: s css)
  case Nil
  then show ?case by simp
next
  case (Cons kin rest)
  let ?cf = "mCurrentFence s"
  let ?k = "(mCurrFrameResourceIndex s + 1) mod gNumFrameResources"
  from Cons.prems(1) obtain calls s1 css' where
    f: "frame dev fp kin s = Inr (calls, s1)" and r: "run dev fp rest s1 = Inr (css', s')"
    and css: "css = calls # css'"
    by (rule run_Cons_Inr)
  note F = frame_facts [OF f]
  have cf1: "mCurrentFence s1 = ?cf + 1" by (rule F(4))
  have u1: "unat (?cf + 1) = unat ?cf + 1"
    using Cons.prems(2) unat_plus_of_nat64 [of ?cf 1] by simp
  have "unat (mCurrentFence s1) + length rest < 2 ^ 64"
    using Cons.prems(2) by (simp add: cf1 u1)
  from Cons.IH [OF r this]
  have ih1: "map signalled css' = map (\<lambda>i. [?cf + 1 + 1 + of_nat i]) [0..<length rest]"
    and ih2: "mCurrentFence s' = ?cf + 1 + of_nat (length rest)"
    and ih3: "length (mFrameResources s') = length (mFrameResources s1)"
    and ih4: "\<And>k. k \<notin> set (concat (map submitted css')) \<Longrightarrow>
                  mFrameResources s' ! k = mFrameResources s1 ! k"
    and ih5: "\<And>k. k \<in> set (concat (map submitted css')) \<Longrightarrow>
                  Fence (mFrameResources s' ! k)
                    \<in> (\<lambda>i. ?cf + 1 + 1 + of_nat i) ` {..<length rest}"
    unfolding cf1 by blast+
  have shift: "(\<lambda>i. ?cf + 1 + 1 + of_nat i) = (\<lambda>i. ?cf + 1 + of_nat (Suc i))"
    by (simp add: fun_eq_iff add.assoc add.commute)
  have a: "map signalled css = map (\<lambda>i. [?cf + 1 + of_nat i]) [0..<length (kin # rest)]"
    unfolding css using F(10) ih1
    by (simp add: shift upt_conv_Cons map_Suc_upt [symmetric] del: upt_Suc)
  have b: "mCurrentFence s' = ?cf + of_nat (length (kin # rest))"
    by (simp add: ih2 add.assoc add.commute)
  have c: "length (mFrameResources s') = length (mFrameResources s)"
    by (simp add: ih3 F(3))
  have d: "mFrameResources s' ! k = mFrameResources s ! k"
    if "k \<notin> set (concat (map submitted css))" for k
  proof -
    from that have "k \<noteq> ?k" "k \<notin> set (concat (map submitted css'))"
      by (simp_all add: css F(11))
    with F(6) [of k] show ?thesis by (simp add: ih4)
  qed
  have e: "Fence (mFrameResources s' ! k)
             \<in> (\<lambda>i. ?cf + 1 + of_nat i) ` {..<length (kin # rest)}"
    if "k \<in> set (concat (map submitted css))" for k
  proof (cases "k \<in> set (concat (map submitted css'))")
    case True
    from ih5 [OF this] obtain i where
      "i < length rest" "Fence (mFrameResources s' ! k) = ?cf + 1 + of_nat (Suc i)"
      unfolding shift by blast
    then have "Suc i < length (kin # rest)"
      "Fence (mFrameResources s' ! k) = ?cf + 1 + of_nat (Suc i)" by simp_all
    then show ?thesis by blast
  next
    case False
    with that have "k = ?k" by (simp add: css F(11))
    with False F(5) have "Fence (mFrameResources s' ! k) = ?cf + 1 + of_nat 0"
      by (simp add: ih4)
    moreover have "0 < length (kin # rest)" by simp
    ultimately show ?thesis by blast
  qed
  from a b c d e show ?case by blast
qed

section \<open>Frames never get stuck\<close>

lemma set_set_material: "set (set_material k m ms) \<subseteq> insert (k, m) (set ms)"
  by (induction ms) auto

lemma map_of_set_material:
  "map_of (set_material k m ms) x
     = (if x = k \<and> map_of ms k \<noteq> None then Some m else map_of ms x)"
  by (induction ms) auto

lemma map_of_mat_after_pass:
  "map_of (map mat_after_pass ms) x = map_option (\<lambda>m. snd (mat_after_pass (x, m))) (map_of ms x)"
  by (induction ms) (auto simp: mat_after_pass_def)

lemma MatCBIndex_scroll_water [simp]: "MatCBIndex (scroll_water fp dt m) = MatCBIndex m"
  by (simp add: scroll_water_def Let_def)

lemma MatCBIndex_mat_after_pass [simp]: "MatCBIndex (snd (mat_after_pass e)) = MatCBIndex (snd e)"
  by (simp add: mat_after_pass_def)

lemma ritem_after_pass_fields [simp]:
  "ObjCBIndex (ritem_after_pass e) = ObjCBIndex e"
  "Mat (ritem_after_pass e) = Mat e"
  "Geo (ritem_after_pass e) = Geo e"
  "World (ritem_after_pass e) = World e"
  "TexTransform (ritem_after_pass e) = TexTransform e"
  "objConstants (ritem_after_pass e) = objConstants e"
  by (simp_all add: ritem_after_pass_def objConstants_def)

lemma list_all_layers:
  "list_all P [Opaque, Transparent, AlphaTested, AlphaTestedTreeSprites] \<longleftrightarrow> (\<forall>L. P L)"
proof
  assume a: "list_all P [Opaque, Transparent, AlphaTested, AlphaTestedTreeSprites]"
  show "\<forall>L. P L"
  proof
    fix L show "P L" using a by (cases L) simp_all
  qed
qed simp

lemma app_ok_frame:
  assumes ok: "app_ok s" and wf: "waves_fit s (snd kin)" and nw: "mCurrentFence s + 1 \<noteq> 0"
  shows "\<exists>calls s'. frame dev fp kin s = Inr (calls, s') \<and> app_ok s'"
proof -
  let ?k = "(mCurrFrameResourceIndex s + 1) mod gNumFrameResources"
  let ?fr = "mFrameResources s ! ?k"
  let ?s0 = "s\<lparr>mFence := gpu_progress (fst kin) (mFence s)\<rparr>"
  from ok have len: "length (mFrameResources s) = gNumFrameResources"
    and fi: "fence_inv s"
    and water: "map_of (mMaterials s) ''water'' \<noteq> None"
    and bufs: "\<forall>fr\<in>set (mFrameResources s). PassCB fr \<noteq> []
          \<and> (\<forall>e\<in>set (mAllRitems s). 0 \<le> sint (ObjCBIndex e)
                            \<and> sint (ObjCBIndex e) < int (length (ObjectCB fr)))
          \<and> (\<forall>e\<in>set (mMaterials s). 0 \<le> MatCBIndex (snd e)
                            \<and> MatCBIndex (snd e) < int (length (MaterialCB fr)))"
    and wr: "\<exists>p. mWavesRitem s = Some p \<and> p < length (mAllRitems s)"
    and lay: "\<forall>L. \<forall>p\<in>set (mRitemLayer s L). p < length (mAllRitems s)
                 \<and> map_of (mMaterials s) (Mat (mAllRitems s ! p)) \<noteq> None"
    unfolding app_ok_def list_all_layers
    by (auto simp: list_all_iff split: option.splits)
  have k: "?k < length (mFrameResources s)" by (simp add: len gNumFrameResources_def)
  then have frm: "?fr \<in> set (mFrameResources s)" by simp
  from water obtain waterMat where w: "map_of (mMaterials s) ''water'' = Some waterMat" by blast
  from wr obtain p where p: "mWavesRitem s = Some p" "p < length (mAllRitems s)" by blast
  let ?mats = "set_material ''water'' (scroll_water fp (DeltaTime (snd kin)) waterMat) (mMaterials s)"
  have wmem: "(''water'', waterMat) \<in> set (mMaterials s)" using w by (rule map_of_SomeD)
  have matb: "0 \<le> MatCBIndex (snd e) \<and> MatCBIndex (snd e) < int (length (MaterialCB fr))"
    if "e \<in> set ?mats" "fr \<in> set (mFrameResources s)" for e fr
  proof -
    from that(1) set_set_material
    have "e = (''water'', scroll_water fp (DeltaTime (snd kin)) waterMat) \<or> e \<in> set (mMaterials s)"
      by fastforce
    with bufs that(2) wmem show ?thesis by fastforce
  qed
  \<comment> \<open>the steps of \<open>Update\<close>\<close>
  have fi0: "fence_inv ?s0" using fi by (rule fence_inv_gpu_progress)
  have "\<exists>r. acquire_frame_resource ?s0 = Inr r"
    using fi0 k by (intro acquire_frame_resource_total) simp_all
  then obtain waited s1 where a: "acquire_frame_resource ?s0 = Inr (waited, s1)" by fastforce
  from acquire_frame_resource_Inr(2) [OF a] obtain g n where
    s1: "s1 = s\<lparr>mCurrFrameResourceIndex := ?k, mFence := g\<rparr>"
    and g: "g = gpu_progress n (mFence ?s0)"
    by auto
  have fig: "fence_inv (s\<lparr>mFence := g\<rparr>)"
    using fence_inv_gpu_progress [OF fi0, of n] by (simp add: g)
  let ?s2 = "s1\<lparr>mMaterials := ?mats\<rparr>"
  have b: "AnimateMaterials fp (DeltaTime (snd kin)) s1 = Inr ?s2"
    by (simp add: AnimateMaterials_Inr_iff s1 w)
  have ob: "\<forall>e\<in>set (mAllRitems s). 0 \<le> sint (ObjCBIndex e)
              \<and> sint (ObjCBIndex e) < int (length (ObjectCB ?fr))"
    and pb: "PassCB ?fr \<noteq> []"
    using bufs frm by blast+
  define s3 where "s3 = ?s2\<lparr>mAllRitems := map ritem_after_pass (mAllRitems s),
               mFrameResources := (mFrameResources s)
                 [?k := ?fr\<lparr>ObjectCB := fold objcb_after (mAllRitems s) (ObjectCB ?fr)\<rparr>]\<rparr>"
  have c: "UpdateObjectCBs ?s2 = Inr s3"
    using k ob by (simp add: UpdateObjectCBs_Inr_iff s1 s3_def mCurrFrameResource_def)
  define s4 where "s4 = s3\<lparr>mMaterials := map mat_after_pass ?mats,
               mFrameResources := (mFrameResources s)
                 [?k := ?fr\<lparr>ObjectCB := fold objcb_after (mAllRitems s) (ObjectCB ?fr),
                          MaterialCB := fold matcb_after ?mats (MaterialCB ?fr)\<rparr>]\<rparr>"
  have d: "UpdateMaterialCBs s3 = Inr s4"
    using k matb [OF _ frm]
    by (simp add: UpdateMaterialCBs_Inr_iff s3_def s4_def s1 mCurrFrameResource_def)
  define s5 where "s5 = s4\<lparr>mFrameResources := (mFrameResources s)
                 [?k := ?fr\<lparr>ObjectCB := fold objcb_after (mAllRitems s) (ObjectCB ?fr),
                          MaterialCB := fold matcb_after ?mats (MaterialCB ?fr),
                          PassCB := (PassCB ?fr)[0 := MainPassCB (snd kin)]\<rparr>]\<rparr>"
  have e: "UpdateMainPassCB (MainPassCB (snd kin)) s4 = Inr s5"
    using k pb
    by (simp add: UpdateMainPassCB_Inr_iff s5_def s4_def s3_def s1 mCurrFrameResource_def)
  have wfk: "VertexCount (WavesNow (snd kin)) \<le> int (length (WavesVB ?fr))"
    using wf frm by (simp add: waves_fit_def list_all_iff)
  define s6 where "s6 = s5\<lparr>mFrameResources := (mFrameResources s)
                   [?k := ?fr\<lparr>ObjectCB := fold objcb_after (mAllRitems s) (ObjectCB ?fr),
                            MaterialCB := fold matcb_after ?mats (MaterialCB ?fr),
                            PassCB := (PassCB ?fr)[0 := MainPassCB (snd kin)],
                            WavesVB := wavesvb_after fp (WavesNow (snd kin)) 0 (WavesVB ?fr)\<rparr>],
                 VertexBufferGPU := (VertexBufferGPU s)(Geo (mAllRitems s ! p) := Some ?k)\<rparr>"
  have f: "UpdateWaves fp (WavesNow (snd kin)) s5 = Inr s6"
    using k p wfk
    by (simp add: UpdateWaves_Inr_iff s6_def s5_def s4_def s3_def s1 mCurrFrameResource_def)
  note s3 = s3_def and s4 = s4_def and s5 = s5_def and s6 = s6_def
  have u: "Update fp (snd kin) ?s0 = Inr s6"
    by (simp add: Update_unfold a b c d e f bind_err_def)
  \<comment> \<open>\<open>Draw\<close>\<close>
  have mo: "(\<exists>y. map_of (mMaterials s6) x = Some y) \<longleftrightarrow> (\<exists>y. map_of (mMaterials s) x = Some y)"
    for x
    using w by (simp add: s6 s5 s4 s3 s1 map_of_mat_after_pass map_of_set_material)
  have it: "mAllRitems s6 = map ritem_after_pass (mAllRitems s)"
    "mRitemLayer s6 = mRitemLayer s" "mWavesRitem s6 = mWavesRitem s"
    "mCurrFrameResourceIndex s6 = ?k" "mCurrentFence s6 = mCurrentFence s" "mFence s6 = g"
    "length (mFrameResources s6) = length (mFrameResources s)"
    by (simp_all add: s6 s5 s4 s3 s1)
  have "\<exists>r. Draw dev s6 = Inr r"
  proof (rule Draw_total)
    show "mCurrFrameResourceIndex s6 < length (mFrameResources s6)" using k by (simp add: it)
    show "\<forall>L. \<forall>p\<in>set (mRitemLayer s6 L). p < length (mAllRitems s6)
            \<and> map_of (mMaterials s6) (Mat (mAllRitems s6 ! p)) \<noteq> None"
      using lay by (simp add: it mo)
  qed
  then obtain calls s' where dr: "Draw dev s6 = Inr (calls, s')" by fastforce
  have fr: "frame dev fp kin s = Inr (calls, s')"
    by (simp add: frame_def u dr bind_err_def)
  note F = frame_facts [OF fr] and D = Draw_Inr(2) [OF dr]
  \<comment> \<open>the state after the frame is again in order\<close>
  have 1: "length (mFrameResources s') = gNumFrameResources" using F(3) len by simp
  have 2: "fence_inv s'"
  proof -
    let ?sa = "s\<lparr>mFence := g\<rparr>"
    have "fence_inv (?sa\<lparr>mCurrentFence := mCurrentFence ?sa + 1,
                      mFrameResources := (mFrameResources ?sa)
                        [?k := (mFrameResources ?sa ! ?k)\<lparr>Fence := mCurrentFence ?sa + 1\<rparr>],
                      mFence := Signal (mCurrentFence ?sa + 1) (mFence ?sa)\<rparr>)"
      using fig nw k by (intro fence_inv_Signal) simp_all
    then show ?thesis
      by (rule fence_inv_cong) (simp_all add: D s6 s5 s4 s3 s1 map_update)
  qed
  have 3: "map_of (mMaterials s') ''water'' \<noteq> None"
    using mo [of "''water''"] w by (simp add: D)
  have frs': "mFrameResources s' = (mFrameResources s6)
               [?k := (mFrameResources s6 ! ?k)\<lparr>Fence := mCurrentFence s + 1\<rparr>]"
    by (simp add: D it)
  have ms': "mMaterials s' = map mat_after_pass ?mats"
    "mAllRitems s' = map ritem_after_pass (mAllRitems s)"
    by (simp_all add: D s6 s5 s4 s3 s1)
  have 4: "PassCB x \<noteq> []
          \<and> (\<forall>e\<in>set (mAllRitems s'). 0 \<le> sint (ObjCBIndex e)
                            \<and> sint (ObjCBIndex e) < int (length (ObjectCB x)))
          \<and> (\<forall>e\<in>set (mMaterials s'). 0 \<le> MatCBIndex (snd e)
                            \<and> MatCBIndex (snd e) < int (length (MaterialCB x)))"
    if "x \<in> set (mFrameResources s')" for x
  proof -
    from that obtain j where j: "j < length (mFrameResources s)" "x = mFrameResources s' ! j"
      by (auto simp: in_set_conv_nth F(3))
    then have old: "mFrameResources s ! j \<in> set (mFrameResources s)" by simp
    have P: "PassCB x \<noteq> [] \<and> length (ObjectCB x) = length (ObjectCB (mFrameResources s ! j))
           \<and> length (MaterialCB x) = length (MaterialCB (mFrameResources s ! j))"
    proof (cases "j = ?k")
      case True
      with j bufs old show ?thesis
        using F(8,15) frame_materials [OF fr]
        by (simp add: length_fold_objcb_after length_fold_matcb_after) (metis length_fold_matcb_after)
    next
      case False
      with j bufs old F(6) [of j] show ?thesis by simp
    qed
    have "0 \<le> MatCBIndex (snd e) \<and> MatCBIndex (snd e) < int (length (MaterialCB x))"
      if "e \<in> set (mMaterials s')" for e
      using that matb [OF _ old] P by (auto simp: ms')
    moreover have "0 \<le> sint (ObjCBIndex e) \<and> sint (ObjCBIndex e) < int (length (ObjectCB x))"
      if "e \<in> set (mAllRitems s')" for e
      using that bufs old P by (auto simp: ms')
    ultimately show ?thesis using P by blast
  qed
  have 5: "\<exists>p. mWavesRitem s' = Some p \<and> p < length (mAllRitems s')"
    using p F(13) by (simp add: ms')
  have mo': "(\<exists>y. map_of (mMaterials s') x = Some y) \<longleftrightarrow> (\<exists>y. map_of (mMaterials s) x = Some y)"
    for x
    using mo [of x] by (simp add: D)
  have 6: "\<forall>L. \<forall>p\<in>set (mRitemLayer s' L). p < length (mAllRitems s')
                 \<and> map_of (mMaterials s') (Mat (mAllRitems s' ! p)) \<noteq> None"
    using lay by (simp add: F(12) ms'(2) mo')
  have "app_ok s'"
    unfolding app_ok_def list_all_layers
    using 1 2 3 4 5 6 by (auto simp: list_all_iff)
  with fr show ?thesis by blast
qed

lemma length_wavesvb_after [simp]: "length (wavesvb_after fp w i vb) = length vb"
  by (simp add: wavesvb_after_def)

lemma waves_fit_frame:
  assumes "frame dev fp kin s = Inr (calls, s')"
  shows "waves_fit s' inp = waves_fit s inp"
proof -
  note F = frame_facts [OF assms]
  let ?k = "(mCurrFrameResourceIndex s + 1) mod gNumFrameResources"
  have "length (WavesVB (mFrameResources s' ! j)) = length (WavesVB (mFrameResources s ! j))" for j
    using F(6) [of j] F(14) by (cases "j = ?k") simp_all
  then have "map (length \<circ> WavesVB) (mFrameResources s') = map (length \<circ> WavesVB) (mFrameResources s)"
    using F(3) by (auto intro!: nth_equalityI)
  then have "list_all (P \<circ> (length \<circ> WavesVB)) (mFrameResources s')
           = list_all (P \<circ> (length \<circ> WavesVB)) (mFrameResources s)" for P
    unfolding list.pred_map [symmetric] by simp
  from this [of "\<lambda>n. VertexCount (WavesNow inp) \<le> int n"]
  show ?thesis by (simp add: waves_fit_def comp_def)
qed

lemma app_ok_run:
  assumes "app_ok s" and "list_all (\<lambda>kin. waves_fit s (snd kin)) frames"
    and "unat (mCurrentFence s) + length frames < 2 ^ 64"
  shows "\<exists>css s'. run dev fp frames s = Inr (css, s') \<and> app_ok s'"
  using assms
proof (induction frames arbitrary: s)
  case Nil
  then show ?case by simp
next
  case (Cons kin rest)
  have u: "unat (mCurrentFence s + 1) = unat (mCurrentFence s) + 1"
    using Cons.prems(3) unat_plus_of_nat64 [of "mCurrentFence s" 1] by simp
  then have nz: "mCurrentFence s + 1 \<noteq> 0" by (metis Suc_eq_plus1 nat.distinct(1) unat_0)
  from Cons.prems have "waves_fit s (snd kin)" by simp
  from app_ok_frame [OF Cons.prems(1) this nz] obtain calls s1 where
    f: "frame dev fp kin s = Inr (calls, s1)" and ok1: "app_ok s1" by blast
  have "list_all (\<lambda>kin. waves_fit s1 (snd kin)) rest"
    using Cons.prems(2) by (simp add: waves_fit_frame [OF f])
  moreover have "unat (mCurrentFence s1) + length rest < 2 ^ 64"
    using Cons.prems(3) by (simp add: frame_facts(4) [OF f] u)
  ultimately obtain css s' where "run dev fp rest s1 = Inr (css, s')" "app_ok s'"
    using Cons.IH [OF ok1] by blast
  with f show ?case by (simp add: bind_err_def)
qed

section \<open>The state after \<open>Initialize\<close> is in order\<close>

lemma Initialize_ok: "app_ok (Initialize Colors inp junk n fl)"
proof -
  let ?s = "Initialize Colors inp junk n fl"
  note I = Initialize_indices [of Colors inp junk n fl]
  have frs: "mFrameResources ?s = replicate 3 (new_FrameResource junk 1 56 7 n)"
    by (rule Initialize_frame_resources)
  have 1: "length (mFrameResources ?s) = gNumFrameResources"
    by (simp add: frs gNumFrameResources_def)
  have fe: "mCurrentFence ?s = fl" "mFence ?s = \<lparr>completed = fl, pending = []\<rparr>"
    by (simp_all add: Initialize_def)
  have 2: "fence_inv ?s"
    by (simp add: fence_inv_def frs fe new_FrameResource_def list_all_iff)
  have 3: "map_of (mMaterials ?s) ''water'' \<noteq> None"
    by (simp add: Initialize_materials BuildMaterials_def App0_def Let_def)
  have idx: "\<exists>k<56. ObjCBIndex e = of_nat k" if "e \<in> set (mAllRitems ?s)" for e
  proof -
    from that have "ObjCBIndex e \<in> set (map ObjCBIndex (mAllRitems ?s))" by simp
    then show ?thesis unfolding I by auto
  qed
  have 4: "0 \<le> sint (ObjCBIndex e) \<and> sint (ObjCBIndex e) < 56" if "e \<in> set (mAllRitems ?s)" for e
  proof -
    from idx [OF that] obtain k where "k < 56" "ObjCBIndex e = of_nat k" by blast
    then show ?thesis by (simp add: signed_of_nat signed_take_bit_int_eq_self)
  qed
  have 5: "0 \<le> MatCBIndex (snd e) \<and> MatCBIndex (snd e) < 7" if "e \<in> set (mMaterials ?s)" for e
    using that by (auto simp: Initialize_materials BuildMaterials_def App0_def Let_def new_Material_def)
  have 6: "mWavesRitem ?s = Some 0" by (rule Initialize_mWavesRitem)
  have 7: "p < length (mAllRitems ?s) \<and> map_of (mMaterials ?s) (Mat (mAllRitems ?s ! p)) \<noteq> None"
    if "p \<in> set (mRitemLayer ?s L)" for p L
  proof -
    from that have "p < 56" by (cases L) (auto simp: Initialize_layers)
    then have p: "p < length (mAllRitems ?s)" by (simp add: I)
    then have "mAllRitems ?s ! p \<in> set (mAllRitems ?s)" by simp
    from Initialize_Mat [OF this] p show ?thesis by simp
  qed
  show ?thesis
    unfolding app_ok_def list_all_layers
    using 1 2 3 4 5 6 7
    by (simp add: list_all_iff frs new_FrameResource_def I)
qed

lemma Initialize_waves_fit:
  "waves_fit (Initialize Colors inp junk n fl) i \<longleftrightarrow> VertexCount (WavesNow i) \<le> int n"
  by (simp add: waves_fit_def Initialize_frame_resources new_FrameResource_def list_all_iff)

lemma example_app_ok: "app_ok example_app"
  unfolding app_ok_def list_all_layers
  by (simp add: example_app_def fence_inv_def new_FrameResource_def new_RenderItem_def
        new_Material_def gNumFrameResources_def example_junk_def list_all_iff)

lemma example_waves_fit: "waves_fit example_app example_inputs"
  by (simp add: waves_fit_def example_app_def example_inputs_def example_waves_def
        new_FrameResource_def list_all_iff)

section \<open>Dirty counters over successive frames\<close>

section \<open>Dirty counters: facts\<close>

lemma fold_cond_upd_last_wins:
  assumes "x \<in> set xs" "P x" "g x < length cb"
    and "\<forall>y\<in>set xs. P y \<longrightarrow> g y = g x \<longrightarrow> h y = h x"
  shows "fold (\<lambda>x cb. if P x then cb[g x := h x] else cb) xs cb ! g x = h x"
  using assms
proof (induction xs rule: rev_induct)
  case Nil
  then show ?case by simp
next
  case (snoc y ys)
  let ?f = "\<lambda>x cb. if P x then cb[g x := h x] else cb"
  show ?case
  proof (cases "P y \<and> g y = g x")
    case True
    then have "h y = h x" using snoc.prems(4) by simp
    with True snoc.prems(3) show ?thesis by (simp add: length_fold_cond_upd)
  next
    case False
    with snoc.prems(1,2) have xs: "x \<in> set ys" by auto
    from snoc.prems(4) have "\<forall>y\<in>set ys. P y \<longrightarrow> g y = g x \<longrightarrow> h y = h x" by simp
    from snoc.IH [OF xs snoc.prems(2,3) this] have "fold ?f ys cb ! g x = h x" .
    with False show ?thesis by (cases "P y") simp_all
  qed
qed

lemma nat_sint_unat:
  assumes "0 \<le> sint (x :: 32 word)"
  shows "nat (sint x) = unat x"
proof -
  have "sint x < 2 ^ 32" using sint_lt [of x] by simp
  with assms have "take_bit 32 (sint x) = sint x" by (simp add: take_bit_int_eq_self)
  then have "uint x = sint x" using uint_sint [of x] by simp
  then show ?thesis by (metis nat_uint_eq)
qed

lemma sint_inj32: "sint (x :: 32 word) = sint y \<Longrightarrow> x = y"
  by (rule signed_word_eqI)

lemma frame_item_pass:
  assumes f: "frame dev fp kin s = Inr (calls, s')"
    and dist: "distinct (map ObjCBIndex (mAllRitems s))"
    and p: "p < length (mAllRitems s)"
    and dirty: "NumFramesDirty (mAllRitems s ! p) > 0"
  defines "k \<equiv> (mCurrFrameResourceIndex s + 1) mod gNumFrameResources"
  shows "ObjectCB (mFrameResources s' ! k) ! unat (ObjCBIndex (mAllRitems s ! p))
           = objConstants (mAllRitems s ! p)"
    and "NumFramesDirty (mAllRitems s' ! p) = NumFramesDirty (mAllRitems s ! p) - 1"
proof -
  note F = frame_facts [OF f]
  let ?e = "mAllRitems s ! p" and ?cb = "ObjectCB (mFrameResources s ! k)"
  let ?g = "\<lambda>e. nat (sint (ObjCBIndex e))"
  have mem: "?e \<in> set (mAllRitems s)" using p by simp
  have inb: "0 \<le> sint (ObjCBIndex e) \<and> sint (ObjCBIndex e) < int (length ?cb)"
    if "e \<in> set (mAllRitems s)" "NumFramesDirty e > 0" for e
    using F(9) that unfolding k_def by blast
  have same: "objConstants y = objConstants ?e"
    if "y \<in> set (mAllRitems s)" "NumFramesDirty y > 0" "?g y = ?g ?e" for y
  proof -
    from inb [OF that(1,2)] inb [OF mem dirty] that(3)
    have "sint (ObjCBIndex y) = sint (ObjCBIndex ?e)" by (simp add: eq_nat_nat_iff)
    then have "ObjCBIndex y = ObjCBIndex ?e" by (rule sint_inj32)
    moreover from dist have "inj_on ObjCBIndex (set (mAllRitems s))"
      by (simp add: distinct_map)
    ultimately have "y = ?e" using that(1) mem by (metis inj_onD)
    then show ?thesis by simp
  qed
  have gb: "?g ?e < length ?cb"
    using inb [OF mem dirty] by linarith
  have "fold objcb_after (mAllRitems s) ?cb ! ?g ?e = objConstants ?e"
    unfolding objcb_after_eq
    by (rule fold_cond_upd_last_wins
          [where P = "\<lambda>e. NumFramesDirty e > 0" and g = "\<lambda>e. nat (sint (ObjCBIndex e))"
             and h = objConstants and x = "mAllRitems s ! p" and xs = "mAllRitems s"
             and cb = "ObjectCB (mFrameResources s ! k)", OF mem dirty gb])
       (use same in blast)
  moreover have "?g ?e = unat (ObjCBIndex ?e)"
    using inb [OF mem dirty] by (simp add: nat_sint_unat)
  ultimately show "ObjectCB (mFrameResources s' ! k) ! unat (ObjCBIndex ?e) = objConstants ?e"
    using F(8) by (simp add: k_def)
  show "NumFramesDirty (mAllRitems s' ! p) = NumFramesDirty ?e - 1"
    using p dirty by (simp add: F(7) ritem_after_pass_def)
qed

lemma frame_items_kept:
  assumes f: "frame dev fp kin s = Inr (calls, s')"
  shows "length (mAllRitems s') = length (mAllRitems s)"
    and "map ObjCBIndex (mAllRitems s') = map ObjCBIndex (mAllRitems s)"
    and "p < length (mAllRitems s) \<Longrightarrow> objConstants (mAllRitems s' ! p) = objConstants (mAllRitems s ! p)"
    and "p < length (mAllRitems s) \<Longrightarrow> ObjCBIndex (mAllRitems s' ! p) = ObjCBIndex (mAllRitems s ! p)"
    and "p < length (mAllRitems s) \<Longrightarrow> World (mAllRitems s' ! p) = World (mAllRitems s ! p)"
    and "p < length (mAllRitems s) \<Longrightarrow> TexTransform (mAllRitems s' ! p) = TexTransform (mAllRitems s ! p)"
  by (simp_all add: frame_facts(7) [OF f] comp_def)

lemma ring_of_three:
  fixes i :: nat
  defines "k1 \<equiv> (i + 1) mod gNumFrameResources"
  defines "k2 \<equiv> (k1 + 1) mod gNumFrameResources"
  defines "k3 \<equiv> (k2 + 1) mod gNumFrameResources"
  shows "k1 \<noteq> k2" "k2 \<noteq> k3" "k1 \<noteq> k3"
    and "k < gNumFrameResources \<Longrightarrow> k = k1 \<or> k = k2 \<or> k = k3"
proof -
  have r: "i mod 3 = 0 \<or> i mod 3 = 1 \<or> i mod 3 = 2" by arith
  have k1: "k1 = (i mod 3 + 1) mod 3"
    unfolding k1_def gNumFrameResources_def by (simp add: mod_Suc_eq)
  from r have v: "k1 = 1 \<and> k2 = 2 \<and> k3 = 0 \<or> k1 = 2 \<and> k2 = 0 \<and> k3 = 1
                  \<or> k1 = 0 \<and> k2 = 1 \<and> k3 = 2"
    unfolding k1 k2_def k3_def gNumFrameResources_def by auto
  then show "k1 \<noteq> k2" "k2 \<noteq> k3" "k1 \<noteq> k3" by auto
  show "k = k1 \<or> k = k2 \<or> k = k3" if "k < gNumFrameResources"
    using that v unfolding gNumFrameResources_def by auto
qed

lemma set_material_fst: "map fst (set_material k m ms) = map fst ms"
  by (induction ms) auto

lemma set_material_MatCBIndex:
  assumes "map_of ms k = Some m0" "MatCBIndex m = MatCBIndex m0"
  shows "map (\<lambda>e. MatCBIndex (snd e)) (set_material k m ms) = map (\<lambda>e. MatCBIndex (snd e)) ms"
  using assms by (induction ms) (auto split: if_splits)

lemma fst_mat_after_pass [simp]: "fst (mat_after_pass e) = fst e"
  by (simp add: mat_after_pass_def)

lemma matConstants_counter [simp]:
  "matConstants (m\<lparr>MatNumFramesDirty := c\<rparr>) = matConstants m"
  by (simp add: matConstants_def)

lemma frame_material_pass:
  assumes f: "frame dev fp kin s = Inr (calls, s')"
    and dn: "distinct (map fst (mMaterials s))"
    and di: "distinct (map (\<lambda>e. MatCBIndex (snd e)) (mMaterials s))"
    and mo: "map_of (mMaterials s) name = Some m"
    and nw: "name \<noteq> ''water''"
    and dirty: "MatNumFramesDirty m > 0"
  defines "k \<equiv> (mCurrFrameResourceIndex s + 1) mod gNumFrameResources"
  shows "MaterialCB (mFrameResources s' ! k) ! nat (MatCBIndex m) = matConstants m"
    and "map_of (mMaterials s') name = Some (m\<lparr>MatNumFramesDirty := MatNumFramesDirty m - 1\<rparr>)"
    and "map fst (mMaterials s') = map fst (mMaterials s)"
    and "map (\<lambda>e. MatCBIndex (snd e)) (mMaterials s') = map (\<lambda>e. MatCBIndex (snd e)) (mMaterials s)"
proof -
  from f obtain waterMat where
    w: "map_of (mMaterials s) ''water'' = Some waterMat"
    and ms': "mMaterials s' = map mat_after_pass
           (set_material ''water'' (scroll_water fp (DeltaTime (snd kin)) waterMat) (mMaterials s))"
    and cb': "MaterialCB (mFrameResources s' ! k)
           = fold matcb_after
               (set_material ''water'' (scroll_water fp (DeltaTime (snd kin)) waterMat) (mMaterials s))
               (MaterialCB (mFrameResources s ! k))"
    and bnd: "\<forall>e\<in>set (set_material ''water'' (scroll_water fp (DeltaTime (snd kin)) waterMat)
                      (mMaterials s)).
           MatNumFramesDirty (snd e) > 0 \<longrightarrow>
           0 \<le> MatCBIndex (snd e)
           \<and> MatCBIndex (snd e) < int (length (MaterialCB (mFrameResources s ! k)))"
    unfolding k_def by (rule frame_materials)
  let ?ms = "set_material ''water'' (scroll_water fp (DeltaTime (snd kin)) waterMat) (mMaterials s)"
  let ?cb = "MaterialCB (mFrameResources s ! k)"
  have idx: "map (\<lambda>e. MatCBIndex (snd e)) ?ms = map (\<lambda>e. MatCBIndex (snd e)) (mMaterials s)"
    by (rule set_material_MatCBIndex [OF w]) simp
  have mo': "map_of ?ms name = Some m"
    using mo nw by (simp add: map_of_set_material)
  then have mem: "(name, m) \<in> set ?ms" by (rule map_of_SomeD)
  have d': "MatNumFramesDirty (snd (name, m)) > 0" using dirty by simp
  from bnd mem dirty have inb: "0 \<le> MatCBIndex m" "MatCBIndex m < int (length ?cb)" by auto
  then have gb: "nat (MatCBIndex (snd (name, m))) < length ?cb" by simp
  from di idx have "inj_on (\<lambda>e. MatCBIndex (snd e)) (set ?ms)"
    by (metis distinct_map)
  then have same: "matConstants (snd y) = matConstants (snd (name, m))"
    if "y \<in> set ?ms" "MatNumFramesDirty (snd y) > 0"
      "nat (MatCBIndex (snd y)) = nat (MatCBIndex (snd (name, m)))" for y
  proof -
    from bnd that(1,2) have "0 \<le> MatCBIndex (snd y)" by blast
    with that(3) inb(1) have "MatCBIndex (snd y) = MatCBIndex (snd (name, m))"
      by (simp add: eq_nat_nat_iff)
    with \<open>inj_on _ _\<close> that(1) mem have "y = (name, m)" by (metis inj_onD)
    then show ?thesis by simp
  qed
  have "fold matcb_after ?ms ?cb ! nat (MatCBIndex (snd (name, m))) = matConstants (snd (name, m))"
    unfolding matcb_after_eq
    by (rule fold_cond_upd_last_wins
          [where P = "\<lambda>e. MatNumFramesDirty (snd e) > 0" and g = "\<lambda>e. nat (MatCBIndex (snd e))"
             and h = "\<lambda>e. matConstants (snd e)" and x = "(name, m)" and xs = ?ms
             and cb = ?cb, OF mem d' gb])
       (use same in blast)
  then show "MaterialCB (mFrameResources s' ! k) ! nat (MatCBIndex m) = matConstants m"
    by (simp add: cb')
  show "map_of (mMaterials s') name = Some (m\<lparr>MatNumFramesDirty := MatNumFramesDirty m - 1\<rparr>)"
    using dirty by (simp add: ms' map_of_mat_after_pass mo' mat_after_pass_def)
  show "map fst (mMaterials s') = map fst (mMaterials s)"
    by (simp add: ms' comp_def set_material_fst)
  show "map (\<lambda>e. MatCBIndex (snd e)) (mMaterials s')
          = map (\<lambda>e. MatCBIndex (snd e)) (mMaterials s)"
    by (simp add: ms' comp_def idx)
qed

lemma mat_fold_slot:
  assumes di: "distinct (map (\<lambda>e. MatCBIndex (snd e)) ms)"
    and mo: "map_of ms name = Some m"
    and dirty: "MatNumFramesDirty m > 0"
    and bnd: "\<forall>e\<in>set ms. MatNumFramesDirty (snd e) > 0 \<longrightarrow>
                0 \<le> MatCBIndex (snd e) \<and> MatCBIndex (snd e) < int (length cb)"
  shows "fold matcb_after ms cb ! nat (MatCBIndex m) = matConstants m"
proof -
  from mo have mem: "(name, m) \<in> set ms" by (rule map_of_SomeD)
  have d': "MatNumFramesDirty (snd (name, m)) > 0" using dirty by simp
  from bnd mem dirty have inb: "0 \<le> MatCBIndex m" "MatCBIndex m < int (length cb)" by auto
  then have gb: "nat (MatCBIndex (snd (name, m))) < length cb" by simp
  from di have inj: "inj_on (\<lambda>e. MatCBIndex (snd e)) (set ms)" by (simp add: distinct_map)
  have same: "matConstants (snd y) = matConstants (snd (name, m))"
    if "y \<in> set ms" "MatNumFramesDirty (snd y) > 0"
      "nat (MatCBIndex (snd y)) = nat (MatCBIndex (snd (name, m)))" for y
  proof -
    from bnd that(1,2) have "0 \<le> MatCBIndex (snd y)" by blast
    with that(3) inb(1) have "MatCBIndex (snd y) = MatCBIndex (snd (name, m))"
      by (simp add: eq_nat_nat_iff)
    with inj that(1) mem have "y = (name, m)" by (metis inj_onD)
    then show ?thesis by simp
  qed
  have "fold matcb_after ms cb ! nat (MatCBIndex (snd (name, m))) = matConstants (snd (name, m))"
    unfolding matcb_after_eq
    by (rule fold_cond_upd_last_wins
          [where P = "\<lambda>e. MatNumFramesDirty (snd e) > 0" and g = "\<lambda>e. nat (MatCBIndex (snd e))"
             and h = "\<lambda>e. matConstants (snd e)" and x = "(name, m)" and xs = ms
             and cb = cb, OF mem d' gb])
       (use same in blast)
  then show ?thesis by simp
qed

lemma dirty_pass_Inr:
  assumes "dirty_pass s = Inr s'"
  defines "k \<equiv> (mCurrFrameResourceIndex s + 1) mod gNumFrameResources"
  shows "mCurrFrameResourceIndex s' = k"
    and "k < length (mFrameResources s)"
    and "\<And>j. j \<noteq> k \<Longrightarrow> mFrameResources s' ! j = mFrameResources s ! j"
    and "mMaterials s' = map mat_after_pass (mMaterials s)"
    and "MaterialCB (mFrameResources s' ! k)
           = fold matcb_after (mMaterials s) (MaterialCB (mFrameResources s ! k))"
    and "\<forall>e\<in>set (mMaterials s). MatNumFramesDirty (snd e) > 0 \<longrightarrow>
           0 \<le> MatCBIndex (snd e)
           \<and> MatCBIndex (snd e) < int (length (MaterialCB (mFrameResources s ! k)))"
    and "mAllRitems s' = map ritem_after_pass (mAllRitems s)"
    and "ObjectCB (mFrameResources s' ! k)
           = fold objcb_after (mAllRitems s) (ObjectCB (mFrameResources s ! k))"
proof -
  let ?n = "next_frame_resource s"
  from assms(1) obtain s1 where a: "UpdateObjectCBs ?n = Inr s1" and b: "UpdateMaterialCBs s1 = Inr s'"
    by (auto simp: dirty_pass_def bind_err_Inr_iff)
  have n: "mCurrFrameResourceIndex ?n = k" "mFrameResources ?n = mFrameResources s"
    "mMaterials ?n = mMaterials s" "mAllRitems ?n = mAllRitems s"
    by (simp_all add: next_frame_resource_def k_def)
  from a [unfolded UpdateObjectCBs_Inr_iff n mCurrFrameResource_def] have
    k: "k < length (mFrameResources s)"
    and s1: "s1 = ?n\<lparr>mAllRitems := map ritem_after_pass (mAllRitems s),
                    mFrameResources := (mFrameResources s)
                      [k := (mFrameResources s ! k)
                         \<lparr>ObjectCB := fold objcb_after (mAllRitems s)
                                        (ObjectCB (mFrameResources s ! k))\<rparr>]\<rparr>"
    by blast+
  have n1: "mCurrFrameResourceIndex s1 = k" "mMaterials s1 = mMaterials s"
    "length (mFrameResources s1) = length (mFrameResources s)"
    "MaterialCB (mFrameResources s1 ! k) = MaterialCB (mFrameResources s ! k)"
    using k by (simp_all add: s1 n)
  from b [unfolded UpdateMaterialCBs_Inr_iff n1 mCurrFrameResource_def] have
    bnd: "\<forall>e\<in>set (mMaterials s). MatNumFramesDirty (snd e) > 0 \<longrightarrow>
           0 \<le> MatCBIndex (snd e)
           \<and> MatCBIndex (snd e) < int (length (MaterialCB (mFrameResources s ! k)))"
    and s': "s' = s1\<lparr>mMaterials := map mat_after_pass (mMaterials s),
                    mFrameResources := (mFrameResources s1)
                      [k := (mFrameResources s1 ! k)
                         \<lparr>MaterialCB := fold matcb_after (mMaterials s)
                                          (MaterialCB (mFrameResources s ! k))\<rparr>]\<rparr>"
    by blast+
  show "mCurrFrameResourceIndex s' = k" by (simp add: s' n1)
  show "k < length (mFrameResources s)" by (rule k)
  show "mFrameResources s' ! j = mFrameResources s ! j" if "j \<noteq> k" for j
    using that by (simp add: s' s1 n)
  show "mMaterials s' = map mat_after_pass (mMaterials s)" by (simp add: s')
  show "MaterialCB (mFrameResources s' ! k)
           = fold matcb_after (mMaterials s) (MaterialCB (mFrameResources s ! k))"
    using k by (simp add: s' n1)
  show "\<forall>e\<in>set (mMaterials s). MatNumFramesDirty (snd e) > 0 \<longrightarrow>
           0 \<le> MatCBIndex (snd e)
           \<and> MatCBIndex (snd e) < int (length (MaterialCB (mFrameResources s ! k)))"
    by (rule bnd)
  show "mAllRitems s' = map ritem_after_pass (mAllRitems s)" by (simp add: s' s1)
  show "ObjectCB (mFrameResources s' ! k)
           = fold objcb_after (mAllRitems s) (ObjectCB (mFrameResources s ! k))"
    using k by (simp add: s' s1 n)
qed

lemma dirty_pass_material:
  assumes f: "dirty_pass s = Inr s'"
    and di: "distinct (map (\<lambda>e. MatCBIndex (snd e)) (mMaterials s))"
    and mo: "map_of (mMaterials s) name = Some m"
    and dirty: "MatNumFramesDirty m > 0"
  defines "k \<equiv> (mCurrFrameResourceIndex s + 1) mod gNumFrameResources"
  shows "MaterialCB (mFrameResources s' ! k) ! nat (MatCBIndex m) = matConstants m"
    and "map_of (mMaterials s') name = Some (m\<lparr>MatNumFramesDirty := MatNumFramesDirty m - 1\<rparr>)"
    and "map (\<lambda>e. MatCBIndex (snd e)) (mMaterials s') = map (\<lambda>e. MatCBIndex (snd e)) (mMaterials s)"
proof -
  note D = dirty_pass_Inr [OF f]
  show "MaterialCB (mFrameResources s' ! k) ! nat (MatCBIndex m) = matConstants m"
    unfolding k_def D(5) using di mo dirty D(6) by (rule mat_fold_slot)
  show "map_of (mMaterials s') name = Some (m\<lparr>MatNumFramesDirty := MatNumFramesDirty m - 1\<rparr>)"
    using dirty by (simp add: D(4) map_of_mat_after_pass mo mat_after_pass_def)
  show "map (\<lambda>e. MatCBIndex (snd e)) (mMaterials s') = map (\<lambda>e. MatCBIndex (snd e)) (mMaterials s)"
    by (simp add: D(4) comp_def)
qed

lemma frame_water_pass:
  assumes f: "frame dev fp kin s = Inr (calls, s')"
    and di: "distinct (map (\<lambda>e. MatCBIndex (snd e)) (mMaterials s))"
    and mo: "map_of (mMaterials s) ''water'' = Some w"
  defines "k \<equiv> (mCurrFrameResourceIndex s + 1) mod gNumFrameResources"
  defines "w' \<equiv> scroll_water fp (DeltaTime (snd kin)) w"
  shows "MaterialCB (mFrameResources s' ! k) ! nat (MatCBIndex w) = matConstants w'"
    and "map_of (mMaterials s') ''water'' = Some (w'\<lparr>MatNumFramesDirty := int gNumFrameResources - 1\<rparr>)"
    and "map (\<lambda>e. MatCBIndex (snd e)) (mMaterials s') = map (\<lambda>e. MatCBIndex (snd e)) (mMaterials s)"
proof -
  from f obtain waterMat where
    w: "map_of (mMaterials s) ''water'' = Some waterMat"
    and ms': "mMaterials s' = map mat_after_pass
           (set_material ''water'' (scroll_water fp (DeltaTime (snd kin)) waterMat) (mMaterials s))"
    and cb': "MaterialCB (mFrameResources s' ! k)
           = fold matcb_after
               (set_material ''water'' (scroll_water fp (DeltaTime (snd kin)) waterMat) (mMaterials s))
               (MaterialCB (mFrameResources s ! k))"
    and bnd: "\<forall>e\<in>set (set_material ''water'' (scroll_water fp (DeltaTime (snd kin)) waterMat)
                      (mMaterials s)).
           MatNumFramesDirty (snd e) > 0 \<longrightarrow>
           0 \<le> MatCBIndex (snd e)
           \<and> MatCBIndex (snd e) < int (length (MaterialCB (mFrameResources s ! k)))"
    unfolding k_def by (rule frame_materials)
  from w mo have [simp]: "waterMat = w" by simp
  let ?ms = "set_material ''water'' w' (mMaterials s)"
  have idx: "map (\<lambda>e. MatCBIndex (snd e)) ?ms = map (\<lambda>e. MatCBIndex (snd e)) (mMaterials s)"
    by (rule set_material_MatCBIndex [OF mo]) (simp add: w'_def)
  have mo': "map_of ?ms ''water'' = Some w'"
    using mo by (simp add: map_of_set_material)
  have c: "MatNumFramesDirty w' = int gNumFrameResources"
    by (simp add: w'_def scroll_water_def Let_def)
  then have dirty: "MatNumFramesDirty w' > 0" by (simp add: gNumFrameResources_def)
  have "fold matcb_after ?ms (MaterialCB (mFrameResources s ! k)) ! nat (MatCBIndex w')
          = matConstants w'"
    using di idx mo' dirty bnd by (intro mat_fold_slot) (simp_all add: w'_def)
  then show "MaterialCB (mFrameResources s' ! k) ! nat (MatCBIndex w) = matConstants w'"
    by (simp add: cb' w'_def)
  show "map_of (mMaterials s') ''water'' = Some (w'\<lparr>MatNumFramesDirty := int gNumFrameResources - 1\<rparr>)"
    using dirty c mo' by (simp add: ms' map_of_mat_after_pass mat_after_pass_def w'_def)
  show "map (\<lambda>e. MatCBIndex (snd e)) (mMaterials s') = map (\<lambda>e. MatCBIndex (snd e)) (mMaterials s)"
    using idx by (simp add: ms' comp_def w'_def)
qed

lemma MatCBIndex_counter [simp]: "MatCBIndex (m\<lparr>MatNumFramesDirty := c\<rparr>) = MatCBIndex m"
  by simp

lemma app_ok_three_frames:
  assumes ok: "app_ok s" and wf: "waves_fit s inp" and nw: "unat (mCurrentFence s) + 3 < 2 ^ 64"
  shows "\<exists>c1 s1 c2 s2 c3 s3.
           frame dev fp (g1, inp) s = Inr (c1, s1) \<and> frame dev fp (g2, inp) s1 = Inr (c2, s2)
           \<and> frame dev fp (g3, inp) s2 = Inr (c3, s3)"
proof -
  have "\<exists>css s'. run dev fp [(g1, inp), (g2, inp), (g3, inp)] s = Inr (css, s') \<and> app_ok s'"
    by (rule app_ok_run [OF ok]) (use wf nw in simp_all)
  then obtain css s' where r: "run dev fp [(g1, inp), (g2, inp), (g3, inp)] s = Inr (css, s')"
    by blast
  from r obtain c1 s1 r1 where
    f1: "frame dev fp (g1, inp) s = Inr (c1, s1)"
    and r1: "run dev fp [(g2, inp), (g3, inp)] s1 = Inr (r1, s')" and "css = c1 # r1"
    by (rule run_Cons_Inr)
  from r1 obtain c2 s2 r2 where
    f2: "frame dev fp (g2, inp) s1 = Inr (c2, s2)"
    and r2: "run dev fp [(g3, inp)] s2 = Inr (r2, s')" and "r1 = c2 # r2"
    by (rule run_Cons_Inr)
  from r2 obtain c3 s3 r3 where
    f3: "frame dev fp (g3, inp) s2 = Inr (c3, s3)"
    and "run dev fp [] s3 = Inr (r3, s')" and "r2 = c3 # r3"
    by (rule run_Cons_Inr)
  from f1 f2 f3 show ?thesis by blast
qed

lemma example_three_frames:
  "\<exists>c1 s1 c2 s2 c3 s3.
     frame example_device example_ops (0, example_inputs) example_app = Inr (c1, s1)
     \<and> frame example_device example_ops (1, example_inputs) s1 = Inr (c2, s2)
     \<and> frame example_device example_ops (0, example_inputs) s2 = Inr (c3, s3)"
  by (rule app_ok_three_frames [OF example_app_ok example_waves_fit])
     (simp add: example_app_def)

lemma example_dirty_passes:
  "\<exists>sm s1 s2 s3.
     AnimateMaterials example_ops f_0_1 example_app = Inr sm \<and> dirty_pass sm = Inr s1
     \<and> dirty_pass s1 = Inr s2 \<and> dirty_pass s2 = Inr s3"
  by (simp add: AnimateMaterials_def dirty_pass_def next_frame_resource_def
        UpdateObjectCBs_def UpdateMaterialCBs_def CopyData_def bind_err_def
        mCurrFrameResource_def example_app_def new_Material_def new_RenderItem_def
        new_FrameResource_def gNumFrameResources_def scroll_water_def Let_def)

lemma water_remutation:
  assumes di: "distinct (map (\<lambda>e. MatCBIndex (snd e)) (mMaterials s))"
    and mo: "map_of (mMaterials s) ''water'' = Some w"
  shows "(\<forall>sm s1 s2 s3.
            AnimateMaterials fp dt s = Inr sm \<and> dirty_pass sm = Inr s1
            \<and> dirty_pass s1 = Inr s2 \<and> dirty_pass s2 = Inr s3 \<longrightarrow>
              map_of (mMaterials sm) ''water'' = Some (scroll_water fp dt w)
              \<and> map_option MatNumFramesDirty (map_of (mMaterials sm) ''water'')
                    = Some (int gNumFrameResources)
              \<and> (\<forall>k<gNumFrameResources.
                    MaterialCB (mFrameResources s3 ! k) ! nat (MatCBIndex w)
                      = matConstants (scroll_water fp dt w))
              \<and> map_of (mMaterials s3) ''water''
                    = Some ((scroll_water fp dt w)\<lparr>MatNumFramesDirty := 0\<rparr>))
       \<and> (\<forall>in1 in2 in3 c1 s1 c2 s2 c3 s3.
            frame dev fp in1 s = Inr (c1, s1) \<and> frame dev fp in2 s1 = Inr (c2, s2)
            \<and> frame dev fp in3 s2 = Inr (c3, s3) \<longrightarrow>
              (\<exists>w1 w2 w3.
                  w1 = scroll_water fp (DeltaTime (snd in1)) w
                \<and> map_of (mMaterials s1) ''water'' = Some (w1\<lparr>MatNumFramesDirty := 2\<rparr>)
                \<and> w2 = scroll_water fp (DeltaTime (snd in2)) (w1\<lparr>MatNumFramesDirty := 2\<rparr>)
                \<and> map_of (mMaterials s2) ''water'' = Some (w2\<lparr>MatNumFramesDirty := 2\<rparr>)
                \<and> w3 = scroll_water fp (DeltaTime (snd in3)) (w2\<lparr>MatNumFramesDirty := 2\<rparr>)
                \<and> map_of (mMaterials s3) ''water'' = Some (w3\<lparr>MatNumFramesDirty := 2\<rparr>)
                \<and> MaterialCB (mFrameResources s3 ! mCurrFrameResourceIndex s1) ! nat (MatCBIndex w)
                     = matConstants w1
                \<and> MaterialCB (mFrameResources s3 ! mCurrFrameResourceIndex s2) ! nat (MatCBIndex w)
                     = matConstants w2
                \<and> MaterialCB (mFrameResources s3 ! mCurrFrameResourceIndex s3) ! nat (MatCBIndex w)
                     = matConstants w3))"
proof (intro conjI allI impI)
  fix sm s1 s2 s3
  assume "AnimateMaterials fp dt s = Inr sm \<and> dirty_pass sm = Inr s1
            \<and> dirty_pass s1 = Inr s2 \<and> dirty_pass s2 = Inr s3"
  then have a: "AnimateMaterials fp dt s = Inr sm" and p1: "dirty_pass sm = Inr s1"
    and p2: "dirty_pass s1 = Inr s2" and p3: "dirty_pass s2 = Inr s3" by blast+
  let ?w = "scroll_water fp dt w"
  from a mo have sm: "sm = s\<lparr>mMaterials := set_material ''water'' ?w (mMaterials s)\<rparr>"
    by (simp add: AnimateMaterials_Inr_iff)
  show mo0: "map_of (mMaterials sm) ''water'' = Some ?w"
    using mo by (simp add: sm map_of_set_material)
  have c: "MatNumFramesDirty ?w = int gNumFrameResources"
    by (simp add: scroll_water_def Let_def)
  show "map_option MatNumFramesDirty (map_of (mMaterials sm) ''water'')
          = Some (int gNumFrameResources)"
    using c by (simp add: mo0)
  have di0: "distinct (map (\<lambda>e. MatCBIndex (snd e)) (mMaterials sm))"
    using di set_material_MatCBIndex [OF mo, of ?w] by (simp add: sm)
  have d0: "MatNumFramesDirty ?w > 0" using c by (simp add: gNumFrameResources_def)
  let ?k1 = "(mCurrFrameResourceIndex sm + 1) mod gNumFrameResources"
  let ?k2 = "(?k1 + 1) mod gNumFrameResources"
  let ?k3 = "(?k2 + 1) mod gNumFrameResources"
  note D1 = dirty_pass_Inr [OF p1] and D2 = dirty_pass_Inr [OF p2] and D3 = dirty_pass_Inr [OF p3]
  note ring = ring_of_three [where i = "mCurrFrameResourceIndex sm"]
  note P1 = dirty_pass_material [OF p1 di0 mo0 d0]
  have mo1: "map_of (mMaterials s1) ''water'' = Some (?w\<lparr>MatNumFramesDirty := 2\<rparr>)"
    using P1(2) c by (simp add: gNumFrameResources_def)
  have di1: "distinct (map (\<lambda>e. MatCBIndex (snd e)) (mMaterials s1))" using di0 by (simp add: P1(3))
  have "MatNumFramesDirty (?w\<lparr>MatNumFramesDirty := 2\<rparr>) > 0" by simp
  note P2 = dirty_pass_material [OF p2 di1 mo1 this]
  have mo2: "map_of (mMaterials s2) ''water'' = Some (?w\<lparr>MatNumFramesDirty := 1\<rparr>)"
    using P2(2) by simp
  have di2: "distinct (map (\<lambda>e. MatCBIndex (snd e)) (mMaterials s2))" using di1 by (simp add: P2(3))
  have "MatNumFramesDirty (?w\<lparr>MatNumFramesDirty := 1\<rparr>) > 0" by simp
  note P3 = dirty_pass_material [OF p3 di2 mo2 this]
  show "map_of (mMaterials s3) ''water'' = Some (?w\<lparr>MatNumFramesDirty := 0\<rparr>)"
    using P3(2) by simp
  let ?slot = "nat (MatCBIndex w)" and ?c = "matConstants ?w"
  have a1: "MaterialCB (mFrameResources s1 ! ?k1) ! ?slot = ?c" using P1(1) by simp
  have a2: "MaterialCB (mFrameResources s2 ! ?k2) ! ?slot = ?c" using P2(1) by (simp add: D1(1))
  have a3: "MaterialCB (mFrameResources s3 ! ?k3) ! ?slot = ?c"
    using P3(1) by (simp add: D1(1) D2(1))
  have b1: "MaterialCB (mFrameResources s3 ! ?k1) ! ?slot = ?c"
    using a1 D2(3) [of ?k1] D3(3) [of ?k1] ring(1,3) by (simp add: D1(1) D2(1))
  have b2: "MaterialCB (mFrameResources s3 ! ?k2) ! ?slot = ?c"
    using a2 D3(3) [of ?k2] ring(2) by (simp add: D1(1) D2(1))
  show "MaterialCB (mFrameResources s3 ! k) ! ?slot = ?c" if "k < gNumFrameResources" for k
    using ring(4) [OF that] b1 b2 a3 by blast
next
  fix in1 in2 in3 c1 s1 c2 s2 c3 s3
  assume "frame dev fp in1 s = Inr (c1, s1) \<and> frame dev fp in2 s1 = Inr (c2, s2)
            \<and> frame dev fp in3 s2 = Inr (c3, s3)"
  then have f1: "frame dev fp in1 s = Inr (c1, s1)" and f2: "frame dev fp in2 s1 = Inr (c2, s2)"
    and f3: "frame dev fp in3 s2 = Inr (c3, s3)" by blast+
  note F1 = frame_facts [OF f1] and F2 = frame_facts [OF f2] and F3 = frame_facts [OF f3]
  note ring = ring_of_three [where i = "mCurrFrameResourceIndex s"]
  let ?w1 = "scroll_water fp (DeltaTime (snd in1)) w"
  let ?w2 = "scroll_water fp (DeltaTime (snd in2)) (?w1\<lparr>MatNumFramesDirty := 2\<rparr>)"
  let ?w3 = "scroll_water fp (DeltaTime (snd in3)) (?w2\<lparr>MatNumFramesDirty := 2\<rparr>)"
  note W1 = frame_water_pass [OF f1 di mo]
  have mo1: "map_of (mMaterials s1) ''water'' = Some (?w1\<lparr>MatNumFramesDirty := 2\<rparr>)"
    using W1(2) by (simp add: gNumFrameResources_def)
  have di1: "distinct (map (\<lambda>e. MatCBIndex (snd e)) (mMaterials s1))" using di by (simp add: W1(3))
  note W2 = frame_water_pass [OF f2 di1 mo1]
  have mo2: "map_of (mMaterials s2) ''water'' = Some (?w2\<lparr>MatNumFramesDirty := 2\<rparr>)"
    using W2(2) by (simp add: gNumFrameResources_def)
  have di2: "distinct (map (\<lambda>e. MatCBIndex (snd e)) (mMaterials s2))" using di1 by (simp add: W2(3))
  note W3 = frame_water_pass [OF f3 di2 mo2]
  have mo3: "map_of (mMaterials s3) ''water'' = Some (?w3\<lparr>MatNumFramesDirty := 2\<rparr>)"
    using W3(2) by (simp add: gNumFrameResources_def)
  let ?slot = "nat (MatCBIndex w)"
  have a1: "MaterialCB (mFrameResources s1 ! mCurrFrameResourceIndex s1) ! ?slot = matConstants ?w1"
    using W1(1) by (simp add: F1(1))
  have a2: "MaterialCB (mFrameResources s2 ! mCurrFrameResourceIndex s2) ! ?slot = matConstants ?w2"
    using W2(1) by (simp add: F2(1))
  have a3: "MaterialCB (mFrameResources s3 ! mCurrFrameResourceIndex s3) ! ?slot = matConstants ?w3"
    using W3(1) by (simp add: F3(1))
  have ne: "mCurrFrameResourceIndex s1 \<noteq> mCurrFrameResourceIndex s2"
    "mCurrFrameResourceIndex s2 \<noteq> mCurrFrameResourceIndex s3"
    "mCurrFrameResourceIndex s1 \<noteq> mCurrFrameResourceIndex s3"
    using ring(1,2,3) by (simp_all add: F1(1) F2(1) F3(1))
  have b1: "MaterialCB (mFrameResources s3 ! mCurrFrameResourceIndex s1) ! ?slot = matConstants ?w1"
  proof -
    have "mFrameResources s2 ! mCurrFrameResourceIndex s1 = mFrameResources s1 ! mCurrFrameResourceIndex s1"
      using ne(1) unfolding F2(1) by (rule F2(6))
    moreover have "mFrameResources s3 ! mCurrFrameResourceIndex s1 = mFrameResources s2 ! mCurrFrameResourceIndex s1"
      using ne(3) unfolding F3(1) by (rule F3(6))
    ultimately show ?thesis using a1 by simp
  qed
  have b2: "MaterialCB (mFrameResources s3 ! mCurrFrameResourceIndex s2) ! ?slot = matConstants ?w2"
  proof -
    have "mFrameResources s3 ! mCurrFrameResourceIndex s2 = mFrameResources s2 ! mCurrFrameResourceIndex s2"
      using ne(2) unfolding F3(1) by (rule F3(6))
    then show ?thesis using a2 by simp
  qed
  from mo1 mo2 mo3 b1 b2 a3
  show "\<exists>w1 w2 w3.
                  w1 = scroll_water fp (DeltaTime (snd in1)) w
                \<and> map_of (mMaterials s1) ''water'' = Some (w1\<lparr>MatNumFramesDirty := 2\<rparr>)
                \<and> w2 = scroll_water fp (DeltaTime (snd in2)) (w1\<lparr>MatNumFramesDirty := 2\<rparr>)
                \<and> map_of (mMaterials s2) ''water'' = Some (w2\<lparr>MatNumFramesDirty := 2\<rparr>)
                \<and> w3 = scroll_water fp (DeltaTime (snd in3)) (w2\<lparr>MatNumFramesDirty := 2\<rparr>)
                \<and> map_of (mMaterials s3) ''water'' = Some (w3\<lparr>MatNumFramesDirty := 2\<rparr>)
                \<and> MaterialCB (mFrameResources s3 ! mCurrFrameResourceIndex s1) ! nat (MatCBIndex w)
                     = matConstants w1
                \<and> MaterialCB (mFrameResources s3 ! mCurrFrameResourceIndex s2) ! nat (MatCBIndex w)
                     = matConstants w2
                \<and> MaterialCB (mFrameResources s3 ! mCurrFrameResourceIndex s3) ! nat (MatCBIndex w)
                     = matConstants w3"
    by blast
qed

section \<open>The wave vertex buffer\<close>


lemma fold_bind_Inl:
  "fold (\<lambda>j r. bind_err r (g j)) js (Inl e) = Inl e"
  by (induction js) (simp_all add: bind_err_def)

lemma UpdateWaves_loop_fold:
  "0 \<le> i \<Longrightarrow>
   UpdateWaves_loop fp w i vb
     = fold (\<lambda>j r. bind_err r (CopyData (int j) (wave_vertex fp w (int j))))
         [nat i..<nat (VertexCount w)] (Inr vb)"
proof (induction fp w i vb rule: UpdateWaves_loop.induct)
  case (1 fp w i vb)
  let ?f = "\<lambda>j r. bind_err r (CopyData (int j) (wave_vertex fp w (int j)))"
  show ?case
  proof (cases "i < VertexCount w")
    case False
    then have "[nat i..<nat (VertexCount w)] = []" by simp
    with False show ?thesis by (subst UpdateWaves_loop.simps) simp
  next
    case True
    with 1(2) have u: "[nat i..<nat (VertexCount w)] = nat i # [nat (i + 1)..<nat (VertexCount w)]"
      by (simp add: upt_conv_Cons nat_add_distrib)
    have unf: "UpdateWaves_loop fp w i vb
                 = bind_err (CopyData i (wave_vertex fp w i) vb) (UpdateWaves_loop fp w (i + 1))"
      using True by (subst UpdateWaves_loop.simps) simp
    have ih: "UpdateWaves_loop fp w (i + 1) vb1
                = fold ?f [nat (i + 1)..<nat (VertexCount w)] (Inr vb1)" for vb1
      using 1(1) [OF True] 1(2) by simp
    show ?thesis
    proof (cases "CopyData i (wave_vertex fp w i) vb")
      case (Inl e)
      then show ?thesis using 1(2)
        unfolding unf u by (simp add: bind_err_def fold_bind_Inl [unfolded bind_err_def])
    next
      case (Inr vb1)
      then show ?thesis using 1(2)
        unfolding unf u by (simp add: bind_err_def ih [unfolded bind_err_def])
    qed
  qed
qed


lemma wavesvb_after_nth:
  "j < length vb \<Longrightarrow>
   wavesvb_after fp w 0 vb ! j = (if int j < VertexCount w then wave_vertex fp w (int j) else vb ! j)"
  by (simp add: wavesvb_after_def)

lemma wavesvb_after_full:
  "int (length vb) = VertexCount w \<Longrightarrow>
   wavesvb_after fp w 0 vb = map (\<lambda>j. wave_vertex fp w (int j)) [0..<length vb]"
  by (simp add: wavesvb_after_def)

section \<open>The cross of a disturbed cell\<close>


lemma cross_cells:
  assumes "4 \<le> i" "i \<le> NumRows w - 5" "4 \<le> j" "j \<le> NumCols w - 5"
  defines "n \<equiv> i * NumCols w + j"
  shows "cross w i j = [nat n, nat (n + 1), nat (n - 1), nat (n + NumCols w), nat (n - NumCols w)]"
    and "NumCols w < n - NumCols w" and "n + NumCols w < NumRows w * NumCols w"
    and "9 \<le> NumCols w"
proof -
  let ?C = "NumCols w" and ?R = "NumRows w"
  show c9: "9 \<le> ?C" using assms by linarith
  show "cross w i j = [nat n, nat (n + 1), nat (n - 1), nat (n + ?C), nat (n - ?C)]"
    by (simp add: cross_def cell_def n_def algebra_simps)
  have "2 * ?C \<le> (i - 1) * ?C"
    using assms(1) c9 by (intro mult_right_mono) linarith+
  moreover have "n - ?C = (i - 1) * ?C + j" by (simp add: n_def algebra_simps)
  ultimately show "?C < n - ?C" using assms(3) c9 by linarith
  have "(i + 2) * ?C \<le> ?R * ?C"
    using assms(2) c9 by (intro mult_right_mono) linarith+
  moreover have "n + ?C = (i + 2) * ?C + (j - ?C)" by (simp add: n_def algebra_simps)
  ultimately show "n + ?C < ?R * ?C" using assms(4) by linarith
qed

lemma add_at_length [simp]: "length (add_at fp d k h) = length h"
  by (simp add: add_at_def)

lemma add_at_nth:
  "k' < length h \<Longrightarrow> add_at fp d k h ! k' = (if k' = k then fadd fp (h ! k) d else h ! k')"
  by (simp add: add_at_def)

lemma add_at_other: "k' \<noteq> k \<Longrightarrow> add_at fp d k h ! k' = h ! k'"
  by (simp add: add_at_def)

section \<open>The statements of \<open>Update\<close> one by one\<close>

lemma step_AnimateMaterials:
  assumes "AnimateMaterials fp dt s = Inr s'"
  shows "mCurrFrameResourceIndex s' = mCurrFrameResourceIndex s" and "mFence s' = mFence s"
    and "mFrameResources s' = mFrameResources s"
  using assms by (auto simp: AnimateMaterials_Inr_iff)

lemma step_UpdateObjectCBs:
  assumes "UpdateObjectCBs s = Inr s'"
  shows "mCurrFrameResourceIndex s' = mCurrFrameResourceIndex s" and "mFence s' = mFence s"
    and "Fence (mFrameResources s' ! j) = Fence (mFrameResources s ! j)"
    and "j \<noteq> mCurrFrameResourceIndex s \<Longrightarrow> mFrameResources s' ! j = mFrameResources s ! j"
  using assms
  by (auto simp: UpdateObjectCBs_Inr_iff mCurrFrameResource_def nth_list_update)

lemma step_UpdateMaterialCBs:
  assumes "UpdateMaterialCBs s = Inr s'"
  shows "mCurrFrameResourceIndex s' = mCurrFrameResourceIndex s" and "mFence s' = mFence s"
    and "Fence (mFrameResources s' ! j) = Fence (mFrameResources s ! j)"
    and "j \<noteq> mCurrFrameResourceIndex s \<Longrightarrow> mFrameResources s' ! j = mFrameResources s ! j"
  using assms
  by (auto simp: UpdateMaterialCBs_Inr_iff mCurrFrameResource_def nth_list_update)

lemma step_UpdateMainPassCB:
  assumes "UpdateMainPassCB pc s = Inr s'"
  shows "mCurrFrameResourceIndex s' = mCurrFrameResourceIndex s" and "mFence s' = mFence s"
    and "Fence (mFrameResources s' ! j) = Fence (mFrameResources s ! j)"
    and "j \<noteq> mCurrFrameResourceIndex s \<Longrightarrow> mFrameResources s' ! j = mFrameResources s ! j"
  using assms
  by (auto simp: UpdateMainPassCB_Inr_iff mCurrFrameResource_def nth_list_update)

lemma step_UpdateWaves:
  assumes "UpdateWaves fp w s = Inr s'"
  shows "mCurrFrameResourceIndex s' = mCurrFrameResourceIndex s" and "mFence s' = mFence s"
    and "Fence (mFrameResources s' ! j) = Fence (mFrameResources s ! j)"
    and "j \<noteq> mCurrFrameResourceIndex s \<Longrightarrow> mFrameResources s' ! j = mFrameResources s ! j"
  using assms
  by (auto simp: UpdateWaves_Inr_iff mCurrFrameResource_def nth_list_update)

lemma Update_trace_Inr:
  assumes "Update_trace fp inp s = Inr h"
  obtains waited s1 s2 s3 s4 s5 s6 where
    "h = [s1, s2, s3, s4, s5, s6]"
    and "acquire_frame_resource s = Inr (waited, s1)"
    and "AnimateMaterials fp (DeltaTime inp) s1 = Inr s2"
    and "UpdateObjectCBs s2 = Inr s3"
    and "UpdateMaterialCBs s3 = Inr s4"
    and "UpdateMainPassCB (MainPassCB inp) s4 = Inr s5"
    and "UpdateWaves fp (WavesNow inp) s5 = Inr s6"
  using assms by (auto simp: Update_trace_def bind_err_Inr_iff)

lemma Update_trace_Update:
  "Update_trace fp inp s = Inr h \<Longrightarrow> Update fp inp s = Inr (last h)"
  by (simp add: Update_def bind_err_def)

lemma Update_Inr_trace:
  "Update fp inp s = Inr s' \<Longrightarrow> \<exists>h. Update_trace fp inp s = Inr h \<and> last h = s'"
  by (auto simp: Update_def bind_err_Inr_iff)

lemma Update_trace_facts:
  assumes tr: "Update_trace fp inp s = Inr h"
  defines "k \<equiv> (mCurrFrameResourceIndex s + 1) mod gNumFrameResources"
  shows "length h = 6"
    and "\<exists>waited. acquire_frame_resource s = Inr (waited, hd h)"
    and "mFrameResources (hd h) = mFrameResources s"
    and "\<forall>t\<in>set h. mCurrFrameResourceIndex t = k
            \<and> Fence (mFrameResources t ! k) \<le> GetCompletedValue (mFence t)"
    and "\<forall>i<length h. \<forall>j. mFrameResources (h ! i) ! j \<noteq> mFrameResources ((s # h) ! i) ! j \<longrightarrow>
            j = k \<and> Fence (mFrameResources ((s # h) ! i) ! j)
                      \<le> GetCompletedValue (mFence ((s # h) ! i))"
    and "\<forall>t\<in>set h. \<forall>j. j \<noteq> k \<longrightarrow> mFrameResources t ! j = mFrameResources s ! j"
proof -
  from tr obtain waited s1 s2 s3 s4 s5 s6 where
    h: "h = [s1, s2, s3, s4, s5, s6]"
    and a: "acquire_frame_resource s = Inr (waited, s1)"
    and b: "AnimateMaterials fp (DeltaTime inp) s1 = Inr s2"
    and c: "UpdateObjectCBs s2 = Inr s3"
    and d: "UpdateMaterialCBs s3 = Inr s4"
    and e: "UpdateMainPassCB (MainPassCB inp) s4 = Inr s5"
    and f: "UpdateWaves fp (WavesNow inp) s5 = Inr s6"
    by (rule Update_trace_Inr)
  note B = step_AnimateMaterials [OF b] and C = step_UpdateObjectCBs [OF c]
    and D = step_UpdateMaterialCBs [OF d] and E = step_UpdateMainPassCB [OF e]
    and F = step_UpdateWaves [OF f]
  from acquire_frame_resource_Inr(2) [OF a] obtain g where
    s1: "s1 = s\<lparr>mCurrFrameResourceIndex := k, mFence := g\<rparr>"
    and le: "Fence (mFrameResources s ! k) \<le> completed g"
    unfolding k_def by blast
  have i1: "mCurrFrameResourceIndex s1 = k" and f1: "mFrameResources s1 = mFrameResources s"
    and g1: "mFence s1 = g"
    by (simp_all add: s1)
  have ok1: "Fence (mFrameResources s1 ! k) \<le> GetCompletedValue (mFence s1)"
    using le by (simp add: f1 g1 GetCompletedValue_def)
  have idx: "mCurrFrameResourceIndex s2 = k" "mCurrFrameResourceIndex s3 = k"
    "mCurrFrameResourceIndex s4 = k" "mCurrFrameResourceIndex s5 = k"
    "mCurrFrameResourceIndex s6 = k"
    by (simp_all add: B(1) C(1) D(1) E(1) F(1) i1)
  have fen: "mFence s2 = mFence s1" "mFence s3 = mFence s1" "mFence s4 = mFence s1"
    "mFence s5 = mFence s1" "mFence s6 = mFence s1"
    by (simp_all add: B(2) C(2) D(2) E(2) F(2))
  have st: "Fence (mFrameResources s2 ! j) = Fence (mFrameResources s1 ! j)"
    "Fence (mFrameResources s3 ! j) = Fence (mFrameResources s1 ! j)"
    "Fence (mFrameResources s4 ! j) = Fence (mFrameResources s1 ! j)"
    "Fence (mFrameResources s5 ! j) = Fence (mFrameResources s1 ! j)"
    "Fence (mFrameResources s6 ! j) = Fence (mFrameResources s1 ! j)" for j
    by (simp_all add: B(3) C(3) D(3) E(3) F(3))
  have ok: "Fence (mFrameResources s2 ! k) \<le> GetCompletedValue (mFence s2)"
    "Fence (mFrameResources s3 ! k) \<le> GetCompletedValue (mFence s3)"
    "Fence (mFrameResources s4 ! k) \<le> GetCompletedValue (mFence s4)"
    "Fence (mFrameResources s5 ! k) \<le> GetCompletedValue (mFence s5)"
    "Fence (mFrameResources s6 ! k) \<le> GetCompletedValue (mFence s6)"
    using ok1 by (simp_all add: st fen)
  have ch: "mFrameResources s2 ! j = mFrameResources s1 ! j"
    "mFrameResources s3 ! j = mFrameResources s2 ! j"
    "mFrameResources s4 ! j = mFrameResources s3 ! j"
    "mFrameResources s5 ! j = mFrameResources s4 ! j"
    "mFrameResources s6 ! j = mFrameResources s5 ! j" if "j \<noteq> k" for j
    using that C(4) [of j] D(4) [of j] E(4) [of j] F(4) [of j]
    by (simp_all add: B(3) idx)
  show "length h = 6" by (simp add: h)
  show "\<exists>waited. acquire_frame_resource s = Inr (waited, hd h)" using a by (auto simp: h)
  show "mFrameResources (hd h) = mFrameResources s" by (simp add: h f1)
  show "\<forall>t\<in>set h. mCurrFrameResourceIndex t = k
            \<and> Fence (mFrameResources t ! k) \<le> GetCompletedValue (mFence t)"
    using i1 idx ok1 ok by (simp add: h)
  show "\<forall>t\<in>set h. \<forall>j. j \<noteq> k \<longrightarrow> mFrameResources t ! j = mFrameResources s ! j"
    using ch by (simp add: h f1)
  show "\<forall>i<length h. \<forall>j. mFrameResources (h ! i) ! j \<noteq> mFrameResources ((s # h) ! i) ! j \<longrightarrow>
            j = k \<and> Fence (mFrameResources ((s # h) ! i) ! j)
                      \<le> GetCompletedValue (mFence ((s # h) ! i))"
  proof (intro allI impI)
    fix i j
    assume i: "i < length h"
      and ne: "mFrameResources (h ! i) ! j \<noteq> mFrameResources ((s # h) ! i) ! j"
    from i have "i = 0 \<or> i = 1 \<or> i = 2 \<or> i = 3 \<or> i = 4 \<or> i = 5" by (simp add: h) linarith
    then show "j = k \<and> Fence (mFrameResources ((s # h) ! i) ! j)
                      \<le> GetCompletedValue (mFence ((s # h) ! i))"
    proof (elim disjE)
      assume "i = 0" with ne show ?thesis by (simp add: h f1)
    next
      assume "i = 1" with ne ch(1) [of j] ok1 show ?thesis by (auto simp: h)
    next
      assume "i = 2" with ne ch(2) [of j] ok(1) show ?thesis by (auto simp: h)
    next
      assume "i = 3" with ne ch(3) [of j] ok(2) show ?thesis by (auto simp: h)
    next
      assume "i = 4" with ne ch(4) [of j] ok(3) show ?thesis by (auto simp: h)
    next
      assume "i = 5" with ne ch(5) [of j] ok(4) show ?thesis by (auto simp: h)
    qed
  qed
qed

lemma Draw_first_call:
  assumes "Draw dev s = Inr (calls, s')"
  shows "take 1 calls = [AllocatorReset (mCurrFrameResourceIndex s)]"
  using assms by (auto simp: Draw_def bind_err_Inr_iff Let_def split: if_splits)

lemma example_busy_ok: "app_ok example_busy"
  unfolding app_ok_def list_all_layers
  by (simp add: example_busy_def example_app_def fence_inv_def new_FrameResource_def
        new_RenderItem_def new_Material_def gNumFrameResources_def example_junk_def list_all_iff)

lemma example_busy_waves_fit: "waves_fit example_busy example_inputs"
  by (simp add: waves_fit_def example_busy_def example_app_def example_inputs_def
        example_waves_def new_FrameResource_def list_all_iff)

text \<open>
  Claim C9. After scene set-up the object-constant-buffer indices of the render items
  are the consecutive values 0 .. 55 in the order of \<open>mAllRitems\<close>, hence distinct, and
  each is below the element count of the object buffer of every frame resource, which
  has one slot per render item. So a \<open>CopyData\<close> at an item's index lands on that slot,
  and the byte offset \<open>ObjCBIndex * stride\<close> computed at draw time neither wraps nor
  leaves the buffer, for any struct size up to 64 KiB.
\<close>

theorem C9_ObjCBIndex_consecutive_in_bounds:
  fixes Colors inp junk n flushed
  defines "s \<equiv> Initialize Colors inp junk n flushed"
  shows "map ObjCBIndex (mAllRitems s) = map of_nat [0..<length (mAllRitems s)]
       \<and> distinct (map ObjCBIndex (mAllRitems s))
       \<and> length (mAllRitems s) = 56
       \<and> length (mFrameResources s) = gNumFrameResources
       \<and> (\<forall>fr\<in>set (mFrameResources s).
            length (ObjectCB fr) = length (mAllRitems s)
            \<and> (\<forall>e\<in>set (mAllRitems s).
                 unat (ObjCBIndex e) < length (ObjectCB fr)
                 \<and> (\<forall>c. CopyData (sint (ObjCBIndex e)) c (ObjectCB fr)
                          = Inr ((ObjectCB fr)[unat (ObjCBIndex e) := c]))
                 \<and> (\<forall>sz. unat sz \<le> 65536 \<longrightarrow>
                      unat (ObjCBIndex e * CalcConstantBufferByteSize sz)
                        + unat (CalcConstantBufferByteSize sz)
                      \<le> length (ObjectCB fr) * unat (CalcConstantBufferByteSize sz))))"
proof -
  have idx: "map ObjCBIndex (mAllRitems s) = map of_nat [0..<56]"
    and len: "length (mAllRitems s) = 56"
    by (simp_all add: s_def Initialize_indices)
  have frs: "mFrameResources s = replicate 3 (new_FrameResource junk 1 56 7 n)"
    by (simp add: s_def Initialize_frame_resources)
  have cb: "length (ObjectCB fr) = 56" if "fr \<in> set (mFrameResources s)" for fr
    using that by (auto simp: frs new_FrameResource_def)
  have item: "\<exists>k<56. ObjCBIndex e = of_nat k" if "e \<in> set (mAllRitems s)" for e
  proof -
    from that have "ObjCBIndex e \<in> set (map ObjCBIndex (mAllRitems s))" by simp
    then show ?thesis unfolding idx by auto
  qed
  have per_item: "unat (ObjCBIndex e) < 56
      \<and> (\<forall>c. CopyData (sint (ObjCBIndex e)) c cb0 = Inr (cb0[unat (ObjCBIndex e) := c]))
      \<and> (\<forall>sz. unat sz \<le> 65536 \<longrightarrow>
            unat (ObjCBIndex e * CalcConstantBufferByteSize sz)
              + unat (CalcConstantBufferByteSize sz)
            \<le> 56 * unat (CalcConstantBufferByteSize sz))"
    if "e \<in> set (mAllRitems s)" "length cb0 = 56" for e and cb0 :: "ObjectConstants list"
  proof -
    from item [OF that(1)] obtain k where k: "k < 56" "ObjCBIndex e = of_nat k" by blast
    have u: "unat (ObjCBIndex e) = k" using k by (simp add: unat_of_nat_eq)
    have si: "sint (ObjCBIndex e) = int k"
      using k by (simp add: signed_of_nat signed_take_bit_int_eq_self)
    show ?thesis
      using k u si that(2) offset_in_bounds [of _ k]
      by (simp add: CopyData_def)
  qed
  show ?thesis
    using idx len cb per_item distinct_map_of_nat_upt [of 56]
    by (simp add: frs gNumFrameResources_def)
qed

theorem C9_witness:
  "length (mAllRitems (Initialize (\<lambda>_. (f_1, f_1, f_1, f_1)) example_scene example_junk 4 2)) = 56
   \<and> distinct (map ObjCBIndex
         (mAllRitems (Initialize (\<lambda>_. (f_1, f_1, f_1, f_1)) example_scene example_junk 4 2)))
   \<and> length (mFrameResources
         (Initialize (\<lambda>_. (f_1, f_1, f_1, f_1)) example_scene example_junk 4 2)) = 3"
  using C9_ObjCBIndex_consecutive_in_bounds
          [of "\<lambda>_. (f_1, f_1, f_1, f_1)" example_scene example_junk 4 2]
  unfolding gNumFrameResources_def by blast

text \<open>
  Claim C4. The layers \<open>BuildRenderItems\<close> leaves behind, as positions in \<open>mAllRitems\<close>.
  The closing loop skips the first four items only, so the grass grid (position 50) is
  in the opaque layer twice, the boxes at positions 4 to 13 are both alpha-tested and
  opaque, and the tree sprites (position 51) are both in their own layer and opaque:
  the layers do not partition the items.
\<close>

theorem C4_layers_as_built:
  "mRitemLayer (Initialize Colors inp junk n flushed) Transparent = [0]
   \<and> mRitemLayer (Initialize Colors inp junk n flushed) AlphaTested = [2..<14]
   \<and> mRitemLayer (Initialize Colors inp junk n flushed) AlphaTestedTreeSprites = [51]
   \<and> mRitemLayer (Initialize Colors inp junk n flushed) Opaque = [1, 50] @ [4..<56]
   \<and> \<not> distinct (mRitemLayer (Initialize Colors inp junk n flushed) Opaque)
   \<and> 4 \<in> set (mRitemLayer (Initialize Colors inp junk n flushed) AlphaTested)
         \<inter> set (mRitemLayer (Initialize Colors inp junk n flushed) Opaque)
   \<and> 51 \<in> set (mRitemLayer (Initialize Colors inp junk n flushed) AlphaTestedTreeSprites)
         \<inter> set (mRitemLayer (Initialize Colors inp junk n flushed) Opaque)"
  by (simp add: Initialize_layers)

text \<open>
  Claim C6. \<open>DrawRenderItems\<close> walks the layer in registration order and records seven
  calls per item: the vertex and index buffer views of the item's geometry, its
  primitive topology, the texture descriptor table moved by the material's descriptor
  index, the object and material constant-buffer views at the current frame
  resource's buffer address plus slot index times stride, and one indexed draw call
  with the item's index count, start index and base vertex. The stride
  \<open>CalcConstantBufferByteSize sz\<close> is \<open>sz\<close> rounded up to a multiple of 256.
\<close>

theorem C6_DrawRenderItems_per_item:
  assumes "DrawRenderItems dev s ritems = Inr calls"
  shows "length calls = 7 * length ritems
    \<and> map snd (layer_trace pso calls) = map (draw_call s) ritems
    \<and> (\<forall>i<length ritems.
         ritems ! i < length (mAllRitems s)
         \<and> (\<exists>mat. map_of (mMaterials s) (Mat (mAllRitems s ! (ritems ! i))) = Some mat
              \<and> take 7 (drop (7 * i) calls) =
                  [IASetVertexBuffers (Geo (mAllRitems s ! (ritems ! i)))
                     (VertexBufferGPU s (Geo (mAllRitems s ! (ritems ! i)))),
                   IASetIndexBuffer (Geo (mAllRitems s ! (ritems ! i))),
                   IASetPrimitiveTopology (PrimitiveType (mAllRitems s ! (ritems ! i))),
                   SetGraphicsRootDescriptorTable 0
                     (SrvHeapStart dev
                        + word_of_int (DiffuseSrvHeapIndex mat) * ucast (mCbvSrvDescriptorSize dev)),
                   SetGraphicsRootConstantBufferView 1
                     (ObjectCB_VA dev (mCurrFrameResourceIndex s)
                        + ucast (ObjCBIndex (mAllRitems s ! (ritems ! i))
                                   * CalcConstantBufferByteSize (sizeof_ObjectConstants dev))),
                   SetGraphicsRootConstantBufferView 3
                     (MaterialCB_VA dev (mCurrFrameResourceIndex s)
                        + ucast ((word_of_int (MatCBIndex mat) :: UINT)
                                   * CalcConstantBufferByteSize (sizeof_MaterialConstants dev))),
                   DrawIndexedInstanced (IndexCount (mAllRitems s ! (ritems ! i))) 1
                     (StartIndexLocation (mAllRitems s ! (ritems ! i)))
                     (BaseVertexLocation (mAllRitems s ! (ritems ! i))) 0]))
    \<and> (\<forall>sz. unat sz + 255 < 2 ^ 32 \<longrightarrow>
          256 dvd unat (CalcConstantBufferByteSize sz)
          \<and> unat sz \<le> unat (CalcConstantBufferByteSize sz)
          \<and> unat (CalcConstantBufferByteSize sz) < unat sz + 256)"
proof -
  let ?f = "\<lambda>p. draw_item dev s (mCurrFrameResourceIndex s) (mAllRitems s ! p)
                  (the (map_of (mMaterials s) (Mat (mAllRitems s ! p))))"
  from DrawRenderItems_concat [OF assms]
  have ok: "\<forall>p\<in>set ritems. p < length (mAllRitems s)
                 \<and> map_of (mMaterials s) (Mat (mAllRitems s ! p)) \<noteq> None"
    and calls: "calls = concat (map ?f ritems)" by blast+
  have len7: "\<forall>p\<in>set ritems. length (?f p) = 7" by (simp add: length_draw_item)
  have 1: "length calls = 7 * length ritems"
    unfolding calls using len7 by (rule length_concat_blocks)
  have 2: "map snd (layer_trace pso calls) = map (draw_call s) ritems"
    using layer_trace_items [of pso dev s "mCurrFrameResourceIndex s" _ ritems "[]"]
    by (simp add: calls comp_def)
  have 3: "ritems ! i < length (mAllRitems s)
         \<and> (\<exists>mat. map_of (mMaterials s) (Mat (mAllRitems s ! (ritems ! i))) = Some mat
              \<and> take 7 (drop (7 * i) calls)
                  = draw_item dev s (mCurrFrameResourceIndex s) (mAllRitems s ! (ritems ! i)) mat)"
    if "i < length ritems" for i
  proof -
    from that have mem: "ritems ! i \<in> set ritems" by simp
    with ok obtain mat where
      "ritems ! i < length (mAllRitems s)"
      "map_of (mMaterials s) (Mat (mAllRitems s ! (ritems ! i))) = Some mat" by auto
    moreover have "take 7 (drop (7 * i) calls) = ?f (ritems ! i)"
      unfolding calls using len7 that by (rule block_of_concat)
    ultimately show ?thesis by simp
  qed
  show ?thesis
    using 1 2 3 CalcConstantBufferByteSize_rounds_up
    by (simp add: draw_item_def Let_def Offset_def)
qed

theorem C6_witness:
  "\<exists>calls. DrawRenderItems example_device example_app [1, 0] = Inr calls
     \<and> length calls = 14
     \<and> map snd (layer_trace ''opaque'' calls) = [draw_call example_app 1, draw_call example_app 0]"
proof -
  have "\<exists>calls. DrawRenderItems example_device example_app [1, 0] = Inr calls"
    by (rule DrawRenderItems_total) (simp add: example_app_def new_RenderItem_def)
  then obtain calls where c: "DrawRenderItems example_device example_app [1, 0] = Inr calls"
    by blast
  from C6_DrawRenderItems_per_item [OF c, of "''opaque''"]
  have "length calls = 14"
    and "map snd (layer_trace ''opaque'' calls) = [draw_call example_app 1, draw_call example_app 0]"
    by simp_all
  with c show ?thesis by auto
qed

text \<open>
  Claim C5. Whatever the layers hold, the draw calls of a frame come in the order
  opaque, alpha-tested, tree sprites, transparent, each under the pipeline state of its
  layer, and inside a layer in registration order: the transparent layer is drawn
  last and is not sorted.
\<close>

theorem C5_layers_in_fixed_order:
  assumes "Draw dev s = Inr (calls, s')"
  shows "layer_trace pso calls =
           map (\<lambda>p. (''opaque'', draw_call s p)) (mRitemLayer s Opaque)
         @ map (\<lambda>p. (''alphaTested'', draw_call s p)) (mRitemLayer s AlphaTested)
         @ map (\<lambda>p. (''treeSprites'', draw_call s p)) (mRitemLayer s AlphaTestedTreeSprites)
         @ map (\<lambda>p. (''transparent'', draw_call s p)) (mRitemLayer s Transparent)"
proof -
  from assms obtain c1 c2 c3 c4 where
    d: "DrawRenderItems dev s (mRitemLayer s Opaque) = Inr c1"
       "DrawRenderItems dev s (mRitemLayer s AlphaTested) = Inr c2"
       "DrawRenderItems dev s (mRitemLayer s AlphaTestedTreeSprites) = Inr c3"
       "DrawRenderItems dev s (mRitemLayer s Transparent) = Inr c4"
    and calls: "calls =
       [AllocatorReset (mCurrFrameResourceIndex s),
        CommandListReset (mCurrFrameResourceIndex s) ''opaque'',
        RSSetViewports, RSSetScissorRects,
        ResourceBarrier ''PRESENT'' ''RENDER_TARGET'',
        ClearRenderTargetView, ClearDepthStencilView,
        OMSetRenderTargets, SetDescriptorHeaps, SetGraphicsRootSignature,
        SetGraphicsRootConstantBufferView 2 (PassCB_VA dev (mCurrFrameResourceIndex s))]
       @ c1 @ [SetPipelineState ''alphaTested''] @ c2
       @ [SetPipelineState ''treeSprites''] @ c3
       @ [SetPipelineState ''transparent''] @ c4
       @ [ResourceBarrier ''RENDER_TARGET'' ''PRESENT'', Close, ExecuteCommandLists, Present,
          QueueSignal (mCurrentFence s + 1)]"
    by (auto simp: Draw_def bind_err_def Let_def split: if_splits sum.splits)
  note e = d [THEN DrawRenderItems_concat, THEN conjunct2]
  show ?thesis
    unfolding calls
    by (subst e)+ (simp add: layer_trace_items)
qed

theorem C5_witness:
  "\<exists>calls s'. Draw example_device example_app = Inr (calls, s')
     \<and> layer_trace [] calls =
           [(''opaque'', draw_call example_app 1), (''transparent'', draw_call example_app 0)]"
proof -
  have "\<exists>r. Draw example_device example_app = Inr r"
    by (simp add: Draw_def example_app_def new_RenderItem_def bind_err_def Let_def)
  then obtain calls s' where d: "Draw example_device example_app = Inr (calls, s')"
    by fastforce
  from C5_layers_in_fixed_order [OF d, of "[]"]
  have "layer_trace [] calls =
           [(''opaque'', draw_call example_app 1), (''transparent'', draw_call example_app 0)]"
    by (simp add: example_app_def)
  with d show ?thesis by auto
qed

text \<open>
  Claim C10. Every frame stamps its frame resource with the pre-incremented counter
  \<open>mCurrentFence\<close> and signals that value. Over a run of frames that does not exhaust
  the 64-bit counter, the values signalled are \<open>mCurrentFence + 1, mCurrentFence + 2, \<dots>\<close>:
  strictly increasing, above the counter's starting value and so at least 1. A frame
  resource that was submitted during the run holds one of these values, never zero;
  one that was not submitted keeps the fence value it had. A resource that starts
  with the sentinel zero therefore reads zero exactly as long as it has never been
  submitted.
\<close>

theorem C10_fence_stamps_increase:
  assumes "run dev fp frames s = Inr (css, s')"
    and "unat (mCurrentFence s) + length frames < 2 ^ 64"
  shows "concat (map signalled css)
           = map (\<lambda>i. mCurrentFence s + 1 + of_nat i) [0..<length frames]
       \<and> sorted_wrt (<) (mCurrentFence s # concat (map signalled css))
       \<and> list_all (\<lambda>v. 1 \<le> v) (concat (map signalled css))
       \<and> mCurrentFence s' = mCurrentFence s + of_nat (length frames)
       \<and> (\<forall>k. if k \<in> set (concat (map submitted css))
               then Fence (mFrameResources s' ! k) \<in> set (concat (map signalled css))
                    \<and> Fence (mFrameResources s' ! k) \<noteq> 0
               else Fence (mFrameResources s' ! k) = Fence (mFrameResources s ! k))"
proof -
  let ?cf = "mCurrentFence s" and ?n = "length frames"
  let ?st = "map (\<lambda>i. ?cf + 1 + of_nat i) [0..<?n]"
  note R = run_stamps [OF assms]
  have st: "concat (map signalled css) = ?st"
  proof -
    have "concat (map signalled css) = concat (map (\<lambda>i. [?cf + 1 + of_nat i]) [0..<?n])"
      using R by simp
    also have "\<dots> = ?st" by (induction ?n) simp_all
    finally show ?thesis .
  qed
  have un: "unat (?cf + 1 + of_nat i) = unat ?cf + 1 + i" if "i < ?n" for i
    using that assms(2) unat_plus_of_nat64 [of ?cf "1 + i"]
    by (simp add: add.assoc)
  have gt: "?cf < ?cf + 1 + of_nat i" if "i < ?n" for i
    using un [OF that] by (simp add: word_less_nat_alt)
  have so: "sorted_wrt (<) ?st"
    by (auto simp: sorted_wrt_iff_nth_less word_less_nat_alt un)
  have 1: "sorted_wrt (<) (?cf # concat (map signalled css))"
    using so gt by (auto simp: st)
  have ge: "1 \<le> v" if "v \<in> set ?st" for v
  proof -
    from that obtain i where "i < ?n" "v = ?cf + 1 + of_nat i" by auto
    with un [of i] show ?thesis by (simp add: word_le_nat_alt)
  qed
  then have 2: "list_all (\<lambda>v. 1 \<le> v) (concat (map signalled css))"
    by (simp add: st list_all_iff)
  have 3: "Fence (mFrameResources s' ! k) \<in> set (concat (map signalled css))
           \<and> Fence (mFrameResources s' ! k) \<noteq> 0"
    if "k \<in> set (concat (map submitted css))" for k
  proof -
    from R that have m: "Fence (mFrameResources s' ! k) \<in> set ?st" by auto
    from ge [OF m] have "Fence (mFrameResources s' ! k) \<noteq> 0" by auto
    with m show ?thesis by (simp add: st)
  qed
  have 4: "Fence (mFrameResources s' ! k) = Fence (mFrameResources s ! k)"
    if "k \<notin> set (concat (map submitted css))" for k
    using R that by simp
  from st 1 2 R 3 4 show ?thesis by simp
qed

theorem C10_witness:
  "\<exists>css s'. run example_device example_ops
              [(0, example_inputs), (1, example_inputs), (0, example_inputs), (2, example_inputs)]
              example_app = Inr (css, s')
     \<and> concat (map signalled css) = [3, 4, 5, 6]
     \<and> mCurrentFence s' = 6"
proof -
  let ?frames = "[(0, example_inputs), (1, example_inputs), (0, example_inputs), (2 :: nat, example_inputs)]"
  have cf: "mCurrentFence example_app = 2" by (simp add: example_app_def)
  have "\<exists>css s'. run example_device example_ops ?frames example_app = Inr (css, s') \<and> app_ok s'"
    by (rule app_ok_run [OF example_app_ok]) (simp_all add: example_waves_fit cf)
  then obtain css s' where r: "run example_device example_ops ?frames example_app = Inr (css, s')"
    by blast
  from C10_fence_stamps_increase [OF r]
  have "concat (map signalled css) = [3, 4, 5, 6]" "mCurrentFence s' = 6"
    by (simp_all add: cf upt_conv_Cons)
  with r show ?thesis by auto
qed

text \<open>
  Claim C1. \<open>Update\<close> first moves the cursor to the next frame resource modulo
  \<open>gNumFrameResources\<close>. When that returns, nothing has yet been written, and the fence
  value stored in the selected resource is at most the fence's completed value; the
  blocking wait was entered exactly when the stored value was nonzero and above the
  completed value, and otherwise the fence was left alone. In a state that keeps the
  fence discipline the wait always returns.

  The statements of \<open>Update\<close> that write run after that: in each of the six states of
  \<open>Update_trace\<close> the cursor is on the selected resource and the completed fence value
  has reached the value stored in it, and wherever a frame resource differs between a
  state and the one before it, it is the selected resource and the completed value had
  reached its stored fence value in the state before. \<open>Draw\<close> then runs in the last of
  these states, and the reset of the selected resource's allocator is its first call.
  Within a frame the selected resource is the only one whose allocator is reset and the
  only one that changes.
\<close>

theorem C1_wait_before_reuse:
  fixes s :: App and kin :: "nat \<times> FrameInputs"
  defines "k \<equiv> (mCurrFrameResourceIndex s + 1) mod gNumFrameResources"
  shows "(\<forall>waited s1. acquire_frame_resource s = Inr (waited, s1) \<longrightarrow>
            mCurrFrameResourceIndex s1 = k
            \<and> mFrameResources s1 = mFrameResources s
            \<and> Fence (mFrameResources s ! k) \<le> GetCompletedValue (mFence s1)
            \<and> (waited \<longleftrightarrow> Fence (mFrameResources s ! k) \<noteq> 0
                            \<and> GetCompletedValue (mFence s) < Fence (mFrameResources s ! k))
            \<and> (\<not> waited \<longrightarrow> mFence s1 = mFence s))
       \<and> (fence_inv s \<and> k < length (mFrameResources s) \<longrightarrow>
            (\<exists>waited s1. acquire_frame_resource s = Inr (waited, s1)))
       \<and> (\<forall>h. Update_trace fp (snd kin) s = Inr h \<longrightarrow>
            Update fp (snd kin) s = Inr (last h)
            \<and> length h = 6
            \<and> (\<exists>waited. acquire_frame_resource s = Inr (waited, hd h))
            \<and> (\<forall>t\<in>set h. mCurrFrameResourceIndex t = k
                  \<and> Fence (mFrameResources t ! k) \<le> GetCompletedValue (mFence t))
            \<and> (\<forall>i<length h. \<forall>j.
                  mFrameResources (h ! i) ! j \<noteq> mFrameResources ((s # h) ! i) ! j \<longrightarrow>
                    j = k \<and> Fence (mFrameResources ((s # h) ! i) ! j)
                              \<le> GetCompletedValue (mFence ((s # h) ! i))))
       \<and> (\<forall>calls s'. frame dev fp kin s = Inr (calls, s') \<longrightarrow>
            submitted calls = [k]
            \<and> (\<forall>j. j \<noteq> k \<longrightarrow> mFrameResources s' ! j = mFrameResources s ! j)
            \<and> (\<exists>waited s1.
                  acquire_frame_resource (s\<lparr>mFence := gpu_progress (fst kin) (mFence s)\<rparr>)
                    = Inr (waited, s1)
                  \<and> Fence (mFrameResources s ! k) \<le> GetCompletedValue (mFence s1))
            \<and> (\<exists>h. Update_trace fp (snd kin) (s\<lparr>mFence := gpu_progress (fst kin) (mFence s)\<rparr>)
                       = Inr h
                  \<and> Draw dev (last h) = Inr (calls, s')
                  \<and> take 1 calls = [AllocatorReset k]
                  \<and> Fence (mFrameResources (last h) ! k) \<le> GetCompletedValue (mFence (last h))))"
proof (intro conjI allI impI)
  fix waited s1
  assume a: "acquire_frame_resource s = Inr (waited, s1)"
  from acquire_frame_resource_Inr(2) [OF a] obtain g where
    s1: "s1 = s\<lparr>mCurrFrameResourceIndex := k, mFence := g\<rparr>"
    and le: "Fence (mFrameResources s ! k) \<le> completed g"
    and nw: "\<not> waited \<longrightarrow> g = mFence s"
    unfolding k_def by blast
  show "mCurrFrameResourceIndex s1 = k" "mFrameResources s1 = mFrameResources s"
    by (simp_all add: s1)
  show "Fence (mFrameResources s ! k) \<le> GetCompletedValue (mFence s1)"
    using le by (simp add: s1 GetCompletedValue_def)
  show "waited \<longleftrightarrow> Fence (mFrameResources s ! k) \<noteq> 0
                   \<and> GetCompletedValue (mFence s) < Fence (mFrameResources s ! k)"
    using acquire_frame_resource_Inr(3) [OF a] unfolding k_def .
  show "mFence s1 = mFence s" if "\<not> waited"
    using that nw by (simp add: s1)
next
  assume "fence_inv s \<and> k < length (mFrameResources s)"
  then have "\<exists>r. acquire_frame_resource s = Inr r"
    unfolding k_def by (intro acquire_frame_resource_total) simp_all
  then show "\<exists>waited s1. acquire_frame_resource s = Inr (waited, s1)" by fastforce
next
  fix h
  assume tr: "Update_trace fp (snd kin) s = Inr h"
  note T = Update_trace_facts [OF tr, folded k_def]
  show "Update fp (snd kin) s = Inr (last h)" using tr by (rule Update_trace_Update)
  show "length h = 6" by (rule T(1))
  show "\<exists>waited. acquire_frame_resource s = Inr (waited, hd h)" by (rule T(2))
  show "\<forall>t\<in>set h. mCurrFrameResourceIndex t = k
          \<and> Fence (mFrameResources t ! k) \<le> GetCompletedValue (mFence t)"
    by (rule T(4))
next
  fix h i j
  assume tr: "Update_trace fp (snd kin) s = Inr h" and i: "i < length h"
    and ne: "mFrameResources (h ! i) ! j \<noteq> mFrameResources ((s # h) ! i) ! j"
  from Update_trace_facts(5) [OF tr, folded k_def] i ne
  have "j = k \<and> Fence (mFrameResources ((s # h) ! i) ! j)
                  \<le> GetCompletedValue (mFence ((s # h) ! i))"
    by blast
  then show "j = k" "Fence (mFrameResources ((s # h) ! i) ! j)
                  \<le> GetCompletedValue (mFence ((s # h) ! i))"
    by blast+
next
  fix calls s'
  assume f: "frame dev fp kin s = Inr (calls, s')"
  note F = frame_facts [OF f]
  show "submitted calls = [k]" using F(11) by (simp add: k_def)
  show "mFrameResources s' ! j = mFrameResources s ! j" if "j \<noteq> k" for j
    using that F(6) [of j] by (simp add: k_def)
  let ?s0 = "s\<lparr>mFence := gpu_progress (fst kin) (mFence s)\<rparr>"
  from f obtain waited g where
    a: "acquire_frame_resource ?s0 = Inr (waited, s\<lparr>mCurrFrameResourceIndex := k, mFence := g\<rparr>)"
    unfolding k_def by (rule frame_Inr)
  from acquire_frame_resource_Inr(2) [OF a] obtain g' where
    "s\<lparr>mCurrFrameResourceIndex := k, mFence := g\<rparr>
       = ?s0\<lparr>mCurrFrameResourceIndex := (mCurrFrameResourceIndex ?s0 + 1) mod gNumFrameResources,
              mFence := g'\<rparr>"
    and le: "Fence (mFrameResources ?s0 ! ((mCurrFrameResourceIndex ?s0 + 1) mod gNumFrameResources))
              \<le> completed g'"
    by blast
  then have "g' = g"
    by (metis App.select_convs(9) App.surjective App.update_convs(9))
  with le have "Fence (mFrameResources s ! k)
          \<le> GetCompletedValue (mFence (s\<lparr>mCurrFrameResourceIndex := k, mFence := g\<rparr>))"
    by (simp add: k_def GetCompletedValue_def)
  with a show "\<exists>waited s1. acquire_frame_resource ?s0 = Inr (waited, s1)
                  \<and> Fence (mFrameResources s ! k) \<le> GetCompletedValue (mFence s1)"
    by blast
  from f obtain s1 where u: "Update fp (snd kin) ?s0 = Inr s1"
    and d: "Draw dev s1 = Inr (calls, s')"
    by (auto simp: frame_def bind_err_Inr_iff)
  from Update_Inr_trace [OF u] obtain h where
    tr: "Update_trace fp (snd kin) ?s0 = Inr h" and la: "last h = s1" by blast
  note T = Update_trace_facts [OF tr]
  have k0: "(mCurrFrameResourceIndex ?s0 + 1) mod gNumFrameResources = k" by (simp add: k_def)
  from T(1) have "h \<noteq> []" by auto
  then have mem: "last h \<in> set h" by simp
  from T(4) [unfolded k0] mem
  have safe: "mCurrFrameResourceIndex (last h) = k
        \<and> Fence (mFrameResources (last h) ! k) \<le> GetCompletedValue (mFence (last h))"
    by blast
  have first: "take 1 calls = [AllocatorReset k]"
    using Draw_first_call [OF d] safe by (simp add: la)
  from tr d first safe
  show "\<exists>h. Update_trace fp (snd kin) ?s0 = Inr h
          \<and> Draw dev (last h) = Inr (calls, s')
          \<and> take 1 calls = [AllocatorReset k]
          \<and> Fence (mFrameResources (last h) ! k) \<le> GetCompletedValue (mFence (last h))"
    unfolding la [symmetric] by blast
qed

theorem C1_witness:
  "\<exists>s1 h calls s'.
     acquire_frame_resource example_busy = Inr (True, s1)
     \<and> mCurrFrameResourceIndex s1 = 1
     \<and> Fence (mFrameResources example_busy ! 1) \<le> GetCompletedValue (mFence s1)
     \<and> Update_trace example_ops example_inputs example_busy = Inr h
     \<and> hd h = s1 \<and> length h = 6
     \<and> list_all (\<lambda>t. Fence (mFrameResources t ! 1) \<le> GetCompletedValue (mFence t)) h
     \<and> frame example_device example_ops (0, example_inputs) example_busy = Inr (calls, s')
     \<and> take 1 calls = [AllocatorReset 1]"
proof -
  note C = C1_wait_before_reuse [where s = example_busy and fp = example_ops
             and kin = "(0, example_inputs)" and dev = example_device]
  have k: "(mCurrFrameResourceIndex example_busy + 1) mod gNumFrameResources = 1"
    by (simp add: example_busy_def example_app_def gNumFrameResources_def)
  have s0: "example_busy\<lparr>mFence := gpu_progress (fst (0 :: nat, example_inputs)) (mFence example_busy)\<rparr>
              = example_busy"
    by simp
  have nw: "mCurrentFence example_busy + 1 \<noteq> 0" by (simp add: example_busy_def)
  have "\<exists>calls s'. frame example_device example_ops (0, example_inputs) example_busy = Inr (calls, s')
          \<and> app_ok s'"
    by (rule app_ok_frame [OF example_busy_ok _ nw]) (simp add: example_busy_waves_fit)
  then obtain calls s' where
    f: "frame example_device example_ops (0, example_inputs) example_busy = Inr (calls, s')"
    by blast
  from C [THEN conjunct2, THEN conjunct2, THEN conjunct2, rule_format, OF f, unfolded k s0]
  obtain h where tr: "Update_trace example_ops (snd (0 :: nat, example_inputs)) example_busy = Inr h"
    and first: "take 1 calls = [AllocatorReset 1]"
    by blast
  note T = C [THEN conjunct2, THEN conjunct2, THEN conjunct1, rule_format, OF tr, unfolded k]
  from T obtain waited where a: "acquire_frame_resource example_busy = Inr (waited, hd h)"
    by blast
  from T have len: "length h = 6" by blast
  from T have safe: "list_all (\<lambda>t. Fence (mFrameResources t ! 1) \<le> GetCompletedValue (mFence t)) h"
    unfolding list_all_iff by blast
  note A = C [THEN conjunct1, rule_format, OF a, unfolded k]
  from A have p: "mCurrFrameResourceIndex (hd h) = 1"
    "Fence (mFrameResources example_busy ! 1) \<le> GetCompletedValue (mFence (hd h))"
    "waited \<longleftrightarrow> Fence (mFrameResources example_busy ! 1) \<noteq> 0
        \<and> GetCompletedValue (mFence example_busy) < Fence (mFrameResources example_busy ! 1)"
    by blast+
  have "waited"
    unfolding p(3)
    by (simp add: example_busy_def example_app_def new_FrameResource_def GetCompletedValue_def)
  with a have a': "acquire_frame_resource example_busy = Inr (True, hd h)" by simp
  have tr': "Update_trace example_ops example_inputs example_busy = Inr h" using tr by simp
  have e: "hd h = hd h" ..
  show ?thesis
    by (intro exI conjI) (rule a' p(1) p(2) tr' e len safe f first)+
qed

text \<open>
  Claim C2. A render item or material whose dirty counter equals \<open>gNumFrameResources\<close>
  and that is not mutated again is copied into the current frame resource's constant
  buffer by each of the next three frames, its counter going 2, 1, 0. The three frames
  select three different frame resources, each pass writes only the selected one, so
  afterwards every frame resource's copy holds the element's constants and the counter
  is zero. The materials part excludes \<open>water\<close>, which \<open>AnimateMaterials\<close> mutates in
  every \<open>Update\<close>.
\<close>

theorem C2_dirty_counter_propagates:
  assumes f1: "frame dev fp in1 s0 = Inr (c1, s1)"
    and f2: "frame dev fp in2 s1 = Inr (c2, s2)"
    and f3: "frame dev fp in3 s2 = Inr (c3, s3)"
  shows "(\<forall>p. p < length (mAllRitems s0) \<and> distinct (map ObjCBIndex (mAllRitems s0))
              \<and> NumFramesDirty (mAllRitems s0 ! p) = int gNumFrameResources \<longrightarrow>
            map (\<lambda>s. NumFramesDirty (mAllRitems s ! p)) [s1, s2, s3] = [2, 1, 0]
            \<and> (\<forall>k<gNumFrameResources.
                  ObjectCB (mFrameResources s3 ! k) ! unat (ObjCBIndex (mAllRitems s0 ! p))
                    = \<lparr>ocWorld = XMMatrixTranspose (World (mAllRitems s0 ! p)),
                       ocTexTransform = XMMatrixTranspose (TexTransform (mAllRitems s0 ! p))\<rparr>)
            \<and> World (mAllRitems s3 ! p) = World (mAllRitems s0 ! p)
            \<and> TexTransform (mAllRitems s3 ! p) = TexTransform (mAllRitems s0 ! p)
            \<and> ObjCBIndex (mAllRitems s3 ! p) = ObjCBIndex (mAllRitems s0 ! p))
       \<and> (\<forall>name m. name \<noteq> ''water'' \<and> map_of (mMaterials s0) name = Some m
              \<and> distinct (map fst (mMaterials s0))
              \<and> distinct (map (\<lambda>e. MatCBIndex (snd e)) (mMaterials s0))
              \<and> MatNumFramesDirty m = int gNumFrameResources \<longrightarrow>
            map (\<lambda>s. map_option MatNumFramesDirty (map_of (mMaterials s) name)) [s1, s2, s3]
              = [Some 2, Some 1, Some 0]
            \<and> (\<forall>k<gNumFrameResources.
                  MaterialCB (mFrameResources s3 ! k) ! nat (MatCBIndex m)
                    = \<lparr>mcDiffuseAlbedo = DiffuseAlbedo m, mcFresnelR0 = FresnelR0 m,
                       mcRoughness = Roughness m,
                       mcMatTransform = XMMatrixTranspose (MatTransform m)\<rparr>)
            \<and> map_of (mMaterials s3) name = Some (m\<lparr>MatNumFramesDirty := 0\<rparr>))
       \<and> mCurrFrameResourceIndex s1 = (mCurrFrameResourceIndex s0 + 1) mod gNumFrameResources
       \<and> mCurrFrameResourceIndex s2 = (mCurrFrameResourceIndex s1 + 1) mod gNumFrameResources
       \<and> mCurrFrameResourceIndex s3 = (mCurrFrameResourceIndex s2 + 1) mod gNumFrameResources
       \<and> (\<forall>j. j \<noteq> mCurrFrameResourceIndex s1 \<longrightarrow> mFrameResources s1 ! j = mFrameResources s0 ! j)
       \<and> (\<forall>j. j \<noteq> mCurrFrameResourceIndex s2 \<longrightarrow> mFrameResources s2 ! j = mFrameResources s1 ! j)
       \<and> (\<forall>j. j \<noteq> mCurrFrameResourceIndex s3 \<longrightarrow> mFrameResources s3 ! j = mFrameResources s2 ! j)"
proof -
  note F1 = frame_facts [OF f1] and F2 = frame_facts [OF f2] and F3 = frame_facts [OF f3]
  let ?k1 = "(mCurrFrameResourceIndex s0 + 1) mod gNumFrameResources"
  let ?k2 = "(?k1 + 1) mod gNumFrameResources"
  let ?k3 = "(?k2 + 1) mod gNumFrameResources"
  have k: "mCurrFrameResourceIndex s1 = ?k1" "mCurrFrameResourceIndex s2 = ?k2"
    "mCurrFrameResourceIndex s3 = ?k3"
    by (simp_all add: F1(1) F2(1) F3(1))
  note ring = ring_of_three [where i = "mCurrFrameResourceIndex s0"]
  have o1: "mFrameResources s1 ! j = mFrameResources s0 ! j" if "j \<noteq> ?k1" for j
    using that by (rule F1(6))
  have o2: "mFrameResources s2 ! j = mFrameResources s1 ! j" if "j \<noteq> ?k2" for j
    using that F2(6) [of j] by (simp add: k)
  have o3: "mFrameResources s3 ! j = mFrameResources s2 ! j" if "j \<noteq> ?k3" for j
    using that F3(6) [of j] by (simp add: k)
  have items: "map (\<lambda>s. NumFramesDirty (mAllRitems s ! p)) [s1, s2, s3] = [2, 1, 0]
            \<and> (\<forall>k<gNumFrameResources.
                  ObjectCB (mFrameResources s3 ! k) ! unat (ObjCBIndex (mAllRitems s0 ! p))
                    = objConstants (mAllRitems s0 ! p))
            \<and> World (mAllRitems s3 ! p) = World (mAllRitems s0 ! p)
            \<and> TexTransform (mAllRitems s3 ! p) = TexTransform (mAllRitems s0 ! p)
            \<and> ObjCBIndex (mAllRitems s3 ! p) = ObjCBIndex (mAllRitems s0 ! p)"
    if p: "p < length (mAllRitems s0)" and d: "distinct (map ObjCBIndex (mAllRitems s0))"
      and c: "NumFramesDirty (mAllRitems s0 ! p) = int gNumFrameResources" for p
  proof -
    note K1 = frame_items_kept [OF f1] and K2 = frame_items_kept [OF f2]
      and K3 = frame_items_kept [OF f3]
    have p1: "p < length (mAllRitems s1)" and p2: "p < length (mAllRitems s2)"
      using p by (simp_all add: K1(1) K2(1))
    have d1: "distinct (map ObjCBIndex (mAllRitems s1))"
      and d2: "distinct (map ObjCBIndex (mAllRitems s2))"
      using d by (simp_all add: K1(2) K2(2))
    have c0: "NumFramesDirty (mAllRitems s0 ! p) > 0" using c by (simp add: gNumFrameResources_def)
    note P1 = frame_item_pass [OF f1 d p c0]
    have c1: "NumFramesDirty (mAllRitems s1 ! p) = 2"
      using P1(2) c by (simp add: gNumFrameResources_def)
    then have c1': "NumFramesDirty (mAllRitems s1 ! p) > 0" by simp
    note P2 = frame_item_pass [OF f2 d1 p1 c1']
    have c2: "NumFramesDirty (mAllRitems s2 ! p) = 1" using P2(2) c1 by simp
    then have c2': "NumFramesDirty (mAllRitems s2 ! p) > 0" by simp
    note P3 = frame_item_pass [OF f3 d2 p2 c2']
    have c3: "NumFramesDirty (mAllRitems s3 ! p) = 0" using P3(2) c2 by simp
    let ?slot = "unat (ObjCBIndex (mAllRitems s0 ! p))"
    let ?c = "objConstants (mAllRitems s0 ! p)"
    have e1: "ObjCBIndex (mAllRitems s1 ! p) = ObjCBIndex (mAllRitems s0 ! p)"
      "objConstants (mAllRitems s1 ! p) = ?c"
      using K1(3,4) [OF p] by simp_all
    have e2: "ObjCBIndex (mAllRitems s2 ! p) = ObjCBIndex (mAllRitems s0 ! p)"
      "objConstants (mAllRitems s2 ! p) = ?c"
      using K2(3,4) [OF p1] e1 by simp_all
    have a1: "ObjectCB (mFrameResources s1 ! ?k1) ! ?slot = ?c" using P1(1) .
    have a2: "ObjectCB (mFrameResources s2 ! ?k2) ! ?slot = ?c"
      using P2(1) by (simp add: k e1)
    have a3: "ObjectCB (mFrameResources s3 ! ?k3) ! ?slot = ?c"
      using P3(1) by (simp add: k e2)
    have b1: "ObjectCB (mFrameResources s3 ! ?k1) ! ?slot = ?c"
      using a1 o2 [of ?k1] o3 [of ?k1] ring(1,3) by simp
    have b2: "ObjectCB (mFrameResources s3 ! ?k2) ! ?slot = ?c"
      using a2 o3 [of ?k2] ring(2) by simp
    have all: "ObjectCB (mFrameResources s3 ! k) ! ?slot = ?c" if "k < gNumFrameResources" for k
      using ring(4) [OF that] b1 b2 a3 by blast
    have w: "World (mAllRitems s3 ! p) = World (mAllRitems s0 ! p)"
      "TexTransform (mAllRitems s3 ! p) = TexTransform (mAllRitems s0 ! p)"
      "ObjCBIndex (mAllRitems s3 ! p) = ObjCBIndex (mAllRitems s0 ! p)"
      using K1(4,5,6) [OF p] K2(4,5,6) [OF p1] K3(4,5,6) [OF p2] by simp_all
    from c1 c2 c3 all w show ?thesis by simp
  qed
  have mats: "map (\<lambda>s. map_option MatNumFramesDirty (map_of (mMaterials s) name)) [s1, s2, s3]
              = [Some 2, Some 1, Some 0]
            \<and> (\<forall>k<gNumFrameResources.
                  MaterialCB (mFrameResources s3 ! k) ! nat (MatCBIndex m) = matConstants m)
            \<and> map_of (mMaterials s3) name = Some (m\<lparr>MatNumFramesDirty := 0\<rparr>)"
    if nw: "name \<noteq> ''water''" and mo: "map_of (mMaterials s0) name = Some m"
      and dn: "distinct (map fst (mMaterials s0))"
      and di: "distinct (map (\<lambda>e. MatCBIndex (snd e)) (mMaterials s0))"
      and c: "MatNumFramesDirty m = int gNumFrameResources" for name m
  proof -
    have c0: "MatNumFramesDirty m > 0" using c by (simp add: gNumFrameResources_def)
    note P1 = frame_material_pass [OF f1 dn di mo nw c0]
    let ?m1 = "m\<lparr>MatNumFramesDirty := 2\<rparr>" and ?m2 = "m\<lparr>MatNumFramesDirty := 1\<rparr>"
    let ?m3 = "m\<lparr>MatNumFramesDirty := 0\<rparr>"
    have mo1: "map_of (mMaterials s1) name = Some ?m1"
      using P1(2) c by (simp add: gNumFrameResources_def)
    have dn1: "distinct (map fst (mMaterials s1))" using dn by (simp add: P1(3))
    have di1: "distinct (map (\<lambda>e. MatCBIndex (snd e)) (mMaterials s1))" using di by (simp add: P1(4))
    have "MatNumFramesDirty ?m1 > 0" by simp
    note P2 = frame_material_pass [OF f2 dn1 di1 mo1 nw this]
    have mo2: "map_of (mMaterials s2) name = Some ?m2" using P2(2) by simp
    have dn2: "distinct (map fst (mMaterials s2))" using dn1 by (simp add: P2(3))
    have di2: "distinct (map (\<lambda>e. MatCBIndex (snd e)) (mMaterials s2))" using di1 by (simp add: P2(4))
    have "MatNumFramesDirty ?m2 > 0" by simp
    note P3 = frame_material_pass [OF f3 dn2 di2 mo2 nw this]
    have mo3: "map_of (mMaterials s3) name = Some ?m3" using P3(2) by simp
    let ?slot = "nat (MatCBIndex m)" and ?c = "matConstants m"
    have a1: "MaterialCB (mFrameResources s1 ! ?k1) ! ?slot = ?c" using P1(1) .
    have a2: "MaterialCB (mFrameResources s2 ! ?k2) ! ?slot = ?c" using P2(1) by (simp add: k)
    have a3: "MaterialCB (mFrameResources s3 ! ?k3) ! ?slot = ?c" using P3(1) by (simp add: k)
    have b1: "MaterialCB (mFrameResources s3 ! ?k1) ! ?slot = ?c"
      using a1 o2 [of ?k1] o3 [of ?k1] ring(1,3) by simp
    have b2: "MaterialCB (mFrameResources s3 ! ?k2) ! ?slot = ?c"
      using a2 o3 [of ?k2] ring(2) by simp
    have all: "MaterialCB (mFrameResources s3 ! k) ! ?slot = ?c" if "k < gNumFrameResources" for k
      using ring(4) [OF that] b1 b2 a3 by blast
    from mo1 mo2 mo3 all show ?thesis by simp
  qed
  have O1: "\<forall>j. j \<noteq> mCurrFrameResourceIndex s1 \<longrightarrow> mFrameResources s1 ! j = mFrameResources s0 ! j"
    and O2: "\<forall>j. j \<noteq> mCurrFrameResourceIndex s2 \<longrightarrow> mFrameResources s2 ! j = mFrameResources s1 ! j"
    and O3: "\<forall>j. j \<noteq> mCurrFrameResourceIndex s3 \<longrightarrow> mFrameResources s3 ! j = mFrameResources s2 ! j"
    using o1 o2 o3 unfolding k by blast+
  show ?thesis
  proof (intro conjI)
    show "\<forall>p. p < length (mAllRitems s0) \<and> distinct (map ObjCBIndex (mAllRitems s0))
              \<and> NumFramesDirty (mAllRitems s0 ! p) = int gNumFrameResources \<longrightarrow>
            map (\<lambda>s. NumFramesDirty (mAllRitems s ! p)) [s1, s2, s3] = [2, 1, 0]
            \<and> (\<forall>k<gNumFrameResources.
                  ObjectCB (mFrameResources s3 ! k) ! unat (ObjCBIndex (mAllRitems s0 ! p))
                    = \<lparr>ocWorld = XMMatrixTranspose (World (mAllRitems s0 ! p)),
                       ocTexTransform = XMMatrixTranspose (TexTransform (mAllRitems s0 ! p))\<rparr>)
            \<and> World (mAllRitems s3 ! p) = World (mAllRitems s0 ! p)
            \<and> TexTransform (mAllRitems s3 ! p) = TexTransform (mAllRitems s0 ! p)
            \<and> ObjCBIndex (mAllRitems s3 ! p) = ObjCBIndex (mAllRitems s0 ! p)"
      using items [unfolded objConstants_def] by blast
    show "\<forall>name m. name \<noteq> ''water'' \<and> map_of (mMaterials s0) name = Some m
              \<and> distinct (map fst (mMaterials s0))
              \<and> distinct (map (\<lambda>e. MatCBIndex (snd e)) (mMaterials s0))
              \<and> MatNumFramesDirty m = int gNumFrameResources \<longrightarrow>
            map (\<lambda>s. map_option MatNumFramesDirty (map_of (mMaterials s) name)) [s1, s2, s3]
              = [Some 2, Some 1, Some 0]
            \<and> (\<forall>k<gNumFrameResources.
                  MaterialCB (mFrameResources s3 ! k) ! nat (MatCBIndex m)
                    = \<lparr>mcDiffuseAlbedo = DiffuseAlbedo m, mcFresnelR0 = FresnelR0 m,
                       mcRoughness = Roughness m,
                       mcMatTransform = XMMatrixTranspose (MatTransform m)\<rparr>)
            \<and> map_of (mMaterials s3) name = Some (m\<lparr>MatNumFramesDirty := 0\<rparr>)"
      using mats [unfolded matConstants_def] by blast
  qed (rule F1(1) F2(1) F3(1) O1 O2 O3)+
qed

theorem C2_witness:
  "\<exists>c1 s1 c2 s2 c3 s3.
     frame example_device example_ops (0, example_inputs) example_app = Inr (c1, s1)
     \<and> frame example_device example_ops (1, example_inputs) s1 = Inr (c2, s2)
     \<and> frame example_device example_ops (0, example_inputs) s2 = Inr (c3, s3)
     \<and> map (\<lambda>s. NumFramesDirty (mAllRitems s ! 1)) [s1, s2, s3] = [2, 1, 0]
     \<and> map (\<lambda>k. ObjectCB (mFrameResources s3 ! k) ! 1) [0, 1, 2]
         = replicate 3 \<lparr>ocWorld = XMMatrixTranspose (XMMatrixScaling f_5 f_1 f_1),
                         ocTexTransform = XMMatrixTranspose Identity4x4\<rparr>
     \<and> map (\<lambda>s. map_option MatNumFramesDirty (map_of (mMaterials s) ''tile0'')) [s1, s2, s3]
         = [Some 2, Some 1, Some 0]
     \<and> map (\<lambda>k. mcRoughness (MaterialCB (mFrameResources s3 ! k) ! 1)) [0, 1, 2]
         = [f_0_3, f_0_3, f_0_3]
     \<and> map mCurrFrameResourceIndex [s1, s2, s3] = [1, 2, 0]"
proof -
  from example_three_frames obtain c1 s1 c2 s2 c3 s3 where
    f1: "frame example_device example_ops (0, example_inputs) example_app = Inr (c1, s1)"
    and f2: "frame example_device example_ops (1, example_inputs) s1 = Inr (c2, s2)"
    and f3: "frame example_device example_ops (0, example_inputs) s2 = Inr (c3, s3)"
    by blast
  note C = C2_dirty_counter_propagates [OF f1 f2 f3]
  let ?tile = "new_Material 1 1 (f_1, f_1, f_1, f_1) (f_0_02, f_0_02, f_0_02) f_0_3"
  have hi: "1 < length (mAllRitems example_app) \<and> distinct (map ObjCBIndex (mAllRitems example_app))
            \<and> NumFramesDirty (mAllRitems example_app ! 1) = int gNumFrameResources"
    by (simp add: example_app_def new_RenderItem_def)
  have hm: "''tile0'' \<noteq> ''water'' \<and> map_of (mMaterials example_app) ''tile0'' = Some ?tile
            \<and> distinct (map fst (mMaterials example_app))
            \<and> distinct (map (\<lambda>e. MatCBIndex (snd e)) (mMaterials example_app))
            \<and> MatNumFramesDirty ?tile = int gNumFrameResources"
    by (simp add: example_app_def new_Material_def)
  note I = C [THEN conjunct1, rule_format, OF hi]
  note M = C [THEN conjunct2, THEN conjunct1, rule_format, OF hm]
  note K = C [THEN conjunct2, THEN conjunct2]
  have slot: "unat (ObjCBIndex (mAllRitems example_app ! 1)) = 1"
    "World (mAllRitems example_app ! 1) = XMMatrixScaling f_5 f_1 f_1"
    "TexTransform (mAllRitems example_app ! 1) = Identity4x4"
    by (simp_all add: example_app_def new_RenderItem_def)
  have i1: "map (\<lambda>s. NumFramesDirty (mAllRitems s ! 1)) [s1, s2, s3] = [2, 1, 0]"
    using I by blast
  have "\<forall>k<gNumFrameResources. ObjectCB (mFrameResources s3 ! k) ! 1
           = \<lparr>ocWorld = XMMatrixTranspose (XMMatrixScaling f_5 f_1 f_1),
              ocTexTransform = XMMatrixTranspose Identity4x4\<rparr>"
    using I [THEN conjunct2, THEN conjunct1] unfolding slot .
  then have i2: "map (\<lambda>k. ObjectCB (mFrameResources s3 ! k) ! 1) [0, 1, 2]
         = replicate 3 \<lparr>ocWorld = XMMatrixTranspose (XMMatrixScaling f_5 f_1 f_1),
                         ocTexTransform = XMMatrixTranspose Identity4x4\<rparr>"
    by (simp add: gNumFrameResources_def numeral_3_eq_3)
  have m1: "map (\<lambda>s. map_option MatNumFramesDirty (map_of (mMaterials s) ''tile0'')) [s1, s2, s3]
         = [Some 2, Some 1, Some 0]"
    using M by blast
  have "\<forall>k<gNumFrameResources. mcRoughness (MaterialCB (mFrameResources s3 ! k) ! 1) = f_0_3"
    using M [THEN conjunct2, THEN conjunct1] by (simp add: new_Material_def)
  then have m2: "map (\<lambda>k. mcRoughness (MaterialCB (mFrameResources s3 ! k) ! 1)) [0, 1, 2]
         = [f_0_3, f_0_3, f_0_3]"
    by (simp add: gNumFrameResources_def)
  have k: "map mCurrFrameResourceIndex [s1, s2, s3] = [1, 2, 0]"
    using K by (simp add: gNumFrameResources_def example_app_def)
  show ?thesis by (intro exI conjI) (rule f1 f2 f3 i1 i2 m1 m2 k)+
qed

text \<open>
  Claim C3. \<open>AnimateMaterials\<close> scrolls the texture transform of \<open>water\<close> and sets its
  dirty counter back to \<open>gNumFrameResources\<close>, whatever the counter was before and
  whatever the frame resources held. If three update passes follow with no further
  mutation, every frame resource's copy at the material's slot holds the albedo,
  Fresnel term, roughness and transposed transform of the material as last mutated, and
  the counter ends at zero. In whole frames the material is mutated again by every
  \<open>Update\<close>: the counter stands at 2 after each frame and never reaches zero, and each
  frame resource holds the constants as scrolled in the frame in which that resource
  was current.
\<close>

theorem C3_remutation_supersedes:
  fixes s :: App and w :: Material and fp :: FloatOps
  defines "scrolled \<equiv> \<lambda>dt w.
      w\<lparr>MatTransform := (MatTransform w)
           \<lparr>m41 := (let tu = fadd fp (m41 (MatTransform w)) (fmul fp f_0_1 dt)
                     in if fge fp tu f_1 then fsub fp tu f_1 else tu),
            m42 := (let tv = fadd fp (m42 (MatTransform w)) (fmul fp f_0_02 dt)
                     in if fge fp tv f_1 then fsub fp tv f_1 else tv)\<rparr>,
        MatNumFramesDirty := int gNumFrameResources\<rparr>"
  defines "constants \<equiv> \<lambda>m.
      \<lparr>mcDiffuseAlbedo = DiffuseAlbedo m, mcFresnelR0 = FresnelR0 m,
       mcRoughness = Roughness m, mcMatTransform = XMMatrixTranspose (MatTransform m)\<rparr>"
  assumes di: "distinct (map (\<lambda>e. MatCBIndex (snd e)) (mMaterials s))"
    and mo: "map_of (mMaterials s) ''water'' = Some w"
  shows "(\<forall>sm s1 s2 s3.
            AnimateMaterials fp dt s = Inr sm \<and> dirty_pass sm = Inr s1
            \<and> dirty_pass s1 = Inr s2 \<and> dirty_pass s2 = Inr s3 \<longrightarrow>
              map_of (mMaterials sm) ''water'' = Some (scrolled dt w)
              \<and> map_option MatNumFramesDirty (map_of (mMaterials sm) ''water'')
                    = Some (int gNumFrameResources)
              \<and> (\<forall>k<gNumFrameResources.
                    MaterialCB (mFrameResources s3 ! k) ! nat (MatCBIndex w)
                      = constants (scrolled dt w))
              \<and> map_of (mMaterials s3) ''water''
                    = Some ((scrolled dt w)\<lparr>MatNumFramesDirty := 0\<rparr>))
       \<and> (\<forall>in1 in2 in3 c1 s1 c2 s2 c3 s3.
            frame dev fp in1 s = Inr (c1, s1) \<and> frame dev fp in2 s1 = Inr (c2, s2)
            \<and> frame dev fp in3 s2 = Inr (c3, s3) \<longrightarrow>
              (\<exists>w1 w2 w3.
                  w1 = scrolled (DeltaTime (snd in1)) w
                \<and> map_of (mMaterials s1) ''water'' = Some (w1\<lparr>MatNumFramesDirty := 2\<rparr>)
                \<and> w2 = scrolled (DeltaTime (snd in2)) (w1\<lparr>MatNumFramesDirty := 2\<rparr>)
                \<and> map_of (mMaterials s2) ''water'' = Some (w2\<lparr>MatNumFramesDirty := 2\<rparr>)
                \<and> w3 = scrolled (DeltaTime (snd in3)) (w2\<lparr>MatNumFramesDirty := 2\<rparr>)
                \<and> map_of (mMaterials s3) ''water'' = Some (w3\<lparr>MatNumFramesDirty := 2\<rparr>)
                \<and> MaterialCB (mFrameResources s3 ! mCurrFrameResourceIndex s1) ! nat (MatCBIndex w)
                     = constants w1
                \<and> MaterialCB (mFrameResources s3 ! mCurrFrameResourceIndex s2) ! nat (MatCBIndex w)
                     = constants w2
                \<and> MaterialCB (mFrameResources s3 ! mCurrFrameResourceIndex s3) ! nat (MatCBIndex w)
                     = constants w3))"
proof -
  have e1: "scrolled dt w = scroll_water fp dt w" for dt w
    by (simp add: scrolled_def scroll_water_def Let_def)
  have e2: "constants m = matConstants m" for m
    by (simp add: constants_def matConstants_def)
  show ?thesis unfolding e1 e2 by (rule water_remutation [OF di mo])
qed

theorem C3_witness:
  "\<exists>sm s1 s2 s3 c1 t1 c2 t2 c3 t3.
     AnimateMaterials example_ops f_0_1 example_app = Inr sm \<and> dirty_pass sm = Inr s1
     \<and> dirty_pass s1 = Inr s2 \<and> dirty_pass s2 = Inr s3
     \<and> map_option MatNumFramesDirty (map_of (mMaterials sm) ''water'') = Some 3
     \<and> map (\<lambda>k. MaterialCB (mFrameResources s3 ! k) ! 0) [0, 1, 2]
         = replicate 3
             \<lparr>mcDiffuseAlbedo = (f_1, f_1, f_1, f_0_5), mcFresnelR0 = (f_0_1, f_0_1, f_0_1),
              mcRoughness = f_0,
              mcMatTransform = XMMatrixTranspose
                (Identity4x4
                   \<lparr>m41 := (let tu = fadd example_ops f_0 (fmul example_ops f_0_1 f_0_1)
                             in if fge example_ops tu f_1 then fsub example_ops tu f_1 else tu),
                    m42 := (let tv = fadd example_ops f_0 (fmul example_ops f_0_02 f_0_1)
                             in if fge example_ops tv f_1 then fsub example_ops tv f_1 else tv)\<rparr>)\<rparr>
     \<and> map_option MatNumFramesDirty (map_of (mMaterials s3) ''water'') = Some 0
     \<and> frame example_device example_ops (0, example_inputs) example_app = Inr (c1, t1)
     \<and> frame example_device example_ops (1, example_inputs) t1 = Inr (c2, t2)
     \<and> frame example_device example_ops (0, example_inputs) t2 = Inr (c3, t3)
     \<and> map (\<lambda>s. map_option MatNumFramesDirty (map_of (mMaterials s) ''water'')) [t1, t2, t3]
         = [Some 2, Some 2, Some 2]
     \<and> map (\<lambda>s. MaterialCB (mFrameResources t3 ! mCurrFrameResourceIndex s) ! 0) [t1, t2, t3]
         = map (\<lambda>s. \<lparr>mcDiffuseAlbedo = (f_1, f_1, f_1, f_0_5),
                      mcFresnelR0 = (f_0_1, f_0_1, f_0_1), mcRoughness = f_0,
                      mcMatTransform
                        = XMMatrixTranspose (MatTransform (the (map_of (mMaterials s) ''water'')))\<rparr>)
             [t1, t2, t3]"
proof -
  let ?w = "new_Material 0 0 (f_1, f_1, f_1, f_0_5) (f_0_1, f_0_1, f_0_1) f_0"
  have di: "distinct (map (\<lambda>e. MatCBIndex (snd e)) (mMaterials example_app))"
    and mo: "map_of (mMaterials example_app) ''water'' = Some ?w"
    by (simp_all add: example_app_def new_Material_def)
  note C = C3_remutation_supersedes [OF di mo, where fp = example_ops and dev = example_device]
  have slot: "nat (MatCBIndex ?w) = 0" by (simp add: new_Material_def)
  have id4: "m41 Identity4x4 = f_0" "m42 Identity4x4 = f_0"
    by (simp_all add: Identity4x4_def XMMatrixScaling_def)
  from example_dirty_passes obtain sm s1 s2 s3 where
    p: "AnimateMaterials example_ops f_0_1 example_app = Inr sm \<and> dirty_pass sm = Inr s1
        \<and> dirty_pass s1 = Inr s2 \<and> dirty_pass s2 = Inr s3"
    by blast
  note A = C [where dt = f_0_1, THEN conjunct1, rule_format, OF p, unfolded slot]
  have a0: "map_option MatNumFramesDirty (map_of (mMaterials sm) ''water'') = Some 3"
    using A [THEN conjunct2, THEN conjunct1] by (simp add: gNumFrameResources_def)
  have a1: "map (\<lambda>k. MaterialCB (mFrameResources s3 ! k) ! 0) [0, 1, 2]
         = replicate 3
             \<lparr>mcDiffuseAlbedo = (f_1, f_1, f_1, f_0_5), mcFresnelR0 = (f_0_1, f_0_1, f_0_1),
              mcRoughness = f_0,
              mcMatTransform = XMMatrixTranspose
                (Identity4x4
                   \<lparr>m41 := (let tu = fadd example_ops f_0 (fmul example_ops f_0_1 f_0_1)
                             in if fge example_ops tu f_1 then fsub example_ops tu f_1 else tu),
                    m42 := (let tv = fadd example_ops f_0 (fmul example_ops f_0_02 f_0_1)
                             in if fge example_ops tv f_1 then fsub example_ops tv f_1 else tv)\<rparr>)\<rparr>"
    using A [THEN conjunct2, THEN conjunct2, THEN conjunct1]
    by (simp add: gNumFrameResources_def numeral_3_eq_3 new_Material_def id4 Let_def)
  have a2: "map_option MatNumFramesDirty (map_of (mMaterials s3) ''water'') = Some 0"
    using A [THEN conjunct2, THEN conjunct2, THEN conjunct2] by simp
  from example_three_frames obtain c1 t1 c2 t2 c3 t3 where
    f: "frame example_device example_ops (0, example_inputs) example_app = Inr (c1, t1)
        \<and> frame example_device example_ops (1, example_inputs) t1 = Inr (c2, t2)
        \<and> frame example_device example_ops (0, example_inputs) t2 = Inr (c3, t3)"
    by blast
  note B = C [where dt = f_0_1, THEN conjunct2, rule_format, OF f, unfolded slot]
  from B have b1: "map (\<lambda>s. map_option MatNumFramesDirty (map_of (mMaterials s) ''water'')) [t1, t2, t3]
         = [Some 2, Some 2, Some 2]"
    by auto
  from B have b2: "map (\<lambda>s. MaterialCB (mFrameResources t3 ! mCurrFrameResourceIndex s) ! 0) [t1, t2, t3]
         = map (\<lambda>s. \<lparr>mcDiffuseAlbedo = (f_1, f_1, f_1, f_0_5),
                      mcFresnelR0 = (f_0_1, f_0_1, f_0_1), mcRoughness = f_0,
                      mcMatTransform
                        = XMMatrixTranspose (MatTransform (the (map_of (mMaterials s) ''water'')))\<rparr>)
             [t1, t2, t3]"
    by (auto simp: new_Material_def)
  from p have p': "AnimateMaterials example_ops f_0_1 example_app = Inr sm" "dirty_pass sm = Inr s1"
    "dirty_pass s1 = Inr s2" "dirty_pass s2 = Inr s3" by simp_all
  from f have f': "frame example_device example_ops (0, example_inputs) example_app = Inr (c1, t1)"
    "frame example_device example_ops (1, example_inputs) t1 = Inr (c2, t2)"
    "frame example_device example_ops (0, example_inputs) t2 = Inr (c3, t3)" by simp_all
  show ?thesis by (intro exI conjI) (rule p' a0 a1 a2 f' b1 b2)+
qed

text \<open>
  Claim C8. The copy loop of \<open>UpdateWaves\<close> is one \<open>CopyData\<close> per vertex index
  \<open>0, 1, \<dots>, VertexCount - 1\<close>, in this order, whatever the buffer held. When it returns,
  the current frame resource's \<open>WavesVB\<close> holds at each such index the simulation's
  position and normal and the texture coordinates
  \<open>(0.5 + Pos.x / Width, 0.5 - Pos.z / Depth)\<close>; a buffer of exactly \<open>VertexCount\<close>
  elements is rewritten in full, and no other frame resource changes. The call returns
  whenever the buffer has room for \<open>VertexCount\<close> vertices. The same holds of the frame
  resource selected by a whole frame.
\<close>

theorem C8_UpdateWaves_rewrites_buffer:
  fixes s :: App and fp :: FloatOps and w :: Waves and kin :: "nat \<times> FrameInputs"
  defines "vertex \<equiv> \<lambda>w j.
      \<lparr>Pos = Position w (int j), Normal = WNormal w (int j),
       TexC = (fadd fp f_0_5 (fdiv fp (fst (Position w (int j))) (Width w)),
               fsub fp f_0_5 (fdiv fp (snd (snd (Position w (int j)))) (Depth w)))\<rparr>"
  shows "UpdateWaves_loop fp w 0 vb
           = fold (\<lambda>j r. bind_err r (CopyData (int j) (vertex w j))) [0..<nat (VertexCount w)] (Inr vb)
       \<and> (\<forall>s'. UpdateWaves fp w s = Inr s' \<longrightarrow>
            length (WavesVB (mFrameResources s' ! mCurrFrameResourceIndex s))
              = length (WavesVB (mCurrFrameResource s))
            \<and> (\<forall>j<length (WavesVB (mCurrFrameResource s)).
                  WavesVB (mFrameResources s' ! mCurrFrameResourceIndex s) ! j
                    = (if int j < VertexCount w then vertex w j
                       else WavesVB (mCurrFrameResource s) ! j))
            \<and> (int (length (WavesVB (mCurrFrameResource s))) = VertexCount w \<longrightarrow>
                  WavesVB (mFrameResources s' ! mCurrFrameResourceIndex s)
                    = map (vertex w) [0..<nat (VertexCount w)])
            \<and> (\<forall>k. k \<noteq> mCurrFrameResourceIndex s \<longrightarrow>
                  mFrameResources s' ! k = mFrameResources s ! k))
       \<and> (mCurrFrameResourceIndex s < length (mFrameResources s)
            \<and> VertexCount w \<le> int (length (WavesVB (mCurrFrameResource s)))
            \<and> (\<exists>p. mWavesRitem s = Some p \<and> p < length (mAllRitems s)) \<longrightarrow>
              (\<exists>s'. UpdateWaves fp w s = Inr s'))
       \<and> (\<forall>calls s'. frame dev fp kin s = Inr (calls, s') \<longrightarrow>
            (\<forall>j<length (WavesVB (mFrameResources s ! mCurrFrameResourceIndex s')).
                WavesVB (mCurrFrameResource s') ! j
                  = (if int j < VertexCount (WavesNow (snd kin)) then vertex (WavesNow (snd kin)) j
                     else WavesVB (mFrameResources s ! mCurrFrameResourceIndex s') ! j))
            \<and> (int (length (WavesVB (mFrameResources s ! mCurrFrameResourceIndex s')))
                  = VertexCount (WavesNow (snd kin)) \<longrightarrow>
                WavesVB (mCurrFrameResource s')
                  = map (vertex (WavesNow (snd kin))) [0..<nat (VertexCount (WavesNow (snd kin)))]))"
proof -
  have v: "vertex w j = wave_vertex fp w (int j)" for w j
    by (simp add: vertex_def wave_vertex_def Let_def)
  have 1: "UpdateWaves_loop fp w 0 vb
           = fold (\<lambda>j r. bind_err r (CopyData (int j) (vertex w j))) [0..<nat (VertexCount w)] (Inr vb)"
    using UpdateWaves_loop_fold [of 0 fp w vb] by (simp add: v)
  have 2: "length (WavesVB (mFrameResources s' ! mCurrFrameResourceIndex s))
              = length (WavesVB (mCurrFrameResource s))
            \<and> (\<forall>j<length (WavesVB (mCurrFrameResource s)).
                  WavesVB (mFrameResources s' ! mCurrFrameResourceIndex s) ! j
                    = (if int j < VertexCount w then vertex w j
                       else WavesVB (mCurrFrameResource s) ! j))
            \<and> (int (length (WavesVB (mCurrFrameResource s))) = VertexCount w \<longrightarrow>
                  WavesVB (mFrameResources s' ! mCurrFrameResourceIndex s)
                    = map (vertex w) [0..<nat (VertexCount w)])
            \<and> (\<forall>k. k \<noteq> mCurrFrameResourceIndex s \<longrightarrow>
                  mFrameResources s' ! k = mFrameResources s ! k)"
    if u: "UpdateWaves fp w s = Inr s'" for s'
  proof -
    let ?k = "mCurrFrameResourceIndex s" and ?old = "WavesVB (mCurrFrameResource s)"
    from u [unfolded UpdateWaves_Inr_iff] obtain p where
      k: "?k < length (mFrameResources s)"
      and s': "s' = s\<lparr>mFrameResources := (mFrameResources s)
                      [?k := (mCurrFrameResource s)\<lparr>WavesVB := wavesvb_after fp w 0 ?old\<rparr>],
                    VertexBufferGPU := (VertexBufferGPU s)
                      (Geo (mAllRitems s ! p) := Some ?k)\<rparr>"
      by blast
    have new: "WavesVB (mFrameResources s' ! ?k) = wavesvb_after fp w 0 ?old"
      using k by (simp add: s')
    have a: "length (WavesVB (mFrameResources s' ! ?k)) = length ?old"
      by (simp add: new length_wavesvb_after)
    have b: "\<forall>j<length ?old. WavesVB (mFrameResources s' ! ?k) ! j
                    = (if int j < VertexCount w then vertex w j else ?old ! j)"
      by (simp add: new wavesvb_after_nth v)
    have c: "WavesVB (mFrameResources s' ! ?k) = map (vertex w) [0..<nat (VertexCount w)]"
      if "int (length ?old) = VertexCount w"
    proof -
      from that have "nat (VertexCount w) = length ?old" by linarith
      then show ?thesis using wavesvb_after_full [OF that, of fp] by (simp add: new v)
    qed
    have d: "\<forall>k. k \<noteq> ?k \<longrightarrow> mFrameResources s' ! k = mFrameResources s ! k"
      by (simp add: s')
    from a b c d show ?thesis by blast
  qed
  have 3: "\<exists>s'. UpdateWaves fp w s = Inr s'"
    if "mCurrFrameResourceIndex s < length (mFrameResources s)
            \<and> VertexCount w \<le> int (length (WavesVB (mCurrFrameResource s)))
            \<and> (\<exists>p. mWavesRitem s = Some p \<and> p < length (mAllRitems s))"
    using that unfolding UpdateWaves_Inr_iff by blast
  have 4: "(\<forall>j<length (WavesVB (mFrameResources s ! mCurrFrameResourceIndex s')).
                WavesVB (mCurrFrameResource s') ! j
                  = (if int j < VertexCount (WavesNow (snd kin)) then vertex (WavesNow (snd kin)) j
                     else WavesVB (mFrameResources s ! mCurrFrameResourceIndex s') ! j))
            \<and> (int (length (WavesVB (mFrameResources s ! mCurrFrameResourceIndex s')))
                  = VertexCount (WavesNow (snd kin)) \<longrightarrow>
                WavesVB (mCurrFrameResource s')
                  = map (vertex (WavesNow (snd kin))) [0..<nat (VertexCount (WavesNow (snd kin)))])"
    if f: "frame dev fp kin s = Inr (calls, s')" for calls s'
  proof -
    note F = frame_facts [OF f]
    let ?k = "mCurrFrameResourceIndex s'" and ?w = "WavesNow (snd kin)"
    let ?old = "WavesVB (mFrameResources s ! ?k)"
    have new: "WavesVB (mCurrFrameResource s') = wavesvb_after fp ?w 0 ?old"
      unfolding mCurrFrameResource_def F(1) by (rule F(14))
    have b: "\<forall>j<length ?old. WavesVB (mCurrFrameResource s') ! j
                  = (if int j < VertexCount ?w then vertex ?w j else ?old ! j)"
      by (simp add: new wavesvb_after_nth v)
    have c: "WavesVB (mCurrFrameResource s') = map (vertex ?w) [0..<nat (VertexCount ?w)]"
      if "int (length ?old) = VertexCount ?w"
    proof -
      from that have "nat (VertexCount ?w) = length ?old" by linarith
      then show ?thesis using wavesvb_after_full [OF that, of fp] by (simp add: new v)
    qed
    from b c show ?thesis by blast
  qed
  from 1 2 3 4 show ?thesis by blast
qed


theorem C8_witness:
  "\<exists>u calls s'.
     UpdateWaves example_ops example_waves example_app = Inr u
     \<and> WavesVB (mFrameResources u ! 0)
         = map (\<lambda>j. wave_vertex example_ops example_waves (int j)) [0, 1]
     \<and> frame example_device example_ops (0, example_inputs) example_app = Inr (calls, s')
     \<and> mCurrFrameResourceIndex s' = 1
     \<and> WavesVB (mCurrFrameResource s')
         = map (\<lambda>j. wave_vertex example_ops example_waves (int j)) [0, 1]"
proof -
  note C = C8_UpdateWaves_rewrites_buffer
             [of example_ops example_waves _ example_app example_device "(0, example_inputs)"]
  have len: "int (length (WavesVB (mCurrFrameResource example_app))) = VertexCount example_waves"
    by (simp add: example_app_def example_waves_def mCurrFrameResource_def new_FrameResource_def)
  have pre: "mCurrFrameResourceIndex example_app < length (mFrameResources example_app)
            \<and> VertexCount example_waves \<le> int (length (WavesVB (mCurrFrameResource example_app)))
            \<and> (\<exists>p. mWavesRitem example_app = Some p \<and> p < length (mAllRitems example_app))"
    using len by (simp add: example_app_def)
  from C [THEN conjunct2, THEN conjunct2, THEN conjunct1, rule_format, OF pre]
  obtain u where u: "UpdateWaves example_ops example_waves example_app = Inr u" by blast
  have n: "[0..<nat (VertexCount example_waves)] = [0, 1]"
    by (simp add: example_waves_def upt_conv_Cons)
  have k0: "mCurrFrameResourceIndex example_app = 0" by (simp add: example_app_def)
  have a: "WavesVB (mFrameResources u ! 0)
         = map (\<lambda>j. wave_vertex example_ops example_waves (int j)) [0, 1]"
    using C [THEN conjunct2, THEN conjunct1, rule_format, OF u,
             THEN conjunct2, THEN conjunct2, THEN conjunct1, rule_format, OF len]
    unfolding n k0 by (simp add: wave_vertex_def Let_def)
  have nw: "mCurrentFence example_app + 1 \<noteq> 0" by (simp add: example_app_def)
  have "\<exists>calls s'. frame example_device example_ops (0, example_inputs) example_app = Inr (calls, s')
          \<and> app_ok s'"
    by (rule app_ok_frame [OF example_app_ok _ nw]) (simp add: example_waves_fit)
  then obtain calls s' where
    f: "frame example_device example_ops (0, example_inputs) example_app = Inr (calls, s')"
    by blast
  have k1: "mCurrFrameResourceIndex s' = 1"
    using frame_facts(1) [OF f] by (simp add: example_app_def gNumFrameResources_def)
  have len1: "int (length (WavesVB (mFrameResources example_app ! mCurrFrameResourceIndex s')))
                = VertexCount (WavesNow (snd (0 :: nat, example_inputs)))"
    unfolding k1
    by (simp add: example_app_def example_inputs_def example_waves_def new_FrameResource_def)
  have b: "WavesVB (mCurrFrameResource s')
         = map (\<lambda>j. wave_vertex example_ops example_waves (int j)) [0, 1]"
    using C [THEN conjunct2, THEN conjunct2, THEN conjunct2, rule_format, OF f,
             THEN conjunct2, rule_format, OF len1] n
    by (simp add: wave_vertex_def Let_def example_inputs_def)
  show ?thesis by (intro exI conjI) (rule u a f k1 b)+
qed

text \<open>
  Claim C7. For a row and a column within \<open>[4, dim - 5]\<close> of a field that is \<open>NumRows\<close>
  by \<open>NumCols\<close>, the cross of the cell is five different positions inside the field.
  \<open>Disturb\<close> adds the magnitude at the centre and the neighbours' share at the four
  neighbours, and leaves every other cell, and the size of the field, as it was. A row
  or column whose cross does not lie inside the grid, in particular one outside the
  grid, is rejected: the field is returned unchanged.
\<close>

theorem C7_Disturb_five_cells:
  fixes w :: HeightField and fp :: FloatOps and share :: "float \<Rightarrow> float"
    and i j :: int and magnitude :: float
  defines "w' \<equiv> Disturb fp share i j magnitude w"
  shows "(4 \<le> i \<and> i \<le> NumRows w - 5 \<and> 4 \<le> j \<and> j \<le> NumCols w - 5
          \<and> int (length (Height w)) = NumRows w * NumCols w \<longrightarrow>
            length (cross w i j) = 5 \<and> distinct (cross w i j)
            \<and> (\<forall>k\<in>set (cross w i j). k < length (Height w))
            \<and> length (Height w') = length (Height w)
            \<and> NumRows w' = NumRows w \<and> NumCols w' = NumCols w
            \<and> (\<forall>k. k \<notin> set (cross w i j) \<longrightarrow> Height w' ! k = Height w ! k)
            \<and> Height w' ! cell w i j = fadd fp (Height w ! cell w i j) magnitude
            \<and> (\<forall>k\<in>set (tl (cross w i j)).
                  Height w' ! k = fadd fp (Height w ! k) (share magnitude)))
       \<and> (\<not> disturb_in_range w i j \<longrightarrow> w' = w)
       \<and> (\<not> (0 \<le> i \<and> i < NumRows w \<and> 0 \<le> j \<and> j < NumCols w) \<longrightarrow> w' = w)"
proof (intro conjI impI)
  assume "\<not> disturb_in_range w i j"
  then show "w' = w" by (simp add: w'_def Disturb_def)
next
  assume "\<not> (0 \<le> i \<and> i < NumRows w \<and> 0 \<le> j \<and> j < NumCols w)"
  then have "\<not> disturb_in_range w i j" unfolding disturb_in_range_def by linarith
  then show "w' = w" by (simp add: w'_def Disturb_def)
next
  assume a: "4 \<le> i \<and> i \<le> NumRows w - 5 \<and> 4 \<le> j \<and> j \<le> NumCols w - 5
          \<and> int (length (Height w)) = NumRows w * NumCols w"
  define n where "n = i * NumCols w + j"
  let ?C = "NumCols w" and ?h = "Height w"
  from a have r: "4 \<le> i" "i \<le> NumRows w - 5" "4 \<le> j" "j \<le> NumCols w - 5"
    and len: "int (length ?h) = NumRows w * ?C" by simp_all
  note X = cross_cells [OF r, folded n_def]
  have ir: "disturb_in_range w i j" using r unfolding disturb_in_range_def by linarith
  have c: "cell w i j = nat n" "cell w i (j + 1) = nat (n + 1)" "cell w i (j - 1) = nat (n - 1)"
    "cell w (i + 1) j = nat (n + ?C)" "cell w (i - 1) j = nat (n - ?C)"
    by (simp_all add: cell_def n_def algebra_simps)
  have pos: "0 < n - ?C" using X(2,4) by linarith
  have ne: "nat n \<noteq> nat (n + 1)" "nat n \<noteq> nat (n - 1)" "nat n \<noteq> nat (n + ?C)"
    "nat n \<noteq> nat (n - ?C)" "nat (n + 1) \<noteq> nat (n - 1)" "nat (n + 1) \<noteq> nat (n + ?C)"
    "nat (n + 1) \<noteq> nat (n - ?C)" "nat (n - 1) \<noteq> nat (n + ?C)" "nat (n - 1) \<noteq> nat (n - ?C)"
    "nat (n + ?C) \<noteq> nat (n - ?C)"
    using pos X(4) by (simp_all add: nat_eq_iff)
  have lt: "nat n < length ?h" "nat (n + 1) < length ?h" "nat (n - 1) < length ?h"
    "nat (n + ?C) < length ?h" "nat (n - ?C) < length ?h"
    using pos X(3,4) len by linarith+
  have w': "Height w' = add_at fp (share magnitude) (nat (n - ?C))
                (add_at fp (share magnitude) (nat (n + ?C))
                  (add_at fp (share magnitude) (nat (n - 1))
                    (add_at fp (share magnitude) (nat (n + 1))
                      (add_at fp magnitude (nat n) ?h))))"
    and keep: "NumRows w' = NumRows w" "NumCols w' = NumCols w"
    using ir len by (simp_all add: w'_def Disturb_def c)
  show "length (cross w i j) = 5" by (simp add: cross_def)
  show "distinct (cross w i j)" unfolding X(1) using ne by simp
  show "\<forall>k\<in>set (cross w i j). k < length ?h" unfolding X(1) using lt by simp
  show "length (Height w') = length ?h" by (simp add: w')
  show "NumRows w' = NumRows w" "NumCols w' = NumCols w" by (rule keep)+
  show "\<forall>k. k \<notin> set (cross w i j) \<longrightarrow> Height w' ! k = ?h ! k"
    unfolding X(1) w' by (simp add: add_at_other)
  show "Height w' ! cell w i j = fadd fp (?h ! cell w i j) magnitude"
    unfolding c w' using ne lt by (simp add: add_at_nth)
  show "\<forall>k\<in>set (tl (cross w i j)). Height w' ! k = fadd fp (?h ! k) (share magnitude)"
    unfolding X(1) w' using ne lt by (simp add: add_at_nth)
qed

theorem C7_witness:
  "cross example_field 4 4 = [40, 41, 39, 49, 31]
   \<and> map (\<lambda>k. Height (Disturb example_ops (\<lambda>m. m div 2) 4 4 f_1 example_field) ! k)
         [40, 41, 39, 49, 31, 0, 80]
       = [f_1, f_1 div 2, f_1 div 2, f_1 div 2, f_1 div 2, f_0, f_0]
   \<and> length (Height (Disturb example_ops (\<lambda>m. m div 2) 4 4 f_1 example_field)) = 81
   \<and> Disturb example_ops (\<lambda>m. m div 2) 4 9 f_1 example_field = example_field"
proof -
  note C = C7_Disturb_five_cells [where w = example_field and fp = example_ops
                                     and share = "\<lambda>m. m div 2" and magnitude = f_1]
  have pre: "4 \<le> (4 :: int) \<and> 4 \<le> NumRows example_field - 5 \<and> 4 \<le> (4 :: int)
          \<and> 4 \<le> NumCols example_field - 5
          \<and> int (length (Height example_field)) = NumRows example_field * NumCols example_field"
    by (simp add: example_field_def)
  note A = C [where i = 4 and j = 4, THEN conjunct1, rule_format, OF pre]
  have cr: "cross example_field 4 4 = [40, 41, 39, 49, 31]"
    and ce: "cell example_field 4 4 = 40"
    by (simp_all add: cross_def cell_def example_field_def)
  let ?h' = "Height (Disturb example_ops (\<lambda>m. m div 2) 4 4 f_1 example_field)"
  have old: "Height example_field ! k = f_0" if "k < 81" for k
    using that by (simp add: example_field_def)
  have z: "fadd example_ops f_0 x = x" for x
    by (simp add: example_ops_def f_0_def)
  from A have len: "length ?h' = 81" by (simp add: example_field_def)
  from A have "?h' ! cell example_field 4 4
                 = fadd example_ops (Height example_field ! cell example_field 4 4) f_1"
    by blast
  then have c: "?h' ! 40 = f_1" by (simp add: ce old z)
  from A have n: "\<forall>k\<in>set (tl (cross example_field 4 4)).
                     ?h' ! k = fadd example_ops (Height example_field ! k) (f_1 div 2)"
    by blast
  have n': "?h' ! 41 = f_1 div 2" "?h' ! 39 = f_1 div 2" "?h' ! 49 = f_1 div 2"
    "?h' ! 31 = f_1 div 2"
    using n unfolding cr by (simp_all add: old z)
  from A have u: "\<forall>k. k \<notin> set (cross example_field 4 4) \<longrightarrow> ?h' ! k = Height example_field ! k"
    by blast
  have u': "?h' ! 0 = f_0" "?h' ! 80 = f_0"
    using u unfolding cr by (simp_all add: old)
  have "\<not> disturb_in_range example_field 4 9"
    by (simp add: disturb_in_range_def example_field_def)
  with C [where i = 4 and j = 9]
  have rej: "Disturb example_ops (\<lambda>m. m div 2) 4 9 f_1 example_field = example_field"
    by blast
  have m: "map (\<lambda>k. ?h' ! k) [40, 41, 39, 49, 31, 0, 80]
       = [f_1, f_1 div 2, f_1 div 2, f_1 div 2, f_1 div 2, f_0, f_0]"
    by (simp add: c n' u')
  from cr m len rej show ?thesis by (intro conjI)
qed

end
